theory Spec2Isabelle
  imports Main
begin

section \<open>JavaScript values and Firestore documents\<close>

text \<open>
  The routes of \<^verbatim>\<open>routes/transaction.js\<close> and \<^verbatim>\<open>routes/booking.js\<close> work on
  JSON request bodies, on the objects returned by the Midtrans client and on Firestore
  documents. A value of JavaScript is one of the following; \<open>Undefined\<close> is what reading
  an absent property gives, \<open>ServerTimestamp\<close> is the sentinel
  \<^verbatim>\<open>admin.firestore.FieldValue.serverTimestamp()\<close>, which Firestore replaces by the time of
  the write. Numbers are the JSON integers.
\<close>

datatype jsval =
    Undefined
  | Null
  | Bool bool
  | Num int
  | Str string
  | Arr "jsval list"
  | Obj "(string \<times> jsval) list"
  | ServerTimestamp
  | Timestamp nat

type_synonym jsobj = "(string \<times> jsval) list"

type_synonym doc = "string \<rightharpoonup> jsval"

text \<open>Truthiness, as \<^verbatim>\<open>if (x)\<close>, \<^verbatim>\<open>!x\<close> and \<^verbatim>\<open>x || y\<close> test it.\<close>

fun truthy :: "jsval \<Rightarrow> bool" where
  "truthy Undefined = False"
| "truthy Null = False"
| "truthy (Bool b) = b"
| "truthy (Num n) = (n \<noteq> 0)"
| "truthy (Str s) = (s \<noteq> [])"
| "truthy (Arr vs) = True"
| "truthy (Obj kvs) = True"
| "truthy ServerTimestamp = True"
| "truthy (Timestamp t) = True"

definition js_or :: "jsval \<Rightarrow> jsval \<Rightarrow> jsval" where
  "js_or a b = (if truthy a then a else b)"

text \<open>Property reads: \<open>oprop\<close> on an object literal or a provider response,
  \<open>jsprop\<close> on a value that is known to be neither null nor undefined, \<open>field\<close> on the
  data of a document.\<close>

definition oprop :: "jsobj \<Rightarrow> string \<Rightarrow> jsval" where
  "oprop kvs k = (case map_of kvs k of None \<Rightarrow> Undefined | Some v \<Rightarrow> v)"

definition jsprop :: "jsval \<Rightarrow> string \<Rightarrow> jsval" where
  "jsprop v k = (case v of Obj kvs \<Rightarrow> oprop kvs k | _ \<Rightarrow> Undefined)"

definition field :: "doc \<Rightarrow> string \<Rightarrow> jsval" where
  "field d k = (case d k of None \<Rightarrow> Undefined | Some v \<Rightarrow> v)"

text \<open>
  String conversion inside a template literal \<^verbatim>\<open>`...${v}`\<close>. The values converted in
  the routes come from the JSON of the provider, where the two timestamp values do not
  occur; for them the conversion is that of a plain object.
\<close>

fun digits :: "nat \<Rightarrow> string" where
  "digits n =
     (if n < 10 then [char_of (48 + n)]
      else digits (n div 10) @ [char_of (48 + n mod 10)])"

fun join_comma :: "string list \<Rightarrow> string" where
  "join_comma [] = []"
| "join_comma [x] = x"
| "join_comma (x # y # ys) = x @ '','' @ join_comma (y # ys)"

fun toString :: "jsval \<Rightarrow> string" where
  "toString Undefined = ''undefined''"
| "toString Null = ''null''"
| "toString (Bool b) = (if b then ''true'' else ''false'')"
| "toString (Num n) = (if n < 0 then ''-'' @ digits (nat (- n)) else digits (nat n))"
| "toString (Str s) = s"
| "toString (Arr vs) =
     join_comma (map (\<lambda>v. if v = Undefined \<or> v = Null then [] else toString v) vs)"
| "toString (Obj kvs) = ''[object Object]''"
| "toString ServerTimestamp = ''[object Object]''"
| "toString (Timestamp t) = ''[object Object]''"

section \<open>The document store\<close>

text \<open>
  Four collections, \<^verbatim>\<open>transactions\<close>, \<^verbatim>\<open>orders\<close> and \<^verbatim>\<open>tagihan\<close> keyed by the order id
  and \<^verbatim>\<open>bookings\<close> keyed by the booking id. The operations are those of the Firestore
  admin SDK that the routes call: \<^verbatim>\<open>doc(id)\<close>, \<^verbatim>\<open>get\<close>, \<^verbatim>\<open>set\<close>, \<^verbatim>\<open>update\<close>,
  \<^verbatim>\<open>delete\<close> and the write batch. \<open>None\<close> is a thrown exception.
\<close>

record store =
  transactions :: "string \<rightharpoonup> doc"
  orders :: "string \<rightharpoonup> doc"
  tagihan :: "string \<rightharpoonup> doc"
  bookings :: "string \<rightharpoonup> doc"

datatype collection = Transactions | Orders | Tagihan | Bookings

fun coll :: "collection \<Rightarrow> store \<Rightarrow> (string \<rightharpoonup> doc)" where
  "coll Transactions s = transactions s"
| "coll Orders s = orders s"
| "coll Tagihan s = tagihan s"
| "coll Bookings s = bookings s"

fun coll_put :: "collection \<Rightarrow> (string \<rightharpoonup> doc) \<Rightarrow> store \<Rightarrow> store" where
  "coll_put Transactions m s = s\<lparr>transactions := m\<rparr>"
| "coll_put Orders m s = s\<lparr>orders := m\<rparr>"
| "coll_put Tagihan m s = s\<lparr>tagihan := m\<rparr>"
| "coll_put Bookings m s = s\<lparr>bookings := m\<rparr>"

text \<open>
  The environment of one request:
  \<^item> \<open>now\<close>, the server time of its writes;
  \<^item> \<open>ignoreUndefinedProperties\<close>, the setting of the Firestore handle. The handle is
    made in \<^verbatim>\<open>config/firebase.js\<close>, so the setting is a parameter here: when it is off
    (the default of the SDK) a write whose data holds \<^verbatim>\<open>undefined\<close> throws, when it is
    on the property is skipped;
  \<^item> \<open>libraryMessage\<close>, the message of an exception thrown by the Firestore SDK, which
    one route copies into its response;
  \<^item> \<open>parseInt\<close>, the built-in of JavaScript, whose result goes to the provider and into
    the \<^verbatim>\<open>amount\<close> of a transaction document.
\<close>

record env =
  now :: nat
  ignoreUndefinedProperties :: bool
  libraryMessage :: string
  parseInt :: "jsval \<Rightarrow> jsval"

text \<open>
  \<^verbatim>\<open>collection(c).doc(id)\<close>, as the SDK resolves it. It throws when \<open>id\<close> is not a string,
  is empty or contains \<^verbatim>\<open>//\<close>. Otherwise the id is split at \<^verbatim>\<open>/\<close>, a slash at its
  beginning or end is dropped with the empty segment it leaves, and the call throws
  unless the segments, after the name of the collection, make the path of a document:
  their number is odd. So \<^verbatim>\<open>a/b\<close> and \<^verbatim>\<open>/\<close> throw, \<^verbatim>\<open>a\<close> and \<^verbatim>\<open>a/\<close> are the same
  document of the collection, and \<^verbatim>\<open>a/b/c\<close> is a document below it. The key of a
  document in a collection of the model is its segments joined by \<^verbatim>\<open>/\<close>; \<open>doc_id\<close> is
  the \<^verbatim>\<open>id\<close> of the document, its last segment. A read or a write through a
  reference that \<^verbatim>\<open>doc\<close> has returned fails only as the operations below say.
\<close>

fun split_on :: "char \<Rightarrow> string \<Rightarrow> string list" where
  "split_on c [] = [[]]"
| "split_on c (x # xs) =
     (if x = c then [] # split_on c xs
      else (case split_on c xs of [] \<Rightarrow> [[x]] | seg # segs \<Rightarrow> (x # seg) # segs))"

fun double_slash :: "string \<Rightarrow> bool" where
  "double_slash (x # y # ys) = (x = CHR ''/'' \<and> y = CHR ''/'' \<or> double_slash (y # ys))"
| "double_slash [x] = False"
| "double_slash [] = False"

fun join_slash :: "string list \<Rightarrow> string" where
  "join_slash [] = []"
| "join_slash [x] = x"
| "join_slash (x # y # ys) = x @ ''/'' @ join_slash (y # ys)"

definition segments :: "string \<Rightarrow> string list" where
  "segments s = filter (\<lambda>seg. seg \<noteq> []) (split_on CHR ''/'' s)"

definition docRef :: "jsval \<Rightarrow> string option" where
  "docRef v =
     (case v of
        Str s \<Rightarrow>
          (if s = [] \<or> double_slash s then None
           else if odd (length (segments s)) then Some (join_slash (segments s))
           else None)
      | _ \<Rightarrow> None)"

definition doc_id :: "string \<Rightarrow> string" where
  "doc_id key = last (split_on CHR ''/'' key)"

text \<open>The check of the data of a write. Of the checks of the SDK the model has the one
  on \<^verbatim>\<open>undefined\<close> at the top level of the data, where the routes put what they have
  read from the request or from the provider. Below the top level the values are taken
  to be storable: they are parsed JSON, which holds no \<^verbatim>\<open>undefined\<close>, and their field
  names are taken to be non-empty.\<close>

definition validate :: "env \<Rightarrow> jsobj \<Rightarrow> jsobj option" where
  "validate e data =
     (if ignoreUndefinedProperties e then Some (filter (\<lambda>kv. snd kv \<noteq> Undefined) data)
      else if Undefined \<in> snd ` set data then None
      else Some data)"

definition resolve :: "nat \<Rightarrow> jsval \<Rightarrow> jsval" where
  "resolve t v = (if v = ServerTimestamp then Timestamp t else v)"

definition toDoc :: "env \<Rightarrow> jsobj \<Rightarrow> doc" where
  "toDoc e data = map_of (map (\<lambda>kv. (fst kv, resolve (now e) (snd kv))) data)"

definition fs_set :: "env \<Rightarrow> collection \<Rightarrow> string \<Rightarrow> jsobj \<Rightarrow> store \<Rightarrow> store option" where
  "fs_set e c i data s =
     (case validate e data of
        None \<Rightarrow> None
      | Some d \<Rightarrow> Some (coll_put c ((coll c s)(i \<mapsto> toDoc e d)) s))"

text \<open>\<^verbatim>\<open>update\<close> merges the given fields into a document that exists, and fails
  (NOT_FOUND) when it does not.\<close>

definition fs_update :: "env \<Rightarrow> collection \<Rightarrow> string \<Rightarrow> jsobj \<Rightarrow> store \<Rightarrow> store option" where
  "fs_update e c i data s =
     (case validate e data of
        None \<Rightarrow> None
      | Some d \<Rightarrow>
          (case coll c s i of
             None \<Rightarrow> None
           | Some old \<Rightarrow> Some (coll_put c ((coll c s)(i \<mapsto> old ++ toDoc e d)) s)))"

definition fs_delete :: "collection \<Rightarrow> string \<Rightarrow> store \<Rightarrow> store" where
  "fs_delete c i s = coll_put c ((coll c s)(i := None)) s"

text \<open>
  A write batch is the list of its updates. \<^verbatim>\<open>batch.update\<close> checks the data when it is
  called; \<^verbatim>\<open>batch.commit\<close> applies every update or none: it fails when one of the
  documents does not exist.
\<close>

type_synonym batch = "(collection \<times> string \<times> jsobj) list"

definition batch_update :: "env \<Rightarrow> batch \<Rightarrow> collection \<Rightarrow> string \<Rightarrow> jsobj \<Rightarrow> batch option" where
  "batch_update e b c i data =
     (case validate e data of None \<Rightarrow> None | Some d \<Rightarrow> Some (b @ [(c, i, d)]))"

definition apply_write :: "env \<Rightarrow> store \<Rightarrow> collection \<times> string \<times> jsobj \<Rightarrow> store" where
  "apply_write e s w =
     (case w of (c, i, d) \<Rightarrow>
        (case coll c s i of
           None \<Rightarrow> s
         | Some old \<Rightarrow> coll_put c ((coll c s)(i \<mapsto> old ++ toDoc e d)) s))"

definition batch_commit :: "env \<Rightarrow> batch \<Rightarrow> store \<Rightarrow> store option" where
  "batch_commit e b s =
     (if list_all (\<lambda>w. coll (fst w) s (fst (snd w)) \<noteq> None) b
      then Some (foldl (apply_write e) s b)
      else None)"

section \<open>The payment provider\<close>

text \<open>
  The Midtrans clients of \<^verbatim>\<open>config/midtrans.js\<close> are consumed as opaque calls:
  \<^verbatim>\<open>core.transaction.status(orderId)\<close>, \<^verbatim>\<open>snap.createTransaction(payload)\<close> and
  \<^verbatim>\<open>snap.transaction.notification(body)\<close>. Each either throws an error or returns an
  object. A route returns, with its response and the new store, the list of the provider
  calls it has made.
\<close>

datatype perr = ProviderError (httpStatusCode: string) (api_status_message: jsval)

record provider =
  transaction_status :: "string \<Rightarrow> perr + jsobj"
  createTransaction :: "jsval \<Rightarrow> perr + jsobj"
  transaction_notification :: "jsval \<Rightarrow> perr + jsobj"

datatype pcall = StatusCall string | CreateCall jsval | NotificationCall jsval

text \<open>A response is \<^verbatim>\<open>res.status(code).json({success: false, error: msg})\<close> or
  \<^verbatim>\<open>res.status(code).json({success: true, data: d})\<close>.\<close>

datatype 'a response = Err nat string | Ok nat 'a

section \<open>Reconciliation: the webhook path\<close>

text \<open>The status mapping of \<^verbatim>\<open>router.post('/notification')\<close>; the triple is
  (status, paymentStatus, tagihanStatus), \<open>prior\<close> the values read from the
  transaction document.\<close>

definition mapStatus_notification ::
  "jsval \<Rightarrow> jsval \<times> jsval \<times> jsval \<Rightarrow> jsval \<times> jsval \<times> jsval" where
  "mapStatus_notification transactionStatus prior =
     (if transactionStatus = Str ''capture'' \<or> transactionStatus = Str ''settlement'' then
        (Str ''confirmed'', Str ''Berhasil'', Str ''Berhasil'')
      else if transactionStatus = Str ''pending'' then
        (Str ''pending'', Str ''unpaid'', Str ''unpaid'')
      else if transactionStatus \<in> set [Str ''cancel'', Str ''deny'', Str ''expire''] then
        (Str ''cancelled'', Str ''failed'', Str ''failed'')
      else prior)"

definition notification_batch ::
  "env \<Rightarrow> string \<Rightarrow> string \<Rightarrow> jsval \<Rightarrow> jsval \<Rightarrow> jsval \<Rightarrow> jsval \<Rightarrow> batch option" where
  "notification_batch e oid bid status paymentStatus tagihanStatus notification =
     (case batch_update e [] Transactions oid
             [(''paymentStatus'', paymentStatus), (''status'', status),
              (''tagihanStatus'', tagihanStatus), (''midtrans_status'', notification),
              (''updated_at'', ServerTimestamp)] of
        None \<Rightarrow> None
      | Some b1 \<Rightarrow>
     (case batch_update e b1 Orders oid
             [(''paymentStatus'', paymentStatus), (''status'', status),
              (''updated_at'', ServerTimestamp)] of
        None \<Rightarrow> None
      | Some b2 \<Rightarrow>
     (case batch_update e b2 Tagihan oid
             [(''status'', tagihanStatus), (''updated_at'', ServerTimestamp)] of
        None \<Rightarrow> None
      | Some b3 \<Rightarrow>
          batch_update e b3 Bookings bid
             [(''paymentStatus'', paymentStatus), (''status'', status),
              (''tagihanStatus'', tagihanStatus), (''updated_at'', ServerTimestamp)])))"

text \<open>
  \<^verbatim>\<open>router.post('/notification')\<close>. Every exception is caught by the route's
  \<^verbatim>\<open>catch\<close>, which answers 500 \<^verbatim>\<open>Failed to process notification\<close>; that includes the
  \<^verbatim>\<open>throw new Error('Transaction document not found')\<close>, whose message goes to the console
  only.
\<close>

definition notification_route ::
  "env \<Rightarrow> provider \<Rightarrow> jsval \<Rightarrow> store \<Rightarrow> unit response \<times> store \<times> pcall list" where
  "notification_route e p body s =
     (let calls = [NotificationCall body];
          failed = (Err 500 ''Failed to process notification'', s, calls) in
      case transaction_notification p body of
        Inl err \<Rightarrow> failed
      | Inr notification \<Rightarrow>
          let orderId = oprop notification ''order_id'';
              transactionStatus = oprop notification ''transaction_status'' in
          (case docRef orderId of
             None \<Rightarrow> failed
           | Some oid \<Rightarrow>
          (case transactions s oid of
             None \<Rightarrow> failed
           | Some transaction \<Rightarrow>
          (case orders s oid of
             None \<Rightarrow> (Err 404 ''Order not found'', s, calls)
           | Some orderData \<Rightarrow>
          (case docRef (field orderData ''bookingId'') of
             None \<Rightarrow> failed
           | Some bid \<Rightarrow>
              (case mapStatus_notification transactionStatus
                      (field transaction ''status'', field transaction ''paymentStatus'',
                       field transaction ''tagihanStatus'') of
                 (status, paymentStatus, tagihanStatus) \<Rightarrow>
              (case notification_batch e oid bid status paymentStatus tagihanStatus
                      (Obj notification) of
                 None \<Rightarrow> failed
               | Some b \<Rightarrow>
              (case batch_commit e b s of
                 None \<Rightarrow> failed
               | Some s' \<Rightarrow> (Ok 200 (), s', calls)))))))))"

section \<open>Reconciliation: the poll path\<close>

text \<open>The status mapping of \<^verbatim>\<open>router.get('/check-status/:orderId')\<close>, written
  out a second time in the source.\<close>

definition mapStatus_checkStatus ::
  "jsval \<Rightarrow> jsval \<times> jsval \<times> jsval \<Rightarrow> jsval \<times> jsval \<times> jsval" where
  "mapStatus_checkStatus transStatus prior =
     (if transStatus = Str ''capture'' \<or> transStatus = Str ''settlement'' then
        (Str ''confirmed'', Str ''Berhasil'', Str ''Berhasil'')
      else if transStatus = Str ''pending'' then
        (Str ''pending'', Str ''unpaid'', Str ''unpaid'')
      else if transStatus \<in> set [Str ''cancel'', Str ''deny'', Str ''expire''] then
        (Str ''cancelled'', Str ''failed'', Str ''failed'')
      else prior)"

definition checkStatus_batch ::
  "env \<Rightarrow> string \<Rightarrow> string \<Rightarrow> jsval \<Rightarrow> jsval \<Rightarrow> jsval \<Rightarrow> jsval \<Rightarrow> batch option" where
  "checkStatus_batch e oid bid status paymentStatus tagihanStatus midtransStatus =
     (case batch_update e [] Transactions oid
             [(''paymentStatus'', paymentStatus), (''status'', status),
              (''tagihanStatus'', tagihanStatus), (''midtrans_status'', midtransStatus),
              (''updated_at'', ServerTimestamp)] of
        None \<Rightarrow> None
      | Some b1 \<Rightarrow>
     (case batch_update e b1 Orders oid
             [(''paymentStatus'', paymentStatus), (''status'', status),
              (''updated_at'', ServerTimestamp)] of
        None \<Rightarrow> None
      | Some b2 \<Rightarrow>
     (case batch_update e b2 Tagihan oid
             [(''status'', tagihanStatus), (''updated_at'', ServerTimestamp)] of
        None \<Rightarrow> None
      | Some b3 \<Rightarrow>
          batch_update e b3 Bookings bid
             [(''paymentStatus'', paymentStatus), (''status'', status),
              (''tagihanStatus'', tagihanStatus), (''updated_at'', ServerTimestamp)])))"

text \<open>
  The block \<^verbatim>\<open>if (transaction.snap_token) { try { ... } catch { } }\<close>. It returns the
  local variables (status, paymentStatus, tagihanStatus) and \<^verbatim>\<open>isLocalStatus\<close> as they
  stand when the block is left, the store and the provider calls. The provider is asked
  with the route parameter \<open>orderId\<close>; the documents are those of the keys \<open>oid\<close> and
  \<open>bid\<close>. The \<^verbatim>\<open>catch\<close> only
  logs: when the provider call throws the locals still hold the stored values, when a
  batch operation throws they already hold the mapped ones and \<^verbatim>\<open>isLocalStatus\<close> is
  already false.
\<close>

definition checkStatus_reconcile ::
  "env \<Rightarrow> provider \<Rightarrow> string \<Rightarrow> string \<Rightarrow> string \<Rightarrow> doc \<Rightarrow> store \<Rightarrow>
     (jsval \<times> jsval \<times> jsval) \<times> bool \<times> store \<times> pcall list" where
  "checkStatus_reconcile e p orderId oid bid transaction s =
     (let prior = (field transaction ''status'', field transaction ''paymentStatus'',
                   field transaction ''tagihanStatus'') in
      if truthy (field transaction ''snap_token'') then
        (case transaction_status p orderId of
           Inl err \<Rightarrow> (prior, True, s, [StatusCall orderId])
         | Inr midtransStatus \<Rightarrow>
             let transStatus = oprop midtransStatus ''transaction_status'' in
             (case mapStatus_checkStatus transStatus prior of
                (status, paymentStatus, tagihanStatus) \<Rightarrow>
             (case checkStatus_batch e oid bid status paymentStatus tagihanStatus
                     (Obj midtransStatus) of
                None \<Rightarrow> ((status, paymentStatus, tagihanStatus), False, s, [StatusCall orderId])
              | Some b \<Rightarrow>
             (case batch_commit e b s of
                None \<Rightarrow> ((status, paymentStatus, tagihanStatus), False, s, [StatusCall orderId])
              | Some s' \<Rightarrow>
                  ((status, paymentStatus, tagihanStatus), False, s', [StatusCall orderId])))))
      else (prior, True, s, []))"

text \<open>The data of the response of the status check: the object literal built for
  \<^verbatim>\<open>transaction\<close>, and the three documents read after the block (\<open>None\<close> is
  \<^verbatim>\<open>null\<close>).\<close>

record status_data =
  data_transaction :: jsobj
  data_order :: "doc option"
  data_tagihan :: "doc option"
  data_booking :: "doc option"

text \<open>
  \<^verbatim>\<open>router.get('/check-status/:orderId')\<close>, after \<^verbatim>\<open>verifyToken\<close> and the rate
  limiter. \<open>orderId\<close> is the route parameter.
\<close>

definition checkStatus_route ::
  "env \<Rightarrow> provider \<Rightarrow> string \<Rightarrow> store \<Rightarrow> status_data response \<times> store \<times> pcall list" where
  "checkStatus_route e p orderId s =
     (let failed = (Err 500 ''Failed to check status'', s, []) in
      case docRef (Str orderId) of
        None \<Rightarrow> failed
      | Some oid \<Rightarrow>
     (case transactions s oid of
        None \<Rightarrow> (Err 404 ''Transaction not found'', s, [])
      | Some transaction \<Rightarrow>
     (case orders s oid of
        None \<Rightarrow> (Err 404 ''Order not found'', s, [])
      | Some orderData \<Rightarrow>
     (case docRef (field orderData ''bookingId'') of
        None \<Rightarrow> failed
      | Some bid \<Rightarrow>
         (case checkStatus_reconcile e p orderId oid bid transaction s of
            ((status, paymentStatus, tagihanStatus), isLocalStatus, s', calls) \<Rightarrow>
              (Ok 200
                 \<lparr>data_transaction =
                    [(''orderId'', Str orderId), (''status'', status),
                     (''paymentStatus'', paymentStatus), (''tagihanStatus'', tagihanStatus),
                     (''isLocalStatus'', Bool isLocalStatus), (''transaction_status'', status)],
                  data_order = orders s' oid,
                  data_tagihan = tagihan s' oid,
                  data_booking = bookings s' bid\<rparr>,
               s', calls))))))"

section \<open>Creating the transaction\<close>

text \<open>The data of the response of \<^verbatim>\<open>/create-transaction\<close> and of
  \<^verbatim>\<open>/create-order\<close>: \<^verbatim>\<open>{order, tagihan, transaction}\<close>.\<close>

record transaction_data =
  data_of_order :: doc
  data_of_tagihan :: doc
  data_of_transaction :: doc

text \<open>Step 1 of \<^verbatim>\<open>router.post('/create-transaction')\<close>: create or get the order.
  \<open>Inl\<close> is the response of an early return or of the route's \<^verbatim>\<open>catch\<close>.\<close>

definition createOrGetOrder ::
  "env \<Rightarrow> string \<Rightarrow> string \<Rightarrow> jsval \<Rightarrow> jsval \<Rightarrow> jsval \<Rightarrow> store \<Rightarrow>
     transaction_data response + doc \<times> store" where
  "createOrGetOrder e uid oid bookingId orderId amount s =
     (case orders s oid of
        None \<Rightarrow>
          (let orderData =
                 [(''bookingId'', bookingId), (''orderId'', orderId), (''amount'', amount),
                  (''userId'', Str uid), (''status'', Str ''pending''),
                  (''created_at'', ServerTimestamp), (''updated_at'', ServerTimestamp)] in
           case fs_set e Orders oid orderData s of
             None \<Rightarrow> Inl (Err 500 ''Failed to process transaction'')
           | Some s' \<Rightarrow> Inr (map_of orderData, s'))
      | Some orderData \<Rightarrow>
          (if field orderData ''userId'' \<noteq> Str uid then Inl (Err 403 ''Access denied'')
           else Inr (orderData, s)))"

text \<open>Step 2: create or get the tagihan.\<close>

definition createOrGetTagihan ::
  "env \<Rightarrow> string \<Rightarrow> string \<Rightarrow> jsval \<Rightarrow> jsval \<Rightarrow> jsval \<Rightarrow> store \<Rightarrow> (doc \<times> store) option" where
  "createOrGetTagihan e uid oid bookingId orderId amount s =
     (case tagihan s oid of
        None \<Rightarrow>
          (let tagihanData =
                 [(''orderId'', orderId), (''bookingId'', bookingId), (''amount'', amount),
                  (''status'', Str ''pending''), (''userId'', Str uid),
                  (''created_at'', ServerTimestamp), (''updated_at'', ServerTimestamp)] in
           case fs_set e Tagihan oid tagihanData s of
             None \<Rightarrow> None
           | Some s' \<Rightarrow> Some (map_of tagihanData, s'))
      | Some tagihanData \<Rightarrow> Some (tagihanData, s))"

text \<open>Step 3: look the transaction up at the provider (any error of the lookup, 404
  or not, leaves \<^verbatim>\<open>existingMidtransTransaction\<close> undefined), and create it there when
  the lookup has found none. \<open>ident\<close> is the order id as the client of the provider
  puts it in the address of the lookup.\<close>

definition snapPayload :: "env \<Rightarrow> jsval \<Rightarrow> jsval \<Rightarrow> jsval \<Rightarrow> jsval \<Rightarrow> jsval" where
  "snapPayload e orderId amount customer_details payment_type =
     Obj ([(''transaction_details'',
              Obj [(''order_id'', orderId), (''gross_amount'', parseInt e amount)]),
           (''customer_details'',
              Obj [(''first_name'', js_or (jsprop customer_details ''name'') (Str ''Customer'')),
                   (''email'', js_or (jsprop customer_details ''email'') (Str ''customer@example.com'')),
                   (''phone'', js_or (jsprop customer_details ''phone'') (Str ''08123456789''))])]
          @ (if truthy payment_type then [(''enabled_payments'', Arr [payment_type])] else []))"

definition getSnapResponse ::
  "env \<Rightarrow> provider \<Rightarrow> string \<Rightarrow> jsval \<Rightarrow> jsval \<Rightarrow> jsval \<Rightarrow> jsval \<Rightarrow>
     (transaction_data response + jsobj) \<times> pcall list" where
  "getSnapResponse e p ident orderId amount customer_details payment_type =
     (case transaction_status p ident of
        Inr existingMidtransTransaction \<Rightarrow>
          (Inr [(''token'', oprop existingMidtransTransaction ''snap_token''),
                (''redirect_url'', oprop existingMidtransTransaction ''redirect_url'')],
           [StatusCall ident])
      | Inl err \<Rightarrow>
          (let payload = snapPayload e orderId amount customer_details payment_type in
           case createTransaction p payload of
             Inl err' \<Rightarrow>
               (Inl (Err 500 ''Failed to create payment transaction''),
                [StatusCall ident, CreateCall payload])
           | Inr snapResponse \<Rightarrow> (Inr snapResponse, [StatusCall ident, CreateCall payload])))"

text \<open>Step 4: create the transaction document, or update it with the token and the
  URLs of step 3. \<open>None\<close> is an exception of the write.\<close>

definition createOrUpdateTransaction ::
  "env \<Rightarrow> string \<Rightarrow> string \<Rightarrow> jsobj \<Rightarrow> jsobj \<Rightarrow> store \<Rightarrow> (doc \<times> store) option" where
  "createOrUpdateTransaction e uid oid body snapResponse s =
     (let token = oprop snapResponse ''token'';
          redirect_url = oprop snapResponse ''redirect_url'';
          payment_url = Str (''https://app.midtrans.com/snap/v2/vtweb/'' @ toString token) in
      case transactions s oid of
        None \<Rightarrow>
          (let transactionData =
                 [(''orderId'', oprop body ''orderId''), (''bookingId'', oprop body ''bookingId''),
                  (''amount'', oprop body ''amount''),
                  (''customer_details'', oprop body ''customer_details''),
                  (''userId'', Str uid), (''status'', Str ''pending''),
                  (''payment_type'', js_or (oprop body ''payment_type'') Null),
                  (''snap_token'', token), (''redirect_url'', redirect_url),
                  (''payment_url'', payment_url), (''midtrans_created'', Bool True),
                  (''created_at'', ServerTimestamp), (''updated_at'', ServerTimestamp)] in
           case fs_set e Transactions oid transactionData s of
             None \<Rightarrow> None
           | Some s' \<Rightarrow> Some (map_of transactionData, s'))
      | Some transactionData \<Rightarrow>
          (case fs_update e Transactions oid
                  [(''snap_token'', token), (''redirect_url'', redirect_url),
                   (''payment_url'', payment_url), (''midtrans_created'', Bool True),
                   (''updated_at'', ServerTimestamp)] s of
             None \<Rightarrow> None
           | Some s' \<Rightarrow>
               Some (transactionData ++
                       map_of [(''snap_token'', token), (''redirect_url'', redirect_url),
                               (''payment_url'', payment_url), (''midtrans_created'', Bool True)],
                     s')))"

text \<open>
  \<^verbatim>\<open>router.post('/create-transaction')\<close>, after \<^verbatim>\<open>verifyToken\<close>; \<open>uid\<close> is
  \<^verbatim>\<open>req.user.uid\<close>, \<open>body\<close> is \<^verbatim>\<open>req.body\<close>. The writes of the four steps are separate
  writes: a step that fails leaves those of the steps before it.
\<close>

definition create_transaction_route ::
  "env \<Rightarrow> provider \<Rightarrow> string \<Rightarrow> jsobj \<Rightarrow> store \<Rightarrow>
     transaction_data response \<times> store \<times> pcall list" where
  "create_transaction_route e p uid body s =
     (let bookingId = oprop body ''bookingId''; orderId = oprop body ''orderId'';
          amount = oprop body ''amount''; customer_details = oprop body ''customer_details'';
          payment_type = oprop body ''payment_type'' in
      if \<not> truthy bookingId \<or> \<not> truthy orderId \<or> \<not> truthy amount \<or> \<not> truthy customer_details
      then (Err 400 ''Missing required fields'', s, [])
      else
     (case docRef orderId of
        None \<Rightarrow> (Err 500 ''Failed to process transaction'', s, [])
      | Some oid \<Rightarrow>
     (case createOrGetOrder e uid oid bookingId orderId amount s of
        Inl r \<Rightarrow> (r, s, [])
      | Inr (orderData, s1) \<Rightarrow>
     (case createOrGetTagihan e uid oid bookingId orderId amount s1 of
        None \<Rightarrow> (Err 500 ''Failed to process transaction'', s1, [])
      | Some (tagihanData, s2) \<Rightarrow>
     (case getSnapResponse e p (toString orderId) orderId amount customer_details payment_type of
        (Inl r, calls) \<Rightarrow> (r, s2, calls)
      | (Inr snapResponse, calls) \<Rightarrow>
     (case createOrUpdateTransaction e uid oid body snapResponse s2 of
        None \<Rightarrow> (Err 500 ''Failed to process transaction'', s2, calls)
      | Some (transactionData, s3) \<Rightarrow>
          (Ok 201 \<lparr>data_of_order = orderData, data_of_tagihan = tagihanData,
                   data_of_transaction = transactionData\<rparr>,
           s3, calls)))))))"

section \<open>Creating the order\<close>

definition validPaymentTypes :: "jsval list" where
  "validPaymentTypes =
     map Str [''credit_card'', ''mandiri_clickpay'', ''cimb_clicks'', ''bca_klikbca'',
              ''bca_klikpay'', ''bri_epay'', ''echannel'', ''permata_va'', ''bca_va'',
              ''bni_va'', ''other_va'', ''gopay'', ''indomaret'', ''shopeepay'']"

definition midtransPayload :: "env \<Rightarrow> jsval \<Rightarrow> jsval \<Rightarrow> jsval \<Rightarrow> jsval \<Rightarrow> jsval \<Rightarrow> jsval" where
  "midtransPayload e bookingId orderId amount customerDetails paymentType =
     Obj ([(''transaction_details'',
              Obj [(''order_id'', orderId), (''gross_amount'', parseInt e amount)]),
           (''item_details'',
              Arr [Obj [(''id'', bookingId), (''price'', parseInt e amount),
                        (''quantity'', Num 1), (''name'', Str ''Medical Consultation'')]]),
           (''customer_details'',
              Obj [(''first_name'', js_or (jsprop customerDetails ''name'') (Str ''Customer'')),
                   (''email'', js_or (jsprop customerDetails ''email'') (Str ''customer@example.com'')),
                   (''phone'', js_or (jsprop customerDetails ''phone'') (Str ''08123456789''))])]
          @ (if truthy paymentType \<and> paymentType \<noteq> Str ''all'' \<and> paymentType \<in> set validPaymentTypes
             then [(''enabled_payments'', Arr [paymentType])] else []))"

text \<open>The \<^verbatim>\<open>catch\<close> around the creation at the provider: it deletes the order and the
  tagihan of the order id and throws the error that the route's \<^verbatim>\<open>catch\<close> turns into
  the 500 response. \<open>msg\<close> is \<^verbatim>\<open>error.ApiResponse.status_message\<close> of the caught error,
  \<open>Undefined\<close> when it has none.\<close>

definition cleanUp :: "string \<Rightarrow> jsval \<Rightarrow> store \<Rightarrow> transaction_data response \<times> store" where
  "cleanUp oid msg s =
     (let s' = fs_delete Tagihan oid (fs_delete Orders oid s) in
      if truthy msg then (Err 500 (''Payment error: '' @ toString msg), s')
      else (Err 500 ''Failed to process payment. Please try again.'', s'))"

text \<open>
  \<^verbatim>\<open>router.post('/create-order')\<close>, after \<^verbatim>\<open>verifyToken\<close>. An exception outside the
  inner \<^verbatim>\<open>try\<close> is answered with its own message, or with \<^verbatim>\<open>Failed to create order\<close>
  when that is empty. The test \<^verbatim>\<open>if (!snap)\<close> is on the client object of
  \<^verbatim>\<open>config/midtrans.js\<close>, which is never undefined once the module has loaded.
\<close>

definition create_order_route ::
  "env \<Rightarrow> provider \<Rightarrow> string \<Rightarrow> jsobj \<Rightarrow> store \<Rightarrow>
     transaction_data response \<times> store \<times> pcall list" where
  "create_order_route e p uid body s =
     (let bookingId = oprop body ''bookingId''; orderId = oprop body ''orderId'';
          amount = oprop body ''amount''; customerDetails = oprop body ''customerDetails'';
          paymentType = oprop body ''paymentType'';
          thrown = Err 500 (if libraryMessage e = [] then ''Failed to create order''
                            else libraryMessage e) in
      if \<not> truthy bookingId \<or> \<not> truthy orderId \<or> \<not> truthy amount \<or> \<not> truthy customerDetails
           \<or> \<not> truthy paymentType
      then (Err 400 ''Missing required fields'', s, [])
      else
     (case docRef orderId of
        None \<Rightarrow> (thrown, s, [])
      | Some oid \<Rightarrow>
     (case (case orders s oid of
              None \<Rightarrow>
                (let order =
                       [(''bookingId'', bookingId), (''orderId'', orderId), (''amount'', amount),
                        (''customerDetails'', customerDetails), (''paymentType'', paymentType),
                        (''userId'', Str uid), (''status'', Str ''pending''),
                        (''created_at'', ServerTimestamp), (''updated_at'', ServerTimestamp)] in
                 case fs_set e Orders oid order s of
                   None \<Rightarrow> Inl thrown
                 | Some s' \<Rightarrow> Inr (map_of order, s'))
            | Some order \<Rightarrow>
                (if field order ''userId'' \<noteq> Str uid then Inl (Err 403 ''Access denied'')
                 else Inr (order, s))) of
        Inl r \<Rightarrow> (r, s, [])
      | Inr (order, s1) \<Rightarrow>
     (case (case tagihan s1 oid of
              None \<Rightarrow>
                (let tagihanData =
                       [(''bookingId'', bookingId), (''orderId'', orderId), (''amount'', amount),
                        (''status'', Str ''pending''), (''userId'', Str uid),
                        (''created_at'', ServerTimestamp), (''updated_at'', ServerTimestamp)] in
                 case fs_set e Tagihan oid tagihanData s1 of
                   None \<Rightarrow> None
                 | Some s' \<Rightarrow> Some (map_of tagihanData, s'))
            | Some tagihanData \<Rightarrow> Some (tagihanData, s1)) of
        None \<Rightarrow> (thrown, s1, [])
      | Some (tagihanData, s2) \<Rightarrow>
     (case transactions s2 oid of
        Some transaction \<Rightarrow>
          (if field transaction ''userId'' \<noteq> Str uid then (Err 403 ''Access denied'', s2, [])
           else (Ok 200 \<lparr>data_of_order = order, data_of_tagihan = tagihanData,
                         data_of_transaction = transaction\<rparr>, s2, []))
      | None \<Rightarrow>
          (let payload = midtransPayload e bookingId orderId amount customerDetails paymentType;
               calls = [CreateCall payload] in
           case createTransaction p payload of
             Inl err \<Rightarrow>
               (case cleanUp oid (api_status_message err) s2 of (r, s') \<Rightarrow> (r, s', calls))
           | Inr midtransResponse \<Rightarrow>
               (if \<not> truthy (oprop midtransResponse ''token'')
                     \<or> \<not> truthy (oprop midtransResponse ''redirect_url'')
                then (case cleanUp oid Undefined s2 of (r, s') \<Rightarrow> (r, s', calls))
                else
                  (let transaction =
                         [(''bookingId'', bookingId), (''orderId'', orderId),
                          (''amount'', parseInt e amount), (''userId'', Str uid),
                          (''status'', Str ''pending''), (''payment_type'', paymentType),
                          (''snap_token'', oprop midtransResponse ''token''),
                          (''redirect_url'', oprop midtransResponse ''redirect_url''),
                          (''created_at'', ServerTimestamp), (''updated_at'', ServerTimestamp)] in
                   case fs_set e Transactions oid transaction s2 of
                     None \<Rightarrow> (case cleanUp oid Undefined s2 of (r, s') \<Rightarrow> (r, s', calls))
                   | Some s3 \<Rightarrow>
                       (Ok 200 \<lparr>data_of_order = order, data_of_tagihan = tagihanData,
                                data_of_transaction = map_of transaction\<rparr>, s3, calls)))))))))"

section \<open>The payment URL of a transaction\<close>


section \<open>Updating the status of a booking\<close>


section \<open>Reading the store\<close>

text \<open>The field \<open>k\<close> of the document \<open>i\<close> of a collection, \<open>Undefined\<close> when the
  document or the field is absent.\<close>

definition stored :: "(string \<rightharpoonup> doc) \<Rightarrow> string \<Rightarrow> string \<Rightarrow> jsval" where
  "stored m i k = (case m i of None \<Rightarrow> Undefined | Some d \<Rightarrow> field d k)"

text \<open>The four records of an order exist: the transaction, the order and the tagihan
  under the key \<open>oid\<close>, and the booking under the key \<open>bid\<close>, which is the document
  that the \<^verbatim>\<open>bookingId\<close> of the order names.\<close>

definition linked :: "store \<Rightarrow> string \<Rightarrow> string \<Rightarrow> bool" where
  "linked s oid bid =
     (transactions s oid \<noteq> None \<and> tagihan s oid \<noteq> None \<and> bookings s bid \<noteq> None
      \<and> docRef (stored (orders s) oid ''bookingId'') = Some bid)"

text \<open>The store after the batch of a reconciliation has been committed on the four
  documents \<open>t\<close>, \<open>od\<close>, \<open>tg\<close> and \<open>bk\<close> with the triple (\<open>a\<close>, \<open>b\<close>, \<open>c\<close>) and the
  provider's payload \<open>n\<close>.\<close>

definition reconciled ::
  "env \<Rightarrow> string \<Rightarrow> string \<Rightarrow> jsval \<Rightarrow> jsval \<Rightarrow> jsval \<Rightarrow> jsval \<Rightarrow>
     doc \<Rightarrow> doc \<Rightarrow> doc \<Rightarrow> doc \<Rightarrow> store \<Rightarrow> store" where
  "reconciled e oid bid a b c n t od tg bk s =
     s\<lparr>transactions := (transactions s)(oid \<mapsto> t ++ toDoc e
          [(''paymentStatus'', b), (''status'', a), (''tagihanStatus'', c),
           (''midtrans_status'', n), (''updated_at'', ServerTimestamp)]),
       orders := (orders s)(oid \<mapsto> od ++ toDoc e
          [(''paymentStatus'', b), (''status'', a), (''updated_at'', ServerTimestamp)]),
       tagihan := (tagihan s)(oid \<mapsto> tg ++ toDoc e
          [(''status'', c), (''updated_at'', ServerTimestamp)]),
       bookings := (bookings s)(bid \<mapsto> bk ++ toDoc e
          [(''paymentStatus'', b), (''status'', a), (''tagihanStatus'', c),
           (''updated_at'', ServerTimestamp)])\<rparr>"

fun succeeded :: "'a response \<Rightarrow> bool" where
  "succeeded (Ok code d) = True"
| "succeeded (Err code msg) = False"

fun response_data :: "'a response \<Rightarrow> 'a option" where
  "response_data (Ok code d) = Some d"
| "response_data (Err code msg) = None"

section \<open>Reconciliation events\<close>

text \<open>
  A reconciliation enters by one of the two routes: the provider posts a notification,
  or a client polls the status of an order. \<open>deliver\<close> runs the route of the event and
  returns whether it has answered with success, and the store it leaves; \<open>reports\<close> says
  that the provider, asked by the route of the event, reports the status \<open>st\<close> for an
  order id that names the documents of the key \<open>oid\<close>.
\<close>

datatype event = Webhook provider jsval | Poll provider string

fun deliver :: "env \<Rightarrow> event \<Rightarrow> store \<Rightarrow> bool \<times> store" where
  "deliver e (Webhook p body) s =
     (succeeded (fst (notification_route e p body s)), fst (snd (notification_route e p body s)))"
| "deliver e (Poll p orderId) s =
     (succeeded (fst (checkStatus_route e p orderId s)), fst (snd (checkStatus_route e p orderId s)))"

fun reports :: "event \<Rightarrow> string \<Rightarrow> jsval \<Rightarrow> bool" where
  "reports (Webhook p body) oid st =
     (case transaction_notification p body of
        Inl err \<Rightarrow> False
      | Inr n \<Rightarrow> docRef (oprop n ''order_id'') = Some oid \<and> oprop n ''transaction_status'' = st)"
| "reports (Poll p orderId) oid st =
     (docRef (Str orderId) = Some oid \<and>
      (case transaction_status p orderId of
         Inl err \<Rightarrow> False
       | Inr n \<Rightarrow> oprop n ''transaction_status'' = st))"

fun is_poll :: "event \<Rightarrow> bool" where
  "is_poll (Webhook p body) = False"
| "is_poll (Poll p orderId) = True"

section \<open>Example data\<close>

text \<open>An environment, a provider that reports the status \<open>st\<close> of the order \<open>oid\<close> and
  creates nothing, and a store that holds the four records of one order, all pending.
  The amounts of the examples are integers, on which \<^verbatim>\<open>parseInt\<close> is the identity.\<close>

definition env0 :: env where
  "env0 = \<lparr>now = 1000, ignoreUndefinedProperties = False,
           libraryMessage = ''Value for argument documentPath is not a valid resource path'',
           parseInt = (\<lambda>v. v)\<rparr>"

text \<open>The same environment when the handle of the store is set to ignore undefined
  properties.\<close>

definition env_ignoring :: env where
  "env_ignoring = env0\<lparr>ignoreUndefinedProperties := True\<rparr>"

definition provider_reporting :: "string \<Rightarrow> string \<Rightarrow> provider" where
  "provider_reporting oid st =
     \<lparr>transaction_status = (\<lambda>i. if i = oid
          then Inr [(''order_id'', Str oid), (''transaction_status'', Str st),
                    (''fraud_status'', Str ''accept'')]
          else Inl (ProviderError ''404'' Undefined)),
      createTransaction = (\<lambda>payload. Inl (ProviderError ''500'' Undefined)),
      transaction_notification = (\<lambda>body.
          Inr [(''order_id'', Str oid), (''transaction_status'', Str st),
               (''fraud_status'', Str ''accept'')])\<rparr>"

definition pending_store :: "string \<Rightarrow> string \<Rightarrow> store" where
  "pending_store oid bid =
     \<lparr>transactions = [oid \<mapsto> map_of
          [(''orderId'', Str oid), (''bookingId'', Str bid), (''amount'', Num 50000),
           (''userId'', Str ''user-1''), (''status'', Str ''pending''),
           (''snap_token'', Str ''token-1''),
           (''redirect_url'', Str ''https://app.midtrans.com/snap/v2/vtweb/token-1'')]],
      orders = [oid \<mapsto> map_of
          [(''bookingId'', Str bid), (''orderId'', Str oid), (''amount'', Num 50000),
           (''userId'', Str ''user-1''), (''status'', Str ''pending'')]],
      tagihan = [oid \<mapsto> map_of
          [(''bookingId'', Str bid), (''orderId'', Str oid), (''amount'', Num 50000),
           (''status'', Str ''pending''), (''userId'', Str ''user-1'')]],
      bookings = [bid \<mapsto> map_of
          [(''bookingId'', Str bid), (''pasienId'', Str ''user-1''),
           (''status'', Str ''pending''), (''paymentStatus'', Str ''unpaid'')]]\<rparr>"

text \<open>The order ORD-2 of the specification's scenario: all pending, then a notification
  with the provider status \<open>pending\<close>, then one with \<open>expire\<close>.\<close>

definition ord2_after_expire :: store where
  "ord2_after_expire =
     snd (deliver env0 (Webhook (provider_reporting ''ORD-2'' ''expire'') (Obj []))
       (snd (deliver env0 (Webhook (provider_reporting ''ORD-2'' ''pending'') (Obj []))
          (pending_store ''ORD-2'' ''BOOK-2''))))"

text \<open>The order ORD-1 of the specification's scenario: all pending, then a notification
  with the provider status \<open>settlement\<close>.\<close>

definition ord1_after_settlement :: store where
  "ord1_after_settlement =
     snd (deliver env0 (Webhook (provider_reporting ''ORD-1'' ''settlement'') (Obj []))
            (pending_store ''ORD-1'' ''BOOK-1''))"

text \<open>The error that a response reports, if it is one.\<close>

fun error_of :: "'a response \<Rightarrow> (nat \<times> string) option" where
  "error_of (Err code msg) = Some (code, msg)"
| "error_of (Ok code d) = None"

text \<open>The records of the order ORD-4 without its booking, and without its
  transaction.\<close>

definition no_booking_store :: store where
  "no_booking_store = (pending_store ''ORD-4'' ''BOOK-4'')\<lparr>bookings := Map.empty\<rparr>"

definition no_transaction_store :: store where
  "no_transaction_store = (pending_store ''ORD-4'' ''BOOK-4'')\<lparr>transactions := Map.empty\<rparr>"

text \<open>The records of the order ORD-3, whose transaction has no token.\<close>

definition no_token_store :: store where
  "no_token_store =
     (pending_store ''ORD-3'' ''BOOK-3'')
       \<lparr>transactions := [''ORD-3'' \<mapsto> map_of
          [(''orderId'', Str ''ORD-3''), (''bookingId'', Str ''BOOK-3''), (''amount'', Num 50000),
           (''userId'', Str ''user-1''), (''status'', Str ''pending'')]]\<rparr>"

text \<open>The same store when the order document of ORD-3 has been deleted.\<close>

definition no_order_store :: store where
  "no_order_store = no_token_store\<lparr>orders := Map.empty\<rparr>"

text \<open>The poll of the order ORD-1 while the provider reports \<open>settlement\<close>.\<close>

definition ord1_poll ::  "status_data response \<times> store \<times> pcall list" where
  "ord1_poll =
     checkStatus_route env0 (provider_reporting ''ORD-1'' ''settlement'') ''ORD-1''
       (pending_store ''ORD-1'' ''BOOK-1'')"

text \<open>A store without documents; the body of the create-transaction request of
  \<^verbatim>\<open>test/test-api.js\<close>, for the order ORD-1; a provider that holds no transaction and
  creates one with the token \<open>tok\<close>; a provider that holds none and fails to create one;
  and a provider that holds a transaction, which its status lookup returns as \<open>ex\<close>.\<close>

definition empty_store :: store where
  "empty_store = \<lparr>transactions = Map.empty, orders = Map.empty, tagihan = Map.empty,
                  bookings = Map.empty\<rparr>"

definition test_order :: jsobj where
  "test_order =
     [(''bookingId'', Str ''BOOK-1''), (''orderId'', Str ''ORD-1''), (''amount'', Num 50000),
      (''customer_details'',
         Obj [(''name'', Str ''Test User''), (''email'', Str ''test@example.com''),
              (''phone'', Str ''081234567890'')])]"

definition provider_creating :: "string \<Rightarrow> provider" where
  "provider_creating tok =
     \<lparr>transaction_status = (\<lambda>i. Inl (ProviderError ''404'' Undefined)),
      createTransaction = (\<lambda>payload.
          Inr [(''token'', Str tok),
               (''redirect_url'', Str (''https://app.midtrans.com/snap/v2/vtweb/'' @ tok))]),
      transaction_notification = (\<lambda>body. Inl (ProviderError ''404'' Undefined))\<rparr>"

definition provider_failing :: provider where
  "provider_failing =
     \<lparr>transaction_status = (\<lambda>i. Inl (ProviderError ''404'' Undefined)),
      createTransaction = (\<lambda>payload. Inl (ProviderError ''500'' Undefined)),
      transaction_notification = (\<lambda>body. Inl (ProviderError ''404'' Undefined))\<rparr>"

definition provider_holding :: "jsobj \<Rightarrow> provider" where
  "provider_holding ex =
     \<lparr>transaction_status = (\<lambda>i. Inr ex),
      createTransaction = (\<lambda>payload. Inl (ProviderError ''406'' Undefined)),
      transaction_notification = (\<lambda>body. Inl (ProviderError ''404'' Undefined))\<rparr>"

text \<open>The field \<open>k\<close> of the transaction that a response of \<^verbatim>\<open>/create-transaction\<close>
  or \<^verbatim>\<open>/create-order\<close> returns; \<open>None\<close> when the response is an error.\<close>

fun returned :: "transaction_data response \<Rightarrow> string \<Rightarrow> jsval option" where
  "returned (Ok code d) k = Some (field (data_of_transaction d) k)"
| "returned (Err code msg) k = None"

text \<open>The first create-transaction request for the order ORD-1, on the empty store,
  when the provider creates the transaction with the token \<open>token-1\<close>.\<close>

definition first_create :: "transaction_data response \<times> store \<times> pcall list" where
  "first_create =
     create_transaction_route env0 (provider_creating ''token-1'') ''user-1'' test_order empty_store"

text \<open>What the status lookup of the provider returns for ORD-1 once the transaction
  is held: the order id, the status of the transaction and the fraud status.\<close>

definition held_status_only :: jsobj where
  "held_status_only =
     [(''order_id'', Str ''ORD-1''), (''transaction_status'', Str ''pending''),
      (''fraud_status'', Str ''accept'')]"


section \<open>Facts about the store operations and the two reconciliation routes\<close>

declare deliver.simps [simp del] reports.simps [simp del]

text \<open>An id without a slash is the key and the id of its document.\<close>

lemma split_on_plain: "c \<notin> set s \<Longrightarrow> split_on c s = [s]"
  by (induction s) auto

lemma double_slash_plain: "CHR ''/'' \<notin> set s \<Longrightarrow> \<not> double_slash s"
  by (induction s rule: double_slash.induct) auto

lemma docRef_plain: "s \<noteq> [] \<Longrightarrow> CHR ''/'' \<notin> set s \<Longrightarrow> docRef (Str s) = Some s"
  by (simp add: docRef_def segments_def split_on_plain double_slash_plain)

lemma doc_id_plain: "CHR ''/'' \<notin> set s \<Longrightarrow> doc_id s = s"
  by (simp add: doc_id_def split_on_plain)

lemma docRef_Str: "docRef v = Some k \<Longrightarrow> \<exists>x. v = Str x"
  by (cases v) (simp_all add: docRef_def)

lemma validate_defined: "Undefined \<notin> snd ` set data \<Longrightarrow> validate e data = Some data"
  by (force simp: validate_def filter_id_conv)

lemma toDoc_apply: "toDoc e data k = map_option (resolve (now e)) (map_of data k)"
  by (induction data) (auto simp: toDoc_def)

lemma field_merge:
  "field (d ++ toDoc e data) k =
     (case map_of data k of None \<Rightarrow> field d k | Some v \<Rightarrow> resolve (now e) v)"
  by (simp add: field_def map_add_def toDoc_apply split: option.splits)

lemma notification_batch_defined:
  assumes "a \<noteq> Undefined" "b \<noteq> Undefined" "c \<noteq> Undefined" "n \<noteq> Undefined"
  shows "notification_batch e oid bid a b c n =
    Some [(Transactions, oid,
             [(''paymentStatus'', b), (''status'', a),
              (''tagihanStatus'', c), (''midtrans_status'', n),
              (''updated_at'', ServerTimestamp)]),
          (Orders, oid, [(''paymentStatus'', b), (''status'', a),
              (''updated_at'', ServerTimestamp)]),
          (Tagihan, oid, [(''status'', c), (''updated_at'', ServerTimestamp)]),
          (Bookings, bid, [(''paymentStatus'', b), (''status'', a),
              (''tagihanStatus'', c), (''updated_at'', ServerTimestamp)])]"
  using assms by (simp add: notification_batch_def batch_update_def validate_defined)

lemma batch_same: "checkStatus_batch = notification_batch"
  by (simp add: fun_eq_iff checkStatus_batch_def notification_batch_def)

lemma commit4:
  assumes "transactions s oid = Some t" "orders s oid = Some od" "tagihan s oid = Some tg" "bookings s bid = Some bk"
  shows "batch_commit e [(Transactions, oid, d1), (Orders, oid, d2), (Tagihan, oid, d3), (Bookings, bid, d4)] s
    = Some (s\<lparr>transactions := (transactions s)(oid \<mapsto> t ++ toDoc e d1),
              orders := (orders s)(oid \<mapsto> od ++ toDoc e d2),
              tagihan := (tagihan s)(oid \<mapsto> tg ++ toDoc e d3),
              bookings := (bookings s)(bid \<mapsto> bk ++ toDoc e d4)\<rparr>)"
  using assms by (simp add: batch_commit_def apply_write_def)

lemma batch_shape:
  "notification_batch e oid bid a b c n = Some bt \<Longrightarrow>
   \<exists>d1 d2 d3 d4. bt = [(Transactions, oid, d1), (Orders, oid, d2), (Tagihan, oid, d3), (Bookings, bid, d4)]"
  by (auto simp: notification_batch_def batch_update_def split: option.splits)

lemma commit_absent:
  assumes "notification_batch e oid bid a b c n = Some bt"
    and "transactions s oid = None \<or> orders s oid = None \<or> tagihan s oid = None \<or> bookings s bid = None"
  shows "batch_commit e bt s = None"
  using batch_shape [OF assms(1)] assms(2) by (auto simp: batch_commit_def)

lemma linked_docs:
  "linked s oid bid \<Longrightarrow>
   \<exists>t od tg bk. transactions s oid = Some t \<and> orders s oid = Some od \<and> tagihan s oid = Some tg
      \<and> bookings s bid = Some bk \<and> docRef (field od ''bookingId'') = Some bid"
  by (auto simp: linked_def stored_def docRef_def split: option.splits)

lemma notification_commits:
  assumes docs: "transactions s oid = Some t" "orders s oid = Some od" "tagihan s oid = Some tg"
      "bookings s bid = Some bk" "docRef (field od ''bookingId'') = Some bid"
    and n: "transaction_notification p body = Inr n" "docRef (oprop n ''order_id'') = Some oid"
    and m: "mapStatus_notification (oprop n ''transaction_status'')
              (field t ''status'', field t ''paymentStatus'', field t ''tagihanStatus'') = (a, b, c)"
    and d: "a \<noteq> Undefined" "b \<noteq> Undefined" "c \<noteq> Undefined"
  shows "notification_route e p body s =
           (Ok 200 (), reconciled e oid bid a b c (Obj n) t od tg bk s, [NotificationCall body])"
  using assms
  by (simp add: notification_route_def notification_batch_defined commit4 reconciled_def)

lemma checkStatus_commits:
  assumes docs: "transactions s oid = Some t" "orders s oid = Some od" "tagihan s oid = Some tg"
      "bookings s bid = Some bk" "docRef (field od ''bookingId'') = Some bid"
    and oid: "docRef (Str orderId) = Some oid"
    and tok: "truthy (field t ''snap_token'')"
    and n: "transaction_status p orderId = Inr n"
    and m: "mapStatus_checkStatus (oprop n ''transaction_status'')
              (field t ''status'', field t ''paymentStatus'', field t ''tagihanStatus'') = (a, b, c)"
    and d: "a \<noteq> Undefined" "b \<noteq> Undefined" "c \<noteq> Undefined"
  shows "checkStatus_route e p orderId s =
           (Ok 200 \<lparr>data_transaction =
                    [(''orderId'', Str orderId), (''status'', a),
                     (''paymentStatus'', b), (''tagihanStatus'', c),
                     (''isLocalStatus'', Bool False), (''transaction_status'', a)],
                  data_order = orders (reconciled e oid bid a b c (Obj n) t od tg bk s) oid,
                  data_tagihan = tagihan (reconciled e oid bid a b c (Obj n) t od tg bk s) oid,
                  data_booking = bookings (reconciled e oid bid a b c (Obj n) t od tg bk s) bid\<rparr>,
            reconciled e oid bid a b c (Obj n) t od tg bk s, [StatusCall orderId])"
  using assms
  by (simp add: checkStatus_route_def checkStatus_reconcile_def batch_same
        notification_batch_defined commit4 reconciled_def)

lemma mapStatus_recognized:
  assumes "st \<in> set [Str ''capture'', Str ''settlement'', Str ''pending'',
                     Str ''cancel'', Str ''deny'', Str ''expire'']"
  shows "mapStatus_notification st pr = mapStatus_notification st (Undefined, Undefined, Undefined)"
    and "mapStatus_checkStatus st pr = mapStatus_notification st (Undefined, Undefined, Undefined)"
    and "fst (mapStatus_notification st pr) \<noteq> Undefined"
    and "fst (snd (mapStatus_notification st pr)) \<noteq> Undefined"
    and "snd (snd (mapStatus_notification st pr)) \<noteq> Undefined"
  using assms by (auto simp: mapStatus_notification_def mapStatus_checkStatus_def)

lemma deliver_commits:
  assumes l: "linked s oid bid"
    and tok: "is_poll ev \<longrightarrow> truthy (stored (transactions s) oid ''snap_token'')"
    and r: "reports ev oid st"
    and st: "st \<in> set [Str ''capture'', Str ''settlement'', Str ''pending'',
                     Str ''cancel'', Str ''deny'', Str ''expire'']"
    and m: "mapStatus_notification st (Undefined, Undefined, Undefined) = (a, b, c)"
  shows "\<exists>t od tg bk n. transactions s oid = Some t \<and> orders s oid = Some od
           \<and> tagihan s oid = Some tg \<and> bookings s bid = Some bk
           \<and> docRef (field od ''bookingId'') = Some bid
           \<and> deliver e ev s = (True, reconciled e oid bid a b c (Obj n) t od tg bk s)"
proof -
  from linked_docs [OF l] obtain t od tg bk where
    docs: "transactions s oid = Some t" "orders s oid = Some od" "tagihan s oid = Some tg"
      "bookings s bid = Some bk" "docRef (field od ''bookingId'') = Some bid"
    by blast
  from mapStatus_recognized(3-5) [OF st, of "(Undefined, Undefined, Undefined)"] m
  have d: "a \<noteq> Undefined" "b \<noteq> Undefined" "c \<noteq> Undefined" by simp_all
  show ?thesis
  proof (cases ev)
    case (Webhook p body)
    with r obtain n where n: "transaction_notification p body = Inr n"
      "docRef (oprop n ''order_id'') = Some oid" "oprop n ''transaction_status'' = st"
      by (auto simp: reports.simps split: sum.splits)
    have "mapStatus_notification (oprop n ''transaction_status'')
              (field t ''status'', field t ''paymentStatus'', field t ''tagihanStatus'') = (a, b, c)"
      using mapStatus_recognized(1) [OF st] m n(3) by simp
    from notification_commits [OF docs n(1,2) this d, of e]
    show ?thesis using Webhook docs by (auto simp: deliver.simps)
  next
    case (Poll p orderId)
    with r obtain n where n: "docRef (Str orderId) = Some oid" "transaction_status p orderId = Inr n"
      "oprop n ''transaction_status'' = st"
      by (auto simp: reports.simps split: sum.splits)
    have tk: "truthy (field t ''snap_token'')"
      using tok Poll docs(1) by (simp add: stored_def)
    have "mapStatus_checkStatus (oprop n ''transaction_status'')
              (field t ''status'', field t ''paymentStatus'', field t ''tagihanStatus'') = (a, b, c)"
      using mapStatus_recognized(2) [OF st] m n(3) by simp
    from checkStatus_commits [OF docs n(1) tk n(2) this d, of e]
    show ?thesis using Poll docs by (auto simp: deliver.simps)
  qed
qed

lemma stored_reconciled:
  "stored (transactions (reconciled e oid bid a b c n t od tg bk s)) oid k =
     (if k = ''paymentStatus'' then resolve (now e) b else if k = ''status'' then resolve (now e) a
      else if k = ''tagihanStatus'' then resolve (now e) c
      else if k = ''midtrans_status'' then resolve (now e) n
      else if k = ''updated_at'' then Timestamp (now e) else field t k)"
  "stored (orders (reconciled e oid bid a b c n t od tg bk s)) oid k =
     (if k = ''paymentStatus'' then resolve (now e) b else if k = ''status'' then resolve (now e) a
      else if k = ''updated_at'' then Timestamp (now e) else field od k)"
  "stored (tagihan (reconciled e oid bid a b c n t od tg bk s)) oid k =
     (if k = ''status'' then resolve (now e) c
      else if k = ''updated_at'' then Timestamp (now e) else field tg k)"
  "stored (bookings (reconciled e oid bid a b c n t od tg bk s)) bid k =
     (if k = ''paymentStatus'' then resolve (now e) b else if k = ''status'' then resolve (now e) a
      else if k = ''tagihanStatus'' then resolve (now e) c
      else if k = ''updated_at'' then Timestamp (now e) else field bk k)"
  by (simp_all add: reconciled_def stored_def field_merge resolve_def)

lemma linked_reconciled:
  assumes "linked s oid bid" "orders s oid = Some od"
  shows "linked (reconciled e oid bid a b c n t od tg bk s) oid bid"
  using assms by (simp add: linked_def stored_reconciled) (simp add: reconciled_def stored_def)

lemma resolve_Str [simp]: "resolve t (Str x) = Str x"
  by (simp add: resolve_def)

lemma deliver_effect:
  assumes l: "linked s oid bid"
    and tok: "is_poll ev \<longrightarrow> truthy (stored (transactions s) oid ''snap_token'')"
    and r: "reports ev oid st"
    and st: "st \<in> set [Str ''capture'', Str ''settlement'', Str ''pending'',
                     Str ''cancel'', Str ''deny'', Str ''expire'']"
    and m: "mapStatus_notification st pr = (a, b, c)"
  shows "fst (deliver e ev s)"
    and "linked (snd (deliver e ev s)) oid bid"
    and "k \<noteq> ''midtrans_status'' \<Longrightarrow> k \<noteq> ''updated_at'' \<Longrightarrow>
         stored (transactions (snd (deliver e ev s))) oid k =
           (if k = ''paymentStatus'' then b else if k = ''status'' then a
            else if k = ''tagihanStatus'' then c else stored (transactions s) oid k)"
    and "k \<noteq> ''updated_at'' \<Longrightarrow>
         stored (orders (snd (deliver e ev s))) oid k =
           (if k = ''paymentStatus'' then b else if k = ''status'' then a
            else stored (orders s) oid k)"
    and "k \<noteq> ''updated_at'' \<Longrightarrow>
         stored (tagihan (snd (deliver e ev s))) oid k =
           (if k = ''status'' then c else stored (tagihan s) oid k)"
    and "k \<noteq> ''updated_at'' \<Longrightarrow>
         stored (bookings (snd (deliver e ev s))) bid k =
           (if k = ''paymentStatus'' then b else if k = ''status'' then a
            else if k = ''tagihanStatus'' then c else stored (bookings s) bid k)"
proof -
  have m': "mapStatus_notification st (Undefined, Undefined, Undefined) = (a, b, c)"
    using mapStatus_recognized(1) [OF st, of pr] m by simp
  from mapStatus_recognized(3-5) [OF st, of pr] m
  have d: "a \<noteq> Undefined" "b \<noteq> Undefined" "c \<noteq> Undefined" by simp_all
  have abc: "resolve (now e) a = a" "resolve (now e) b = b" "resolve (now e) c = c"
    using m st by (auto simp: mapStatus_notification_def)
  from deliver_commits [OF l tok r st m', of e] obtain t od tg bk n where
    docs: "transactions s oid = Some t" "orders s oid = Some od" "tagihan s oid = Some tg"
      "bookings s bid = Some bk"
    and dl: "deliver e ev s = (True, reconciled e oid bid a b c (Obj n) t od tg bk s)"
    by blast
  show "fst (deliver e ev s)" by (simp add: dl)
  show "linked (snd (deliver e ev s)) oid bid"
    by (simp add: dl linked_reconciled [OF l docs(2)])
  show "k \<noteq> ''midtrans_status'' \<Longrightarrow> k \<noteq> ''updated_at'' \<Longrightarrow>
         stored (transactions (snd (deliver e ev s))) oid k =
           (if k = ''paymentStatus'' then b else if k = ''status'' then a
            else if k = ''tagihanStatus'' then c else stored (transactions s) oid k)"
    by (simp add: dl stored_reconciled abc) (simp add: stored_def docs)
  show "k \<noteq> ''updated_at'' \<Longrightarrow>
         stored (orders (snd (deliver e ev s))) oid k =
           (if k = ''paymentStatus'' then b else if k = ''status'' then a
            else stored (orders s) oid k)"
    by (simp add: dl stored_reconciled abc) (simp add: stored_def docs)
  show "k \<noteq> ''updated_at'' \<Longrightarrow>
         stored (tagihan (snd (deliver e ev s))) oid k =
           (if k = ''status'' then c else stored (tagihan s) oid k)"
    by (simp add: dl stored_reconciled abc) (simp add: stored_def docs)
  show "k \<noteq> ''updated_at'' \<Longrightarrow>
         stored (bookings (snd (deliver e ev s))) bid k =
           (if k = ''paymentStatus'' then b else if k = ''status'' then a
            else if k = ''tagihanStatus'' then c else stored (bookings s) bid k)"
    by (simp add: dl stored_reconciled abc) (simp add: stored_def docs)
qed

lemma fixture_linked:
  "docRef (Str bid) = Some bid \<Longrightarrow> linked (pending_store oid bid) oid bid"
  by (simp add: linked_def pending_store_def stored_def field_def)

lemma fixture_token: "stored (transactions (pending_store oid bid)) oid ''snap_token'' = Str ''token-1''"
  by (simp add: pending_store_def stored_def field_def)

lemma fixture_reports:
  assumes "docRef (Str oid) = Some oid"
  shows "reports (Webhook (provider_reporting oid st) body) oid (Str st)"
    and "reports (Poll (provider_reporting oid st) oid) oid (Str st)"
  using assms by (simp_all add: reports.simps provider_reporting_def oprop_def)

lemma fixture_ids:
  "docRef (Str ''ORD-1'') = Some ''ORD-1''" "docRef (Str ''ORD-2'') = Some ''ORD-2''"
  "docRef (Str ''ORD-3'') = Some ''ORD-3''" "docRef (Str ''ORD-4'') = Some ''ORD-4''"
  "docRef (Str ''BOOK-1'') = Some ''BOOK-1''" "docRef (Str ''BOOK-2'') = Some ''BOOK-2''"
  "docRef (Str ''BOOK-3'') = Some ''BOOK-3''" "docRef (Str ''BOOK-4'') = Some ''BOOK-4''"
  by (simp_all add: docRef_plain)

lemmas ord1_reports = fixture_reports [OF fixture_ids(1)]
lemmas ord2_reports = fixture_reports [OF fixture_ids(2)]
lemmas ord1_linked = fixture_linked [OF fixture_ids(5), of "''ORD-1''"]
lemmas ord2_linked = fixture_linked [OF fixture_ids(6), of "''ORD-2''"]

lemma notification_absent:
  assumes n: "transaction_notification p body = Inr n"
  shows "docRef (oprop n ''order_id'') = None \<Longrightarrow>
           notification_route e p body s =
             (Err 500 ''Failed to process notification'', s, [NotificationCall body])"
    and "docRef (oprop n ''order_id'') = Some oid \<Longrightarrow> transactions s oid = None \<Longrightarrow>
           notification_route e p body s =
             (Err 500 ''Failed to process notification'', s, [NotificationCall body])"
    and "docRef (oprop n ''order_id'') = Some oid \<Longrightarrow> transactions s oid = Some t \<Longrightarrow>
         orders s oid = None \<Longrightarrow>
           notification_route e p body s = (Err 404 ''Order not found'', s, [NotificationCall body])"
    and "docRef (oprop n ''order_id'') = Some oid \<Longrightarrow> transactions s oid = Some t \<Longrightarrow>
         orders s oid = Some od \<Longrightarrow> docRef (field od ''bookingId'') = None \<Longrightarrow>
           notification_route e p body s =
             (Err 500 ''Failed to process notification'', s, [NotificationCall body])"
    and "docRef (oprop n ''order_id'') = Some oid \<Longrightarrow> transactions s oid = Some t \<Longrightarrow>
         orders s oid = Some od \<Longrightarrow> docRef (field od ''bookingId'') = Some bid \<Longrightarrow>
         tagihan s oid = None \<or> bookings s bid = None \<Longrightarrow>
           notification_route e p body s =
             (Err 500 ''Failed to process notification'', s, [NotificationCall body])"
proof -
  show "docRef (oprop n ''order_id'') = None \<Longrightarrow>
           notification_route e p body s =
             (Err 500 ''Failed to process notification'', s, [NotificationCall body])"
    using n by (simp add: notification_route_def)
  show "docRef (oprop n ''order_id'') = Some oid \<Longrightarrow> transactions s oid = None \<Longrightarrow>
           notification_route e p body s =
             (Err 500 ''Failed to process notification'', s, [NotificationCall body])"
    using n by (simp add: notification_route_def)
  show "docRef (oprop n ''order_id'') = Some oid \<Longrightarrow> transactions s oid = Some t \<Longrightarrow>
         orders s oid = None \<Longrightarrow>
           notification_route e p body s = (Err 404 ''Order not found'', s, [NotificationCall body])"
    using n by (simp add: notification_route_def)
  show "docRef (oprop n ''order_id'') = Some oid \<Longrightarrow> transactions s oid = Some t \<Longrightarrow>
         orders s oid = Some od \<Longrightarrow> docRef (field od ''bookingId'') = None \<Longrightarrow>
           notification_route e p body s =
             (Err 500 ''Failed to process notification'', s, [NotificationCall body])"
    using n by (simp add: notification_route_def)
  show "docRef (oprop n ''order_id'') = Some oid \<Longrightarrow> transactions s oid = Some t \<Longrightarrow>
         orders s oid = Some od \<Longrightarrow> docRef (field od ''bookingId'') = Some bid \<Longrightarrow>
         tagihan s oid = None \<or> bookings s bid = None \<Longrightarrow>
           notification_route e p body s =
             (Err 500 ''Failed to process notification'', s, [NotificationCall body])"
    using n
    by (auto simp: notification_route_def Let_def commit_absent
             split: option.splits prod.splits)
qed

lemma checkStatus_reconcile_absent:
  assumes "tagihan s oid = None \<or> bookings s bid = None"
  shows "fst (snd (snd (checkStatus_reconcile e p orderId oid bid t s))) = s"
  using assms
  by (auto simp: checkStatus_reconcile_def Let_def batch_same commit_absent
           split: sum.splits option.splits prod.splits)

lemma checkStatus_absent:
  shows "docRef (Str orderId) = None \<Longrightarrow>
           checkStatus_route e p orderId s = (Err 500 ''Failed to check status'', s, [])"
    and "docRef (Str orderId) = Some oid \<Longrightarrow> transactions s oid = None \<Longrightarrow>
           checkStatus_route e p orderId s = (Err 404 ''Transaction not found'', s, [])"
    and "docRef (Str orderId) = Some oid \<Longrightarrow> transactions s oid = Some t \<Longrightarrow>
         orders s oid = None \<Longrightarrow>
           checkStatus_route e p orderId s = (Err 404 ''Order not found'', s, [])"
    and "docRef (Str orderId) = Some oid \<Longrightarrow> transactions s oid = Some t \<Longrightarrow>
         orders s oid = Some od \<Longrightarrow> docRef (field od ''bookingId'') = None \<Longrightarrow>
           checkStatus_route e p orderId s = (Err 500 ''Failed to check status'', s, [])"
    and "docRef (Str orderId) = Some oid \<Longrightarrow> transactions s oid = Some t \<Longrightarrow>
         orders s oid = Some od \<Longrightarrow> docRef (field od ''bookingId'') = Some bid \<Longrightarrow>
         bookings s bid = None \<Longrightarrow>
           succeeded (fst (checkStatus_route e p orderId s))
           \<and> fst (snd (checkStatus_route e p orderId s)) = s
           \<and> map_option data_booking (response_data (fst (checkStatus_route e p orderId s)))
               = Some None"
proof -
  show "docRef (Str orderId) = None \<Longrightarrow>
           checkStatus_route e p orderId s = (Err 500 ''Failed to check status'', s, [])"
    by (simp add: checkStatus_route_def)
  show "docRef (Str orderId) = Some oid \<Longrightarrow> transactions s oid = None \<Longrightarrow>
           checkStatus_route e p orderId s = (Err 404 ''Transaction not found'', s, [])"
    by (simp add: checkStatus_route_def)
  show "docRef (Str orderId) = Some oid \<Longrightarrow> transactions s oid = Some t \<Longrightarrow>
         orders s oid = None \<Longrightarrow>
           checkStatus_route e p orderId s = (Err 404 ''Order not found'', s, [])"
    by (simp add: checkStatus_route_def)
  show "docRef (Str orderId) = Some oid \<Longrightarrow> transactions s oid = Some t \<Longrightarrow>
         orders s oid = Some od \<Longrightarrow> docRef (field od ''bookingId'') = None \<Longrightarrow>
           checkStatus_route e p orderId s = (Err 500 ''Failed to check status'', s, [])"
    by (simp add: checkStatus_route_def)
  assume a: "docRef (Str orderId) = Some oid" "transactions s oid = Some t"
         "orders s oid = Some od" "docRef (field od ''bookingId'') = Some bid"
         "bookings s bid = None"
  obtain tr isLocal s' calls where
    rc: "checkStatus_reconcile e p orderId oid bid t s = (tr, isLocal, s', calls)"
    by (metis prod_cases4)
  have "s' = s"
    using checkStatus_reconcile_absent [of s oid bid e p orderId t] a(5) rc by simp
  then show "succeeded (fst (checkStatus_route e p orderId s))
           \<and> fst (snd (checkStatus_route e p orderId s)) = s
           \<and> map_option data_booking (response_data (fst (checkStatus_route e p orderId s)))
               = Some None"
    using a rc
    by (cases tr) (simp add: checkStatus_route_def)
qed

lemma checkStatus_reconcile_uncommitted:
  assumes "truthy (field t ''snap_token'')" "transaction_status p orderId = Inr n"
    and "mapStatus_checkStatus (oprop n ''transaction_status'')
           (field t ''status'', field t ''paymentStatus'', field t ''tagihanStatus'') = (a, b, c)"
    and "tagihan s oid = None \<or> bookings s bid = None"
  shows "checkStatus_reconcile e p orderId oid bid t s = ((a, b, c), False, s, [StatusCall orderId])"
  using assms
  by (auto simp: checkStatus_reconcile_def Let_def batch_same commit_absent split: option.splits)


text \<open>The example stores of the order ORD-4.\<close>

lemma ord4_facts:
  "transactions no_booking_store ''ORD-4'' = Some (map_of
          [(''orderId'', Str ''ORD-4''), (''bookingId'', Str ''BOOK-4''), (''amount'', Num 50000),
           (''userId'', Str ''user-1''), (''status'', Str ''pending''),
           (''snap_token'', Str ''token-1''),
           (''redirect_url'', Str ''https://app.midtrans.com/snap/v2/vtweb/token-1'')])"
  "orders no_booking_store ''ORD-4'' = Some (map_of
          [(''bookingId'', Str ''BOOK-4''), (''orderId'', Str ''ORD-4''), (''amount'', Num 50000),
           (''userId'', Str ''user-1''), (''status'', Str ''pending'')])"
  "stored (orders no_booking_store) ''ORD-4'' ''bookingId'' = Str ''BOOK-4''"
  "bookings no_booking_store ''BOOK-4'' = None"
  "transactions no_transaction_store ''ORD-4'' = None"
  "transaction_notification (provider_reporting ''ORD-4'' ''settlement'') (Obj []) =
     Inr [(''order_id'', Str ''ORD-4''), (''transaction_status'', Str ''settlement''),
          (''fraud_status'', Str ''accept'')]"
  "oprop [(''order_id'', Str ''ORD-4''), (''transaction_status'', Str ''settlement''),
          (''fraud_status'', Str ''accept'')] ''order_id'' = Str ''ORD-4''"
  by (simp_all add: no_booking_store_def no_transaction_store_def pending_store_def
        provider_reporting_def stored_def field_def oprop_def)







text \<open>The four steps of the creation of a transaction.\<close>

lemma validate_keeps:
  assumes "validate e data = Some d" "map_of data k = Some v" "v \<noteq> Undefined"
  shows "map_of d k = Some v"
proof (cases "ignoreUndefinedProperties e")
  case True
  with assms(1) have d: "d = filter (\<lambda>kv. snd kv \<noteq> Undefined) data"
    by (simp add: validate_def)
  have "map_of (filter (\<lambda>(k, v). v \<noteq> Undefined) data) k = Some v"
    by (rule map_of_filter_in [OF assms(2)]) (simp add: assms(3))
  then show ?thesis by (simp add: d case_prod_unfold)
next
  case False
  with assms(1) have "d = data"
    by (simp add: validate_def split: if_splits)
  then show ?thesis using assms(2) by simp
qed

lemma validate_strict:
  assumes "validate e data = Some d" "\<not> ignoreUndefinedProperties e" "map_of data k = Some v"
  shows "v \<noteq> Undefined"
proof -
  from assms(1,2) have "Undefined \<notin> snd ` set data"
    by (simp add: validate_def split: if_splits)
  moreover have "(k, v) \<in> set data" by (rule map_of_SomeD [OF assms(3)])
  ultimately show ?thesis by force
qed

lemma field_toDoc_Str:
  assumes "validate e data = Some d" "map_of data k = Some (Str x)"
  shows "field (m ++ toDoc e d) k = Str x" "field (toDoc e d) k = Str x"
  using validate_keeps [OF assms] by (simp_all add: field_def map_add_def toDoc_apply)

lemma createOrGetOrder_Inr:
  assumes "createOrGetOrder e uid oid bookingId orderId amount s = Inr (od, s1)"
  shows "stored (orders s1) oid ''userId'' = Str uid \<and> orders s1 oid \<noteq> None
       \<and> transactions s1 = transactions s \<and> tagihan s1 = tagihan s \<and> bookings s1 = bookings s
       \<and> (orders s oid \<noteq> None \<longrightarrow> s1 = s)"
proof (cases "orders s oid")
  case None
  let ?data = "[(''bookingId'', bookingId), (''orderId'', orderId), (''amount'', amount),
                  (''userId'', Str uid), (''status'', Str ''pending''),
                  (''created_at'', ServerTimestamp), (''updated_at'', ServerTimestamp)]"
  from assms None obtain d where v: "validate e ?data = Some d"
    and s1: "s1 = s\<lparr>orders := (orders s)(oid \<mapsto> toDoc e d)\<rparr>"
    by (auto simp: createOrGetOrder_def fs_set_def Let_def split: option.splits)
  have "field (toDoc e d) ''userId'' = Str uid"
    by (rule field_toDoc_Str(2) [OF v]) simp
  then show ?thesis using None by (simp add: s1 stored_def)
next
  case (Some od')
  with assms show ?thesis
    by (auto simp: createOrGetOrder_def stored_def split: if_splits)
qed

lemma createOrGetTagihan_Some:
  assumes "createOrGetTagihan e uid oid bookingId orderId amount s = Some (tg, s1)"
  shows "tagihan s1 oid \<noteq> None \<and> transactions s1 = transactions s \<and> orders s1 = orders s
       \<and> bookings s1 = bookings s \<and> (tagihan s oid \<noteq> None \<longrightarrow> s1 = s)"
  using assms
  by (auto simp: createOrGetTagihan_def fs_set_def Let_def split: option.splits)

lemma createOrUpdateTransaction_Some:
  assumes "createOrUpdateTransaction e uid oid body sr s = Some (td, s1)"
  shows "transactions s1 oid \<noteq> None \<and> orders s1 = orders s \<and> tagihan s1 = tagihan s
       \<and> bookings s1 = bookings s
       \<and> field td ''snap_token'' = oprop sr ''token''
       \<and> field td ''redirect_url'' = oprop sr ''redirect_url''
       \<and> (\<not> ignoreUndefinedProperties e \<longrightarrow>
            oprop sr ''token'' \<noteq> Undefined \<and> oprop sr ''redirect_url'' \<noteq> Undefined)"
proof (cases "transactions s oid")
  case None
  let ?data = "[(''orderId'', oprop body ''orderId''), (''bookingId'', oprop body ''bookingId''),
                  (''amount'', oprop body ''amount''),
                  (''customer_details'', oprop body ''customer_details''),
                  (''userId'', Str uid), (''status'', Str ''pending''),
                  (''payment_type'', js_or (oprop body ''payment_type'') Null),
                  (''snap_token'', oprop sr ''token''), (''redirect_url'', oprop sr ''redirect_url''),
                  (''payment_url'', Str (''https://app.midtrans.com/snap/v2/vtweb/'' @ toString (oprop sr ''token''))),
                  (''midtrans_created'', Bool True),
                  (''created_at'', ServerTimestamp), (''updated_at'', ServerTimestamp)]"
  from assms None obtain d where v: "validate e ?data = Some d"
    and s1: "s1 = s\<lparr>transactions := (transactions s)(oid \<mapsto> toDoc e d)\<rparr>"
    and td: "td = map_of ?data"
    by (auto simp: createOrUpdateTransaction_def fs_set_def Let_def split: option.splits)
  have "\<not> ignoreUndefinedProperties e \<Longrightarrow> oprop sr ''token'' \<noteq> Undefined"
    "\<not> ignoreUndefinedProperties e \<Longrightarrow> oprop sr ''redirect_url'' \<noteq> Undefined"
    using validate_strict [OF v, where k = "''snap_token''" and v = "oprop sr ''token''"]
      validate_strict [OF v, where k = "''redirect_url''" and v = "oprop sr ''redirect_url''"]
    by simp_all
  then show ?thesis by (auto simp: s1 td field_def)
next
  case (Some t)
  let ?data = "[(''snap_token'', oprop sr ''token''), (''redirect_url'', oprop sr ''redirect_url''),
                   (''payment_url'', Str (''https://app.midtrans.com/snap/v2/vtweb/'' @ toString (oprop sr ''token''))),
                   (''midtrans_created'', Bool True),
                   (''updated_at'', ServerTimestamp)]"
  from assms Some obtain d where v: "validate e ?data = Some d"
    and s1: "s1 = s\<lparr>transactions := (transactions s)(oid \<mapsto> t ++ toDoc e d)\<rparr>"
    and td: "td = t ++ map_of [(''snap_token'', oprop sr ''token''), (''redirect_url'', oprop sr ''redirect_url''),
                   (''payment_url'', Str (''https://app.midtrans.com/snap/v2/vtweb/'' @ toString (oprop sr ''token''))),
                   (''midtrans_created'', Bool True)]"
    by (auto simp: createOrUpdateTransaction_def fs_update_def Let_def split: option.splits)
  have "\<not> ignoreUndefinedProperties e \<Longrightarrow> oprop sr ''token'' \<noteq> Undefined"
    "\<not> ignoreUndefinedProperties e \<Longrightarrow> oprop sr ''redirect_url'' \<noteq> Undefined"
    using validate_strict [OF v, where k = "''snap_token''" and v = "oprop sr ''token''"]
      validate_strict [OF v, where k = "''redirect_url''" and v = "oprop sr ''redirect_url''"]
    by simp_all
  then show ?thesis by (auto simp: s1 td field_def map_add_def)
qed

lemma createOrUpdateTransaction_stored:
  assumes "createOrUpdateTransaction e uid oid body sr s = Some (td, s1)"
    and "oprop sr ''token'' = Str tok" "oprop sr ''redirect_url'' = Str url"
  shows "stored (transactions s1) oid ''snap_token'' = Str tok
       \<and> stored (transactions s1) oid ''redirect_url'' = Str url
       \<and> stored (transactions s1) oid ''payment_url''
            = Str (''https://app.midtrans.com/snap/v2/vtweb/'' @ tok)"
proof (cases "transactions s oid")
  case None
  let ?data = "[(''orderId'', oprop body ''orderId''), (''bookingId'', oprop body ''bookingId''),
                  (''amount'', oprop body ''amount''),
                  (''customer_details'', oprop body ''customer_details''),
                  (''userId'', Str uid), (''status'', Str ''pending''),
                  (''payment_type'', js_or (oprop body ''payment_type'') Null),
                  (''snap_token'', oprop sr ''token''), (''redirect_url'', oprop sr ''redirect_url''),
                  (''payment_url'', Str (''https://app.midtrans.com/snap/v2/vtweb/'' @ toString (oprop sr ''token''))),
                  (''midtrans_created'', Bool True),
                  (''created_at'', ServerTimestamp), (''updated_at'', ServerTimestamp)]"
  from assms(1) None obtain d where v: "validate e ?data = Some d"
    and s1: "s1 = s\<lparr>transactions := (transactions s)(oid \<mapsto> toDoc e d)\<rparr>"
    by (auto simp: createOrUpdateTransaction_def fs_set_def Let_def split: option.splits)
  have "field (toDoc e d) ''snap_token'' = Str tok"
    "field (toDoc e d) ''redirect_url'' = Str url"
    "field (toDoc e d) ''payment_url'' = Str (''https://app.midtrans.com/snap/v2/vtweb/'' @ tok)"
    by (rule field_toDoc_Str(2) [OF v], simp add: assms(2,3))+
  then show ?thesis by (simp add: s1 stored_def)
next
  case (Some t)
  let ?data = "[(''snap_token'', oprop sr ''token''), (''redirect_url'', oprop sr ''redirect_url''),
                   (''payment_url'', Str (''https://app.midtrans.com/snap/v2/vtweb/'' @ toString (oprop sr ''token''))),
                   (''midtrans_created'', Bool True),
                   (''updated_at'', ServerTimestamp)]"
  from assms(1) Some obtain d where v: "validate e ?data = Some d"
    and s1: "s1 = s\<lparr>transactions := (transactions s)(oid \<mapsto> t ++ toDoc e d)\<rparr>"
    by (auto simp: createOrUpdateTransaction_def fs_update_def Let_def split: option.splits)
  have "field (t ++ toDoc e d) ''snap_token'' = Str tok"
    "field (t ++ toDoc e d) ''redirect_url'' = Str url"
    "field (t ++ toDoc e d) ''payment_url'' = Str (''https://app.midtrans.com/snap/v2/vtweb/'' @ tok)"
    by (rule field_toDoc_Str(1) [OF v], simp add: assms(2,3))+
  then show ?thesis by (simp add: s1 stored_def)
qed

lemma validate_field:
  assumes v: "validate e data = Some d" and k: "map_of data k = Some x"
    and dist: "distinct (map fst data)"
  shows "field (m ++ toDoc e d) k = (if x = Undefined then field m k else resolve (now e) x)"
    and "field (toDoc e d) k = (if x = Undefined then Undefined else resolve (now e) x)"
proof -
  have gone: "map_of (filter (\<lambda>kv. snd kv \<noteq> Undefined) data) k = None" if "x = Undefined"
    using k dist that
  proof (induction data)
    case Nil
    then show ?case by simp
  next
    case (Cons a data)
    show ?case
    proof (cases "fst a = k")
      case True
      with Cons.prems have "snd a = Undefined" "k \<notin> fst ` set data" by auto
      then have "map_of (filter (\<lambda>kv. snd kv \<noteq> Undefined) data) k = None"
        by (auto simp: map_of_eq_None_iff)
      then show ?thesis using \<open>snd a = Undefined\<close> by simp
    next
      case False
      with Cons show ?thesis by auto
    qed
  qed
  have d: "map_of d k = (if x = Undefined then None else Some x)"
  proof (cases "x = Undefined")
    case True
    from map_of_SomeD [OF k] True have "Undefined \<in> snd ` set data" by force
    with v have "ignoreUndefinedProperties e"
      by (auto simp: validate_def split: if_splits)
    with v have "d = filter (\<lambda>kv. snd kv \<noteq> Undefined) data"
      by (simp add: validate_def)
    then show ?thesis using gone True by simp
  next
    case False
    then show ?thesis using validate_keeps [OF v k] by simp
  qed
  have u: "resolve (now e) y \<noteq> Undefined" if "y \<noteq> Undefined" for y
    using that by (simp add: resolve_def)
  show "field (m ++ toDoc e d) k = (if x = Undefined then field m k else resolve (now e) x)"
    by (simp add: field_def map_add_def toDoc_apply d)
  show "field (toDoc e d) k = (if x = Undefined then Undefined else resolve (now e) x)"
    by (simp add: field_def toDoc_apply d)
qed

lemma createOrUpdateTransaction_fields:
  assumes "createOrUpdateTransaction e uid oid body sr s = Some (td, s1)"
  shows "stored (transactions s1) oid ''snap_token'' =
           (if oprop sr ''token'' = Undefined then stored (transactions s) oid ''snap_token''
            else resolve (now e) (oprop sr ''token''))
       \<and> stored (transactions s1) oid ''redirect_url'' =
           (if oprop sr ''redirect_url'' = Undefined
            then stored (transactions s) oid ''redirect_url''
            else resolve (now e) (oprop sr ''redirect_url''))
       \<and> stored (transactions s1) oid ''payment_url'' =
           Str (''https://app.midtrans.com/snap/v2/vtweb/'' @ toString (oprop sr ''token''))"
proof (cases "transactions s oid")
  case None
  let ?pu = "Str (''https://app.midtrans.com/snap/v2/vtweb/'' @ toString (oprop sr ''token''))"
  let ?data = "[(''orderId'', oprop body ''orderId''), (''bookingId'', oprop body ''bookingId''),
                (''amount'', oprop body ''amount''),
                (''customer_details'', oprop body ''customer_details''),
                (''userId'', Str uid), (''status'', Str ''pending''),
                (''payment_type'', js_or (oprop body ''payment_type'') Null),
                (''snap_token'', oprop sr ''token''), (''redirect_url'', oprop sr ''redirect_url''),
                (''payment_url'', ?pu),
                (''midtrans_created'', Bool True),
                (''created_at'', ServerTimestamp), (''updated_at'', ServerTimestamp)]"
  from assms None obtain d where v: "validate e ?data = Some d"
    and s1: "s1 = s\<lparr>transactions := (transactions s)(oid \<mapsto> toDoc e d)\<rparr>"
    by (auto simp: createOrUpdateTransaction_def fs_set_def Let_def split: option.splits)
  have dist: "distinct (map fst ?data)" by simp
  have "field (toDoc e d) ''snap_token'' =
          (if oprop sr ''token'' = Undefined then Undefined else resolve (now e) (oprop sr ''token''))"
    by (rule validate_field(2) [OF v _ dist]) simp
  moreover have "field (toDoc e d) ''redirect_url'' =
          (if oprop sr ''redirect_url'' = Undefined then Undefined
           else resolve (now e) (oprop sr ''redirect_url''))"
    by (rule validate_field(2) [OF v _ dist]) simp
  moreover have "field (toDoc e d) ''payment_url'' =
          (if ?pu = Undefined then Undefined else resolve (now e) ?pu)"
    by (rule validate_field(2) [OF v _ dist]) simp
  ultimately show ?thesis
    using None by (simp add: s1 stored_def)
next
  case (Some t)
  let ?pu = "Str (''https://app.midtrans.com/snap/v2/vtweb/'' @ toString (oprop sr ''token''))"
  let ?data = "[(''snap_token'', oprop sr ''token''), (''redirect_url'', oprop sr ''redirect_url''),
                 (''payment_url'', ?pu),
                 (''midtrans_created'', Bool True),
                 (''updated_at'', ServerTimestamp)]"
  from assms Some obtain d where v: "validate e ?data = Some d"
    and s1: "s1 = s\<lparr>transactions := (transactions s)(oid \<mapsto> t ++ toDoc e d)\<rparr>"
    by (auto simp: createOrUpdateTransaction_def fs_update_def Let_def split: option.splits)
  have dist: "distinct (map fst ?data)" by simp
  have "field (t ++ toDoc e d) ''snap_token'' =
          (if oprop sr ''token'' = Undefined then field t ''snap_token''
           else resolve (now e) (oprop sr ''token''))"
    by (rule validate_field(1) [OF v _ dist]) simp
  moreover have "field (t ++ toDoc e d) ''redirect_url'' =
          (if oprop sr ''redirect_url'' = Undefined then field t ''redirect_url''
           else resolve (now e) (oprop sr ''redirect_url''))"
    by (rule validate_field(1) [OF v _ dist]) simp
  moreover have "field (t ++ toDoc e d) ''payment_url'' =
          (if ?pu = Undefined then field t ''payment_url'' else resolve (now e) ?pu)"
    by (rule validate_field(1) [OF v _ dist]) simp
  ultimately show ?thesis
    using Some by (simp add: s1 stored_def)
qed

lemma create_transaction_Ok:
  assumes ok: "create_transaction_route e p uid body s = (Ok c d, s', calls)"
  shows "\<exists>oid sr s2.
           docRef (oprop body ''orderId'') = Some oid
         \<and> truthy (oprop body ''bookingId'') \<and> truthy (oprop body ''orderId'')
         \<and> truthy (oprop body ''amount'') \<and> truthy (oprop body ''customer_details'')
         \<and> c = 201
         \<and> getSnapResponse e p (toString (oprop body ''orderId'')) (oprop body ''orderId'') (oprop body ''amount'')
              (oprop body ''customer_details'') (oprop body ''payment_type'') = (Inr sr, calls)
         \<and> transactions s2 = transactions s
         \<and> createOrUpdateTransaction e uid oid body sr s2 = Some (data_of_transaction d, s')
         \<and> stored (orders s') oid ''userId'' = Str uid \<and> orders s' oid \<noteq> None
         \<and> tagihan s' oid \<noteq> None \<and> transactions s' oid \<noteq> None"
proof -
  let ?b = "oprop body ''bookingId''" and ?o = "oprop body ''orderId''"
  and ?a = "oprop body ''amount''" and ?cd = "oprop body ''customer_details''"
  and ?pt = "oprop body ''payment_type''"
  have tr: "truthy ?b" "truthy ?o" "truthy ?a" "truthy ?cd"
    using ok by (auto simp: create_transaction_route_def Let_def split: if_splits)
  then have r0: "create_transaction_route e p uid body s =
     (case docRef ?o of
        None \<Rightarrow> (Err 500 ''Failed to process transaction'', s, [])
      | Some oid \<Rightarrow>
     (case createOrGetOrder e uid oid ?b ?o ?a s of
        Inl r \<Rightarrow> (r, s, [])
      | Inr (orderData, s1) \<Rightarrow>
     (case createOrGetTagihan e uid oid ?b ?o ?a s1 of
        None \<Rightarrow> (Err 500 ''Failed to process transaction'', s1, [])
      | Some (tagihanData, s2) \<Rightarrow>
     (case getSnapResponse e p (toString ?o) ?o ?a ?cd ?pt of
        (Inl r, calls) \<Rightarrow> (r, s2, calls)
      | (Inr snapResponse, calls) \<Rightarrow>
     (case createOrUpdateTransaction e uid oid body snapResponse s2 of
        None \<Rightarrow> (Err 500 ''Failed to process transaction'', s2, calls)
      | Some (transactionData, s3) \<Rightarrow>
          (Ok 201 \<lparr>data_of_order = orderData, data_of_tagihan = tagihanData,
                   data_of_transaction = transactionData\<rparr>,
           s3, calls))))))"
    by (simp add: create_transaction_route_def Let_def)
  from ok r0 obtain oid where oid: "docRef ?o = Some oid"
    by (cases "docRef ?o") auto
  from ok r0 oid obtain od s1 where o1: "createOrGetOrder e uid oid ?b ?o ?a s = Inr (od, s1)"
    by (cases "createOrGetOrder e uid oid ?b ?o ?a s")
       (auto simp: createOrGetOrder_def Let_def split: option.splits if_splits)
  from ok r0 oid o1 obtain tg s2 where t2: "createOrGetTagihan e uid oid ?b ?o ?a s1 = Some (tg, s2)"
    by (cases "createOrGetTagihan e uid oid ?b ?o ?a s1") auto
  obtain res cl where g: "getSnapResponse e p (toString ?o) ?o ?a ?cd ?pt = (res, cl)"
    by (cases "getSnapResponse e p (toString ?o) ?o ?a ?cd ?pt") auto
  from ok r0 oid o1 t2 g obtain sr where sr: "res = Inr sr"
    by (cases res) (auto simp: getSnapResponse_def Let_def split: sum.splits)
  from ok r0 oid o1 t2 g sr obtain td s3 where
    u: "createOrUpdateTransaction e uid oid body sr s2 = Some (td, s3)"
    by (cases "createOrUpdateTransaction e uid oid body sr s2") auto
  from ok r0 oid o1 t2 g sr u have res: "c = 201" "s' = s3" "calls = cl" "data_of_transaction d = td"
    by auto
  note A = createOrGetOrder_Inr [OF o1]
  note B = createOrGetTagihan_Some [OF t2]
  note C = createOrUpdateTransaction_Some [OF u]
  have "stored (orders s3) oid ''userId'' = Str uid" "orders s3 oid \<noteq> None"
    "tagihan s3 oid \<noteq> None" "transactions s3 oid \<noteq> None" "transactions s2 = transactions s"
    using A B C by (simp_all add: stored_def)
  then show ?thesis
    using oid tr g sr u res by auto
qed

lemma validate_exists:
  assumes "\<not> ignoreUndefinedProperties e \<longrightarrow> Undefined \<notin> snd ` set data"
  shows "\<exists>d. validate e data = Some d"
  using assms by (simp add: validate_def)

lemma create_transaction_reuse:
  assumes tr: "truthy (oprop body ''bookingId'')" "truthy (oprop body ''orderId'')"
      "truthy (oprop body ''amount'')" "truthy (oprop body ''customer_details'')"
    and oid: "docRef (oprop body ''orderId'') = Some oid"
    and own: "stored (orders s) oid ''userId'' = Str uid"
    and ex: "orders s oid \<noteq> None" "tagihan s oid \<noteq> None" "transactions s oid \<noteq> None"
    and held: "transaction_status p (toString (oprop body ''orderId'')) = Inr ex"
    and df: "\<not> ignoreUndefinedProperties e \<longrightarrow>
               oprop ex ''snap_token'' \<noteq> Undefined \<and> oprop ex ''redirect_url'' \<noteq> Undefined"
  shows "\<exists>d s'. create_transaction_route e p uid body s = (Ok 201 d, s', [StatusCall (toString (oprop body ''orderId''))])
           \<and> field (data_of_transaction d) ''snap_token'' = oprop ex ''snap_token''
           \<and> field (data_of_transaction d) ''redirect_url'' = oprop ex ''redirect_url''"
proof -
  let ?b = "oprop body ''bookingId''" and ?o = "oprop body ''orderId''"
  and ?a = "oprop body ''amount''" and ?cd = "oprop body ''customer_details''"
  and ?pt = "oprop body ''payment_type''"
  let ?sr = "[(''token'', oprop ex ''snap_token''), (''redirect_url'', oprop ex ''redirect_url'')]"
  from ex obtain od tg t where docs: "orders s oid = Some od" "tagihan s oid = Some tg"
    "transactions s oid = Some t"
    by auto
  have o1: "createOrGetOrder e uid oid ?b ?o ?a s = Inr (od, s)"
    using docs(1) own by (simp add: createOrGetOrder_def stored_def)
  have t2: "createOrGetTagihan e uid oid ?b ?o ?a s = Some (tg, s)"
    using docs(2) by (simp add: createOrGetTagihan_def)
  have g: "getSnapResponse e p (toString ?o) ?o ?a ?cd ?pt = (Inr ?sr, [StatusCall (toString (oprop body ''orderId''))])"
    using held by (simp add: getSnapResponse_def)
  let ?data = "[(''snap_token'', oprop ?sr ''token''), (''redirect_url'', oprop ?sr ''redirect_url''),
                   (''payment_url'', Str (''https://app.midtrans.com/snap/v2/vtweb/'' @ toString (oprop ?sr ''token''))),
                   (''midtrans_created'', Bool True),
                   (''updated_at'', ServerTimestamp)]"
  have "\<exists>d. validate e ?data = Some d"
    by (rule validate_exists) (use df in \<open>auto simp: oprop_def\<close>)
  then obtain dd where v: "validate e ?data = Some dd" by blast
  have u: "createOrUpdateTransaction e uid oid body ?sr s =
             Some (t ++ map_of [(''snap_token'', oprop ?sr ''token''), (''redirect_url'', oprop ?sr ''redirect_url''),
                   (''payment_url'', Str (''https://app.midtrans.com/snap/v2/vtweb/'' @ toString (oprop ?sr ''token''))),
                   (''midtrans_created'', Bool True)],
                   s\<lparr>transactions := (transactions s)(oid \<mapsto> t ++ toDoc e dd)\<rparr>)"
    using docs(3) v by (simp add: createOrUpdateTransaction_def fs_update_def Let_def)
  have "create_transaction_route e p uid body s =
          (Ok 201 \<lparr>data_of_order = od, data_of_tagihan = tg,
                   data_of_transaction = t ++ map_of [(''snap_token'', oprop ?sr ''token''), (''redirect_url'', oprop ?sr ''redirect_url''),
                   (''payment_url'', Str (''https://app.midtrans.com/snap/v2/vtweb/'' @ toString (oprop ?sr ''token''))),
                   (''midtrans_created'', Bool True)]\<rparr>,
           s\<lparr>transactions := (transactions s)(oid \<mapsto> t ++ toDoc e dd)\<rparr>, [StatusCall (toString (oprop body ''orderId''))])"
    using tr oid by (simp add: create_transaction_route_def Let_def o1 t2 g u)
  then show ?thesis
    by (simp add: field_def map_add_def oprop_def)
qed


lemma truthy_defined: "truthy v \<Longrightarrow> v \<noteq> Undefined"
  by auto

lemma createOrGetOrder_runs:
  assumes tr: "truthy bookingId" "truthy orderId" "truthy amount"
    and own: "orders s oid \<noteq> None \<longrightarrow> stored (orders s) oid ''userId'' = Str uid"
  shows "\<exists>od s1. createOrGetOrder e uid oid bookingId orderId amount s = Inr (od, s1)"
proof (cases "orders s oid")
  case None
  have "validate e [(''bookingId'', bookingId), (''orderId'', orderId), (''amount'', amount),
                  (''userId'', Str uid), (''status'', Str ''pending''),
                  (''created_at'', ServerTimestamp), (''updated_at'', ServerTimestamp)]
        = Some [(''bookingId'', bookingId), (''orderId'', orderId), (''amount'', amount),
                  (''userId'', Str uid), (''status'', Str ''pending''),
                  (''created_at'', ServerTimestamp), (''updated_at'', ServerTimestamp)]"
    by (rule validate_defined) (use tr in \<open>auto dest: truthy_defined\<close>)
  then show ?thesis using None
    by (simp add: createOrGetOrder_def fs_set_def Let_def)
next
  case (Some od)
  then show ?thesis using own
    by (simp add: createOrGetOrder_def stored_def)
qed

lemma createOrGetTagihan_runs:
  assumes tr: "truthy bookingId" "truthy orderId" "truthy amount"
  shows "\<exists>tg s1. createOrGetTagihan e uid oid bookingId orderId amount s = Some (tg, s1)"
proof (cases "tagihan s oid")
  case None
  have "validate e [(''orderId'', orderId), (''bookingId'', bookingId), (''amount'', amount),
                  (''status'', Str ''pending''), (''userId'', Str uid),
                  (''created_at'', ServerTimestamp), (''updated_at'', ServerTimestamp)]
        = Some [(''orderId'', orderId), (''bookingId'', bookingId), (''amount'', amount),
                  (''status'', Str ''pending''), (''userId'', Str uid),
                  (''created_at'', ServerTimestamp), (''updated_at'', ServerTimestamp)]"
    by (rule validate_defined) (use tr in \<open>auto dest: truthy_defined\<close>)
  then show ?thesis using None
    by (simp add: createOrGetTagihan_def fs_set_def Let_def)
next
  case (Some tg)
  then show ?thesis
    by (simp add: createOrGetTagihan_def)
qed

lemma createOrUpdateTransaction_runs:
  assumes tr: "truthy (oprop body ''bookingId'')" "truthy (oprop body ''orderId'')"
      "truthy (oprop body ''amount'')" "truthy (oprop body ''customer_details'')"
    and df: "\<not> ignoreUndefinedProperties e \<longrightarrow>
               oprop sr ''token'' \<noteq> Undefined \<and> oprop sr ''redirect_url'' \<noteq> Undefined"
  shows "\<exists>td s1. createOrUpdateTransaction e uid oid body sr s = Some (td, s1)"
proof (cases "transactions s oid")
  case None
  have j: "js_or (oprop body ''payment_type'') Null \<noteq> Undefined"
    by (auto simp: js_or_def)
  have "\<exists>d. validate e [(''orderId'', oprop body ''orderId''), (''bookingId'', oprop body ''bookingId''),
                  (''amount'', oprop body ''amount''),
                  (''customer_details'', oprop body ''customer_details''),
                  (''userId'', Str uid), (''status'', Str ''pending''),
                  (''payment_type'', js_or (oprop body ''payment_type'') Null),
                  (''snap_token'', oprop sr ''token''), (''redirect_url'', oprop sr ''redirect_url''),
                  (''payment_url'', Str (''https://app.midtrans.com/snap/v2/vtweb/'' @ toString (oprop sr ''token''))),
                  (''midtrans_created'', Bool True),
                  (''created_at'', ServerTimestamp), (''updated_at'', ServerTimestamp)] = Some d"
    by (rule validate_exists) (use tr df j in \<open>auto dest: truthy_defined\<close>)
  then show ?thesis using None
    by (auto simp: createOrUpdateTransaction_def fs_set_def Let_def)
next
  case (Some t)
  have "\<exists>d. validate e [(''snap_token'', oprop sr ''token''), (''redirect_url'', oprop sr ''redirect_url''),
                   (''payment_url'', Str (''https://app.midtrans.com/snap/v2/vtweb/'' @ toString (oprop sr ''token''))),
                   (''midtrans_created'', Bool True),
                   (''updated_at'', ServerTimestamp)] = Some d"
    by (rule validate_exists) (use df in auto)
  then show ?thesis using Some
    by (auto simp: createOrUpdateTransaction_def fs_update_def Let_def)
qed

lemma create_transaction_unfold:
  assumes tr: "truthy (oprop body ''bookingId'')" "truthy (oprop body ''orderId'')"
      "truthy (oprop body ''amount'')" "truthy (oprop body ''customer_details'')"
    and oid: "docRef (oprop body ''orderId'') = Some oid"
  shows "create_transaction_route e p uid body s =
     (case createOrGetOrder e uid oid (oprop body ''bookingId'') (oprop body ''orderId'')
             (oprop body ''amount'') s of
        Inl r \<Rightarrow> (r, s, [])
      | Inr (orderData, s1) \<Rightarrow>
     (case createOrGetTagihan e uid oid (oprop body ''bookingId'') (oprop body ''orderId'')
             (oprop body ''amount'') s1 of
        None \<Rightarrow> (Err 500 ''Failed to process transaction'', s1, [])
      | Some (tagihanData, s2) \<Rightarrow>
     (case getSnapResponse e p (toString (oprop body ''orderId'')) (oprop body ''orderId'') (oprop body ''amount'')
             (oprop body ''customer_details'') (oprop body ''payment_type'') of
        (Inl r, calls) \<Rightarrow> (r, s2, calls)
      | (Inr snapResponse, calls) \<Rightarrow>
     (case createOrUpdateTransaction e uid oid body snapResponse s2 of
        None \<Rightarrow> (Err 500 ''Failed to process transaction'', s2, calls)
      | Some (transactionData, s3) \<Rightarrow>
          (Ok 201 \<lparr>data_of_order = orderData, data_of_tagihan = tagihanData,
                   data_of_transaction = transactionData\<rparr>,
           s3, calls)))))"
  using tr oid by (simp add: create_transaction_route_def Let_def)

lemma create_transaction_succeeds:
  assumes tr: "truthy (oprop body ''bookingId'')" "truthy (oprop body ''orderId'')"
      "truthy (oprop body ''amount'')" "truthy (oprop body ''customer_details'')"
    and oid: "docRef (oprop body ''orderId'') = Some oid"
    and own: "orders s oid \<noteq> None \<longrightarrow> stored (orders s) oid ''userId'' = Str uid"
    and g: "getSnapResponse e p (toString (oprop body ''orderId'')) (oprop body ''orderId'') (oprop body ''amount'')
              (oprop body ''customer_details'') (oprop body ''payment_type'') = (Inr sr, calls)"
    and df: "\<not> ignoreUndefinedProperties e \<longrightarrow>
               oprop sr ''token'' \<noteq> Undefined \<and> oprop sr ''redirect_url'' \<noteq> Undefined"
  shows "\<exists>d s'. create_transaction_route e p uid body s = (Ok 201 d, s', calls)"
proof -
  from createOrGetOrder_runs [OF tr(1-3) own, of e] obtain od s1 where
    o1: "createOrGetOrder e uid oid (oprop body ''bookingId'') (oprop body ''orderId'')
             (oprop body ''amount'') s = Inr (od, s1)" by blast
  from createOrGetTagihan_runs [OF tr(1-3), of e uid oid s1] obtain tg s2 where
    t2: "createOrGetTagihan e uid oid (oprop body ''bookingId'') (oprop body ''orderId'')
             (oprop body ''amount'') s1 = Some (tg, s2)" by blast
  from createOrUpdateTransaction_runs [OF tr df, of uid oid s2] obtain td s3 where
    u: "createOrUpdateTransaction e uid oid body sr s2 = Some (td, s3)" by blast
  show ?thesis
    by (simp add: create_transaction_unfold [OF tr oid] o1 t2 g u)
qed

lemma create_transaction_provider_fails:
  assumes tr: "truthy (oprop body ''bookingId'')" "truthy (oprop body ''orderId'')"
      "truthy (oprop body ''amount'')" "truthy (oprop body ''customer_details'')"
    and oid: "docRef (oprop body ''orderId'') = Some oid"
    and own: "orders s oid \<noteq> None \<longrightarrow> stored (orders s) oid ''userId'' = Str uid"
    and g: "getSnapResponse e p (toString (oprop body ''orderId'')) (oprop body ''orderId'') (oprop body ''amount'')
              (oprop body ''customer_details'') (oprop body ''payment_type'') = (Inl r, calls)"
  shows "\<exists>s'. create_transaction_route e p uid body s = (r, s', calls)
            \<and> orders s' oid \<noteq> None \<and> tagihan s' oid \<noteq> None
            \<and> transactions s' = transactions s"
proof -
  from createOrGetOrder_runs [OF tr(1-3) own, of e] obtain od s1 where
    o1: "createOrGetOrder e uid oid (oprop body ''bookingId'') (oprop body ''orderId'')
             (oprop body ''amount'') s = Inr (od, s1)" by blast
  from createOrGetTagihan_runs [OF tr(1-3), of e uid oid s1] obtain tg s2 where
    t2: "createOrGetTagihan e uid oid (oprop body ''bookingId'') (oprop body ''orderId'')
             (oprop body ''amount'') s1 = Some (tg, s2)" by blast
  note A = createOrGetOrder_Inr [OF o1]
  note B = createOrGetTagihan_Some [OF t2]
  have "create_transaction_route e p uid body s = (r, s2, calls)"
    by (simp add: create_transaction_unfold [OF tr oid] o1 t2 g)
  then show ?thesis using A B by simp
qed

text \<open>The example requests for the order ORD-1.\<close>

lemma test_order_fields:
  "truthy (oprop test_order ''bookingId'')" "truthy (oprop test_order ''orderId'')"
  "truthy (oprop test_order ''amount'')" "truthy (oprop test_order ''customer_details'')"
  "docRef (oprop test_order ''orderId'') = Some ''ORD-1''"
  by (simp_all add: test_order_def oprop_def docRef_plain)

lemma test_order_ident: "toString (oprop test_order ''orderId'') = ''ORD-1''"
  by (simp add: test_order_def oprop_def)

lemma getSnapResponse_creating:
  "getSnapResponse e (provider_creating tok) oid orderId amount cd pt =
     (Inr [(''token'', Str tok),
           (''redirect_url'', Str (''https://app.midtrans.com/snap/v2/vtweb/'' @ tok))],
      [StatusCall oid, CreateCall (snapPayload e orderId amount cd pt)])"
  by (simp add: getSnapResponse_def provider_creating_def Let_def)

lemma getSnapResponse_failing:
  "getSnapResponse e provider_failing oid orderId amount cd pt =
     (Inl (Err 500 ''Failed to create payment transaction''),
      [StatusCall oid, CreateCall (snapPayload e orderId amount cd pt)])"
  by (simp add: getSnapResponse_def provider_failing_def Let_def)

lemma getSnapResponse_holding:
  "getSnapResponse e (provider_holding ex) oid orderId amount cd pt =
     (Inr [(''token'', oprop ex ''snap_token''), (''redirect_url'', oprop ex ''redirect_url'')],
      [StatusCall oid])"
  by (simp add: getSnapResponse_def provider_holding_def)

lemma create_transaction_returns:
  assumes ok: "create_transaction_route e p uid body s = (Ok c d, s', calls)"
    and oid: "docRef (oprop body ''orderId'') = Some oid"
    and g: "getSnapResponse e p (toString (oprop body ''orderId'')) (oprop body ''orderId'') (oprop body ''amount'')
              (oprop body ''customer_details'') (oprop body ''payment_type'') = (Inr sr, cl)"
  shows "field (data_of_transaction d) ''snap_token'' = oprop sr ''token''"
    and "field (data_of_transaction d) ''redirect_url'' = oprop sr ''redirect_url''"
    and "oprop sr ''token'' = Str tok \<Longrightarrow> oprop sr ''redirect_url'' = Str url \<Longrightarrow>
           stored (transactions s') oid ''snap_token'' = Str tok
         \<and> stored (transactions s') oid ''redirect_url'' = Str url"
    and "stored (orders s') oid ''userId'' = Str uid" "orders s' oid \<noteq> None"
        "tagihan s' oid \<noteq> None" "transactions s' oid \<noteq> None"
proof -
  from create_transaction_Ok [OF ok] oid g obtain s2 where
    u: "createOrUpdateTransaction e uid oid body sr s2 = Some (data_of_transaction d, s')"
    and r: "stored (orders s') oid ''userId'' = Str uid" "orders s' oid \<noteq> None"
        "tagihan s' oid \<noteq> None" "transactions s' oid \<noteq> None"
    by auto
  show "field (data_of_transaction d) ''snap_token'' = oprop sr ''token''"
    "field (data_of_transaction d) ''redirect_url'' = oprop sr ''redirect_url''"
    using createOrUpdateTransaction_Some [OF u] by simp_all
  show "oprop sr ''token'' = Str tok \<Longrightarrow> oprop sr ''redirect_url'' = Str url \<Longrightarrow>
           stored (transactions s') oid ''snap_token'' = Str tok
         \<and> stored (transactions s') oid ''redirect_url'' = Str url"
    using createOrUpdateTransaction_stored [OF u] by simp
  show "stored (orders s') oid ''userId'' = Str uid" "orders s' oid \<noteq> None"
        "tagihan s' oid \<noteq> None" "transactions s' oid \<noteq> None"
    by (rule r)+
qed

lemma first_create_facts:
  "succeeded (fst first_create)"
  "returned (fst first_create) ''snap_token'' = Some (Str ''token-1'')"
  "returned (fst first_create) ''redirect_url''
     = Some (Str ''https://app.midtrans.com/snap/v2/vtweb/token-1'')"
  "stored (transactions (fst (snd first_create))) ''ORD-1'' ''snap_token'' = Str ''token-1''"
  "stored (orders (fst (snd first_create))) ''ORD-1'' ''userId'' = Str ''user-1''"
  "orders (fst (snd first_create)) ''ORD-1'' \<noteq> None"
  "tagihan (fst (snd first_create)) ''ORD-1'' \<noteq> None"
  "transactions (fst (snd first_create)) ''ORD-1'' \<noteq> None"
proof -
  let ?sr = "[(''token'', Str ''token-1''),
           (''redirect_url'', Str (''https://app.midtrans.com/snap/v2/vtweb/'' @ ''token-1''))]"
  have own: "orders empty_store ''ORD-1'' \<noteq> None \<longrightarrow>
              stored (orders empty_store) ''ORD-1'' ''userId'' = Str ''user-1''"
    by (simp add: empty_store_def)
  have df: "\<not> ignoreUndefinedProperties env0 \<longrightarrow>
               oprop ?sr ''token'' \<noteq> Undefined \<and> oprop ?sr ''redirect_url'' \<noteq> Undefined"
    by (simp add: oprop_def)
  from create_transaction_succeeds [OF test_order_fields own getSnapResponse_creating df]
  obtain d s' where R: "first_create = (Ok 201 d, s',
      [StatusCall (toString (oprop test_order ''orderId'')),
       CreateCall (snapPayload env0 (oprop test_order ''orderId'')
         (oprop test_order ''amount'') (oprop test_order ''customer_details'')
         (oprop test_order ''payment_type''))])"
    unfolding first_create_def by blast
  note F = create_transaction_returns [OF R [unfolded first_create_def] test_order_fields(5)
             getSnapResponse_creating]
  show "succeeded (fst first_create)" by (simp add: R)
  show "returned (fst first_create) ''snap_token'' = Some (Str ''token-1'')"
    "returned (fst first_create) ''redirect_url''
     = Some (Str ''https://app.midtrans.com/snap/v2/vtweb/token-1'')"
    using F(1,2) by (simp_all add: R oprop_def)
  show "stored (transactions (fst (snd first_create))) ''ORD-1'' ''snap_token'' = Str ''token-1''"
    using F(3) [of "''token-1''" "''https://app.midtrans.com/snap/v2/vtweb/token-1''"]
    by (simp add: R oprop_def)
  show "stored (orders (fst (snd first_create))) ''ORD-1'' ''userId'' = Str ''user-1''"
    "orders (fst (snd first_create)) ''ORD-1'' \<noteq> None"
    "tagihan (fst (snd first_create)) ''ORD-1'' \<noteq> None"
    "transactions (fst (snd first_create)) ''ORD-1'' \<noteq> None"
    using F(4-7) by (simp_all add: R)
qed


lemma createOrUpdateTransaction_throws:
  assumes "\<not> ignoreUndefinedProperties e"
    and "oprop sr ''token'' = Undefined \<or> oprop sr ''redirect_url'' = Undefined"
  shows "createOrUpdateTransaction e uid oid body sr s = None"
  using assms
  by (auto simp: createOrUpdateTransaction_def fs_set_def fs_update_def validate_def Let_def
           split: option.splits)

lemma create_transaction_write_fails:
  assumes tr: "truthy (oprop body ''bookingId'')" "truthy (oprop body ''orderId'')"
      "truthy (oprop body ''amount'')" "truthy (oprop body ''customer_details'')"
    and oid: "docRef (oprop body ''orderId'') = Some oid"
    and own: "orders s oid \<noteq> None \<longrightarrow> stored (orders s) oid ''userId'' = Str uid"
    and g: "getSnapResponse e p (toString (oprop body ''orderId'')) (oprop body ''orderId'') (oprop body ''amount'')
              (oprop body ''customer_details'') (oprop body ''payment_type'') = (Inr sr, calls)"
    and strict: "\<not> ignoreUndefinedProperties e"
    and missing: "oprop sr ''token'' = Undefined \<or> oprop sr ''redirect_url'' = Undefined"
  shows "\<exists>s'. create_transaction_route e p uid body s
                = (Err 500 ''Failed to process transaction'', s', calls)
            \<and> orders s' oid \<noteq> None \<and> tagihan s' oid \<noteq> None
            \<and> transactions s' = transactions s"
proof -
  from createOrGetOrder_runs [OF tr(1-3) own, of e] obtain od s1 where
    o1: "createOrGetOrder e uid oid (oprop body ''bookingId'') (oprop body ''orderId'')
             (oprop body ''amount'') s = Inr (od, s1)" by blast
  from createOrGetTagihan_runs [OF tr(1-3), of e uid oid s1] obtain tg s2 where
    t2: "createOrGetTagihan e uid oid (oprop body ''bookingId'') (oprop body ''orderId'')
             (oprop body ''amount'') s1 = Some (tg, s2)" by blast
  note A = createOrGetOrder_Inr [OF o1]
  note B = createOrGetTagihan_Some [OF t2]
  have "create_transaction_route e p uid body s
          = (Err 500 ''Failed to process transaction'', s2, calls)"
    by (simp add: create_transaction_unfold [OF tr oid] o1 t2 g
          createOrUpdateTransaction_throws [OF strict missing])
  then show ?thesis using A B by simp
qed


text \<open>The create-order route.\<close>

lemma cleanUp_transactions:
  "transactions (snd (cleanUp oid msg s)) = transactions s"
  "orders (snd (cleanUp oid msg s)) oid = None"
  "tagihan (snd (cleanUp oid msg s)) oid = None"
  "\<not> succeeded (fst (cleanUp oid msg s))"
  by (simp_all add: cleanUp_def fs_delete_def Let_def)


lemma create_order_unfold:
  assumes tr: "truthy (oprop body ''bookingId'')" "truthy (oprop body ''orderId'')"
      "truthy (oprop body ''amount'')" "truthy (oprop body ''customerDetails'')"
      "truthy (oprop body ''paymentType'')"
    and oid: "docRef (oprop body ''orderId'') = Some oid"
    and own: "orders s oid \<noteq> None \<longrightarrow> stored (orders s) oid ''userId'' = Str uid"
    and new: "transactions s oid = None"
  shows "\<exists>od tg s2. orders s2 oid \<noteq> None \<and> tagihan s2 oid \<noteq> None
           \<and> transactions s2 = transactions s \<and> bookings s2 = bookings s
           \<and> create_order_route e p uid body s =
          (let payload = midtransPayload e (oprop body ''bookingId'') (oprop body ''orderId'')
                 (oprop body ''amount'') (oprop body ''customerDetails'') (oprop body ''paymentType'');
               calls = [CreateCall payload] in
           case createTransaction p payload of
             Inl err \<Rightarrow>
               (case cleanUp oid (api_status_message err) s2 of (r, s') \<Rightarrow> (r, s', calls))
           | Inr midtransResponse \<Rightarrow>
               (if \<not> truthy (oprop midtransResponse ''token'')
                     \<or> \<not> truthy (oprop midtransResponse ''redirect_url'')
                then (case cleanUp oid Undefined s2 of (r, s') \<Rightarrow> (r, s', calls))
                else
                  (let transaction =
                         [(''bookingId'', oprop body ''bookingId''), (''orderId'', oprop body ''orderId''),
                          (''amount'', parseInt e (oprop body ''amount'')), (''userId'', Str uid),
                          (''status'', Str ''pending''), (''payment_type'', oprop body ''paymentType''),
                          (''snap_token'', oprop midtransResponse ''token''),
                          (''redirect_url'', oprop midtransResponse ''redirect_url''),
                          (''created_at'', ServerTimestamp), (''updated_at'', ServerTimestamp)] in
                   case fs_set e Transactions oid transaction s2 of
                     None \<Rightarrow> (case cleanUp oid Undefined s2 of (r, s') \<Rightarrow> (r, s', calls))
                   | Some s3 \<Rightarrow>
                       (Ok 200 \<lparr>data_of_order = od, data_of_tagihan = tg,
                                data_of_transaction = map_of transaction\<rparr>, s3, calls))))"
proof -
  let ?b = "oprop body ''bookingId''" and ?o = "oprop body ''orderId''"
  and ?a = "oprop body ''amount''" and ?cd = "oprop body ''customerDetails''"
  and ?pt = "oprop body ''paymentType''"
  let ?ol = "[(''bookingId'', ?b), (''orderId'', ?o), (''amount'', ?a),
                        (''customerDetails'', ?cd), (''paymentType'', ?pt),
                        (''userId'', Str uid), (''status'', Str ''pending''),
                        (''created_at'', ServerTimestamp), (''updated_at'', ServerTimestamp)]"
  let ?tl = "[(''bookingId'', ?b), (''orderId'', ?o), (''amount'', ?a),
                        (''status'', Str ''pending''), (''userId'', Str uid),
                        (''created_at'', ServerTimestamp), (''updated_at'', ServerTimestamp)]"
  have vo: "validate e ?ol = Some ?ol"
    by (rule validate_defined) (use tr in \<open>auto dest: truthy_defined\<close>)
  have vt: "validate e ?tl = Some ?tl"
    by (rule validate_defined) (use tr in \<open>auto dest: truthy_defined\<close>)
  define s1 where "s1 = (case orders s oid of None \<Rightarrow> s\<lparr>orders := (orders s)(oid \<mapsto> toDoc e ?ol)\<rparr>
                         | Some od \<Rightarrow> s)"
  define od where "od = (case orders s oid of None \<Rightarrow> map_of ?ol | Some od \<Rightarrow> od)"
  define s2 where "s2 = (case tagihan s1 oid of None \<Rightarrow> s1\<lparr>tagihan := (tagihan s1)(oid \<mapsto> toDoc e ?tl)\<rparr>
                         | Some tg \<Rightarrow> s1)"
  define tg where "tg = (case tagihan s1 oid of None \<Rightarrow> map_of ?tl | Some tg \<Rightarrow> tg)"
  have step1: "(case orders s oid of
              None \<Rightarrow>
                (let order = ?ol in
                 case fs_set e Orders oid order s of
                   None \<Rightarrow> Inl (Err 500 (if libraryMessage e = [] then ''Failed to create order''
                            else libraryMessage e))
                 | Some s' \<Rightarrow> Inr (map_of order, s'))
            | Some order \<Rightarrow>
                (if field order ''userId'' \<noteq> Str uid then Inl (Err 403 ''Access denied'')
                 else Inr (order, s))) = Inr (od, s1)"
    using own vo by (auto simp: fs_set_def s1_def od_def stored_def Let_def split: option.splits)
  have step2: "(case tagihan s1 oid of
              None \<Rightarrow>
                (let tagihanData = ?tl in
                 case fs_set e Tagihan oid tagihanData s1 of
                   None \<Rightarrow> None
                 | Some s' \<Rightarrow> Some (map_of tagihanData, s'))
            | Some tagihanData \<Rightarrow> Some (tagihanData, s1)) = Some (tg, s2)"
    using vt by (auto simp: fs_set_def s2_def tg_def Let_def split: option.splits)
  have f: "orders s2 oid \<noteq> None" "tagihan s2 oid \<noteq> None" "transactions s2 = transactions s"
    "bookings s2 = bookings s"
    by (auto simp: s2_def s1_def split: option.splits)
  have "create_order_route e p uid body s =
          (let payload = midtransPayload e ?b ?o ?a ?cd ?pt;
               calls = [CreateCall payload] in
           case createTransaction p payload of
             Inl err \<Rightarrow>
               (case cleanUp oid (api_status_message err) s2 of (r, s') \<Rightarrow> (r, s', calls))
           | Inr midtransResponse \<Rightarrow>
               (if \<not> truthy (oprop midtransResponse ''token'')
                     \<or> \<not> truthy (oprop midtransResponse ''redirect_url'')
                then (case cleanUp oid Undefined s2 of (r, s') \<Rightarrow> (r, s', calls))
                else
                  (let transaction =
                         [(''bookingId'', ?b), (''orderId'', ?o),
                          (''amount'', parseInt e ?a), (''userId'', Str uid),
                          (''status'', Str ''pending''), (''payment_type'', ?pt),
                          (''snap_token'', oprop midtransResponse ''token''),
                          (''redirect_url'', oprop midtransResponse ''redirect_url''),
                          (''created_at'', ServerTimestamp), (''updated_at'', ServerTimestamp)] in
                   case fs_set e Transactions oid transaction s2 of
                     None \<Rightarrow> (case cleanUp oid Undefined s2 of (r, s') \<Rightarrow> (r, s', calls))
                   | Some s3 \<Rightarrow>
                       (Ok 200 \<lparr>data_of_order = od, data_of_tagihan = tg,
                                data_of_transaction = map_of transaction\<rparr>, s3, calls))))"
    unfolding create_order_route_def Let_def
    using tr oid new f(3) by (simp add: step1 [unfolded Let_def] step2 [unfolded Let_def])
  then show ?thesis using f by blast
qed




lemma create_transaction_stores_fields:
  assumes ok: "succeeded (fst (create_transaction_route e p uid body s))"
    and oid: "docRef (oprop body ''orderId'') = Some oid"
    and g: "getSnapResponse e p (toString (oprop body ''orderId'')) (oprop body ''orderId'') (oprop body ''amount'')
              (oprop body ''customer_details'') (oprop body ''payment_type'') = (Inr sr, calls)"
  shows "stored (transactions (fst (snd (create_transaction_route e p uid body s)))) oid ''snap_token''
           = (if oprop sr ''token'' = Undefined then stored (transactions s) oid ''snap_token''
              else resolve (now e) (oprop sr ''token''))
       \<and> stored (transactions (fst (snd (create_transaction_route e p uid body s)))) oid ''redirect_url''
           = (if oprop sr ''redirect_url'' = Undefined
              then stored (transactions s) oid ''redirect_url''
              else resolve (now e) (oprop sr ''redirect_url''))
       \<and> stored (transactions (fst (snd (create_transaction_route e p uid body s)))) oid ''payment_url''
           = Str (''https://app.midtrans.com/snap/v2/vtweb/'' @ toString (oprop sr ''token''))"
proof -
  obtain r s' cl where R: "create_transaction_route e p uid body s = (r, s', cl)"
    by (cases "create_transaction_route e p uid body s") auto
  with ok obtain c d where r: "r = Ok c d" by (cases r) auto
  from create_transaction_Ok [OF R [unfolded r]] oid g obtain s2 where
    u: "createOrUpdateTransaction e uid oid body sr s2 = Some (data_of_transaction d, s')"
    and k: "transactions s2 = transactions s"
    by auto
  from createOrUpdateTransaction_fields [OF u] show ?thesis by (simp add: R k)
qed

lemma create_transaction_reuse_throws:
  assumes tr: "truthy (oprop body ''bookingId'')" "truthy (oprop body ''orderId'')"
      "truthy (oprop body ''amount'')" "truthy (oprop body ''customer_details'')"
    and oid: "docRef (oprop body ''orderId'') = Some oid"
    and own: "stored (orders s) oid ''userId'' = Str uid"
    and ex: "orders s oid \<noteq> None" "tagihan s oid \<noteq> None"
    and held: "transaction_status p (toString (oprop body ''orderId'')) = Inr ex"
    and strict: "\<not> ignoreUndefinedProperties e"
    and missing: "oprop ex ''snap_token'' = Undefined \<or> oprop ex ''redirect_url'' = Undefined"
  shows "create_transaction_route e p uid body s =
           (Err 500 ''Failed to process transaction'', s,
            [StatusCall (toString (oprop body ''orderId''))])"
proof -
  let ?b = "oprop body ''bookingId''" and ?o = "oprop body ''orderId''"
  and ?a = "oprop body ''amount''" and ?cd = "oprop body ''customer_details''"
  and ?pt = "oprop body ''payment_type''"
  let ?sr = "[(''token'', oprop ex ''snap_token''), (''redirect_url'', oprop ex ''redirect_url'')]"
  from ex obtain od tg where docs: "orders s oid = Some od" "tagihan s oid = Some tg"
    by auto
  have o1: "createOrGetOrder e uid oid ?b ?o ?a s = Inr (od, s)"
    using docs(1) own by (simp add: createOrGetOrder_def stored_def)
  have t2: "createOrGetTagihan e uid oid ?b ?o ?a s = Some (tg, s)"
    using docs(2) by (simp add: createOrGetTagihan_def)
  have g: "getSnapResponse e p (toString ?o) ?o ?a ?cd ?pt = (Inr ?sr, [StatusCall (toString ?o)])"
    using held by (simp add: getSnapResponse_def)
  have m: "oprop ?sr ''token'' = Undefined \<or> oprop ?sr ''redirect_url'' = Undefined"
    using missing by (simp add: oprop_def)
  show ?thesis
    by (simp add: create_transaction_unfold [OF tr oid] o1 t2 g
          createOrUpdateTransaction_throws [OF strict m])
qed





section \<open>Reconciliation is last writer wins\<close>

text \<open>
  C1 (as amended). Reconciliation is not monotonic: for an order whose four records
  exist, whatever status is stored, a reconciliation with the provider status
  \<open>pending\<close>, entered by the webhook, or by the poll when the transaction carries a
  token, succeeds and stores status pending, paymentStatus unpaid and tagihanStatus
  unpaid on the transaction and the booking, status pending and paymentStatus unpaid on
  the order, and status unpaid on the tagihan. In particular, after the provider
  statuses \<open>pending\<close> then \<open>expire\<close> the stored state is status cancelled, paymentStatus
  failed on the transaction, the order and the booking, and status failed on the
  tagihan, and a later reconciliation with the provider status \<open>pending\<close> brings every
  record back to pending and unpaid.
\<close>

theorem reconcile_last_writer_wins:
  assumes l: "linked s oid bid"
    and tok: "is_poll ev1 \<or> is_poll ev2 \<or> is_poll ev3
                \<longrightarrow> truthy (stored (transactions s) oid ''snap_token'')"
    and r1: "reports ev1 oid (Str ''pending'')"
    and r2: "reports ev2 oid (Str ''expire'')"
    and r3: "reports ev3 oid (Str ''pending'')"
  shows "let s' = snd (deliver e3 ev3 s);
             s2 = snd (deliver e2 ev2 (snd (deliver e1 ev1 s)));
             s3 = snd (deliver e3 ev3 s2) in
         fst (deliver e3 ev3 s)
       \<and> stored (transactions s') oid ''status'' = Str ''pending''
       \<and> stored (transactions s') oid ''paymentStatus'' = Str ''unpaid''
       \<and> stored (transactions s') oid ''tagihanStatus'' = Str ''unpaid''
       \<and> stored (orders s') oid ''status'' = Str ''pending''
       \<and> stored (orders s') oid ''paymentStatus'' = Str ''unpaid''
       \<and> stored (tagihan s') oid ''status'' = Str ''unpaid''
       \<and> stored (bookings s') bid ''status'' = Str ''pending''
       \<and> stored (bookings s') bid ''paymentStatus'' = Str ''unpaid''
       \<and> stored (bookings s') bid ''tagihanStatus'' = Str ''unpaid''
       \<and> fst (deliver e1 ev1 s)
       \<and> fst (deliver e2 ev2 (snd (deliver e1 ev1 s)))
       \<and> stored (transactions s2) oid ''status'' = Str ''cancelled''
       \<and> stored (transactions s2) oid ''paymentStatus'' = Str ''failed''
       \<and> stored (transactions s2) oid ''tagihanStatus'' = Str ''failed''
       \<and> stored (orders s2) oid ''status'' = Str ''cancelled''
       \<and> stored (orders s2) oid ''paymentStatus'' = Str ''failed''
       \<and> stored (tagihan s2) oid ''status'' = Str ''failed''
       \<and> stored (bookings s2) bid ''status'' = Str ''cancelled''
       \<and> stored (bookings s2) bid ''paymentStatus'' = Str ''failed''
       \<and> stored (bookings s2) bid ''tagihanStatus'' = Str ''failed''
       \<and> fst (deliver e3 ev3 s2)
       \<and> stored (transactions s3) oid ''status'' = Str ''pending''
       \<and> stored (transactions s3) oid ''paymentStatus'' = Str ''unpaid''
       \<and> stored (transactions s3) oid ''tagihanStatus'' = Str ''unpaid''
       \<and> stored (orders s3) oid ''status'' = Str ''pending''
       \<and> stored (orders s3) oid ''paymentStatus'' = Str ''unpaid''
       \<and> stored (tagihan s3) oid ''status'' = Str ''unpaid''
       \<and> stored (bookings s3) bid ''status'' = Str ''pending''
       \<and> stored (bookings s3) bid ''paymentStatus'' = Str ''unpaid''
       \<and> stored (bookings s3) bid ''tagihanStatus'' = Str ''unpaid''"
proof -
  define s' where "s' = snd (deliver e3 ev3 s)"
  define s1 where "s1 = snd (deliver e1 ev1 s)"
  define s2 where "s2 = snd (deliver e2 ev2 s1)"
  define s3 where "s3 = snd (deliver e3 ev3 s2)"
  have mp: "mapStatus_notification (Str ''pending'') (Undefined, Undefined, Undefined)
              = (Str ''pending'', Str ''unpaid'', Str ''unpaid'')"
    and me: "mapStatus_notification (Str ''expire'') (Undefined, Undefined, Undefined)
              = (Str ''cancelled'', Str ''failed'', Str ''failed'')"
    by (simp_all add: mapStatus_notification_def)
  have t0: "is_poll ev1 \<longrightarrow> truthy (stored (transactions s) oid ''snap_token'')"
    and t0': "is_poll ev3 \<longrightarrow> truthy (stored (transactions s) oid ''snap_token'')"
    using tok by simp_all
  have ok': "fst (deliver e3 ev3 s)"
    by (rule deliver_effect(1) [OF l t0' r3 _ mp]) simp
  have st': "stored (transactions s') oid ''status'' = Str ''pending''"
     "stored (transactions s') oid ''paymentStatus'' = Str ''unpaid''"
     "stored (transactions s') oid ''tagihanStatus'' = Str ''unpaid''"
     "stored (orders s') oid ''status'' = Str ''pending''"
     "stored (orders s') oid ''paymentStatus'' = Str ''unpaid''"
     "stored (tagihan s') oid ''status'' = Str ''unpaid''"
     "stored (bookings s') bid ''status'' = Str ''pending''"
     "stored (bookings s') bid ''paymentStatus'' = Str ''unpaid''"
     "stored (bookings s') bid ''tagihanStatus'' = Str ''unpaid''"
    unfolding s'_def
    by (simp_all add: deliver_effect(3-6) [OF l t0' r3 _ mp])
  have ok1: "fst (deliver e1 ev1 s)"
    by (rule deliver_effect(1) [OF l t0 r1 _ mp]) simp
  have l1: "linked s1 oid bid"
    unfolding s1_def by (rule deliver_effect(2) [OF l t0 r1 _ mp]) simp
  have k1: "stored (transactions s1) oid ''snap_token'' = stored (transactions s) oid ''snap_token''"
    unfolding s1_def by (subst deliver_effect(3) [OF l t0 r1 _ mp]) simp_all
  have t1: "is_poll ev2 \<longrightarrow> truthy (stored (transactions s1) oid ''snap_token'')"
    using tok k1 by simp
  have ok2: "fst (deliver e2 ev2 s1)"
    by (rule deliver_effect(1) [OF l1 t1 r2 _ me]) simp
  have l2: "linked s2 oid bid"
    unfolding s2_def by (rule deliver_effect(2) [OF l1 t1 r2 _ me]) simp
  have k2: "stored (transactions s2) oid ''snap_token'' = stored (transactions s) oid ''snap_token''"
    unfolding s2_def by (subst deliver_effect(3) [OF l1 t1 r2 _ me]) (simp_all add: k1)
  have t2: "is_poll ev3 \<longrightarrow> truthy (stored (transactions s2) oid ''snap_token'')"
    using tok k2 by simp
  have st2: "stored (transactions s2) oid ''status'' = Str ''cancelled''"
     "stored (transactions s2) oid ''paymentStatus'' = Str ''failed''"
     "stored (transactions s2) oid ''tagihanStatus'' = Str ''failed''"
     "stored (orders s2) oid ''status'' = Str ''cancelled''"
     "stored (orders s2) oid ''paymentStatus'' = Str ''failed''"
     "stored (tagihan s2) oid ''status'' = Str ''failed''"
     "stored (bookings s2) bid ''status'' = Str ''cancelled''"
     "stored (bookings s2) bid ''paymentStatus'' = Str ''failed''"
     "stored (bookings s2) bid ''tagihanStatus'' = Str ''failed''"
    unfolding s2_def
    by (simp_all add: deliver_effect(3-6) [OF l1 t1 r2 _ me])
  have ok3: "fst (deliver e3 ev3 s2)"
    by (rule deliver_effect(1) [OF l2 t2 r3 _ mp]) simp
  have st3: "stored (transactions s3) oid ''status'' = Str ''pending''"
     "stored (transactions s3) oid ''paymentStatus'' = Str ''unpaid''"
     "stored (transactions s3) oid ''tagihanStatus'' = Str ''unpaid''"
     "stored (orders s3) oid ''status'' = Str ''pending''"
     "stored (orders s3) oid ''paymentStatus'' = Str ''unpaid''"
     "stored (tagihan s3) oid ''status'' = Str ''unpaid''"
     "stored (bookings s3) bid ''status'' = Str ''pending''"
     "stored (bookings s3) bid ''paymentStatus'' = Str ''unpaid''"
     "stored (bookings s3) bid ''tagihanStatus'' = Str ''unpaid''"
    unfolding s3_def
    by (simp_all add: deliver_effect(3-6) [OF l2 t2 r3 _ mp])
  show ?thesis
    using ok' st' ok1 ok2 st2 st3 ok3 unfolding Let_def s'_def s3_def s2_def s1_def by simp
qed


text \<open>The scenario of the order ORD-2, run on the example store.\<close>

lemma ord2_after_expire_facts:
  "linked ord2_after_expire ''ORD-2'' ''BOOK-2''"
  "stored (transactions ord2_after_expire) ''ORD-2'' ''snap_token'' = Str ''token-1''"
  "stored (transactions ord2_after_expire) ''ORD-2'' ''status'' = Str ''cancelled''"
  "stored (transactions ord2_after_expire) ''ORD-2'' ''paymentStatus'' = Str ''failed''"
  "stored (transactions ord2_after_expire) ''ORD-2'' ''tagihanStatus'' = Str ''failed''"
  "stored (orders ord2_after_expire) ''ORD-2'' ''status'' = Str ''cancelled''"
  "stored (bookings ord2_after_expire) ''BOOK-2'' ''status'' = Str ''cancelled''"
proof -
  let ?s0 = "pending_store ''ORD-2'' ''BOOK-2''"
  let ?ev1 = "Webhook (provider_reporting ''ORD-2'' ''pending'') (Obj [])"
  let ?ev2 = "Webhook (provider_reporting ''ORD-2'' ''expire'') (Obj [])"
  let ?s1 = "snd (deliver env0 ?ev1 ?s0)"
  have mp: "mapStatus_notification (Str ''pending'') (Undefined, Undefined, Undefined)
              = (Str ''pending'', Str ''unpaid'', Str ''unpaid'')"
    and me: "mapStatus_notification (Str ''expire'') (Undefined, Undefined, Undefined)
              = (Str ''cancelled'', Str ''failed'', Str ''failed'')"
    by (simp_all add: mapStatus_notification_def)
  have l0: "linked ?s0 ''ORD-2'' ''BOOK-2''" by (rule ord2_linked)
  have w: "is_poll ?ev1 \<longrightarrow> truthy (stored (transactions ?s0) ''ORD-2'' ''snap_token'')"
    "is_poll ?ev2 \<longrightarrow> truthy (stored (transactions ?s1) ''ORD-2'' ''snap_token'')"
    by simp_all
  have l1: "linked ?s1 ''ORD-2'' ''BOOK-2''"
    by (rule deliver_effect(2) [OF l0 w(1) ord2_reports(1) _ mp]) simp
  have k1: "stored (transactions ?s1) ''ORD-2'' ''snap_token'' = Str ''token-1''"
    by (subst deliver_effect(3) [OF l0 w(1) ord2_reports(1) _ mp])
       (simp_all add: fixture_token)
  show "linked ord2_after_expire ''ORD-2'' ''BOOK-2''"
    unfolding ord2_after_expire_def
    by (rule deliver_effect(2) [OF l1 w(2) ord2_reports(1) _ me]) simp
  show "stored (transactions ord2_after_expire) ''ORD-2'' ''snap_token'' = Str ''token-1''"
    unfolding ord2_after_expire_def
    by (subst deliver_effect(3) [OF l1 w(2) ord2_reports(1) _ me]) (simp_all add: k1)
  show "stored (transactions ord2_after_expire) ''ORD-2'' ''status'' = Str ''cancelled''"
    "stored (transactions ord2_after_expire) ''ORD-2'' ''paymentStatus'' = Str ''failed''"
    "stored (transactions ord2_after_expire) ''ORD-2'' ''tagihanStatus'' = Str ''failed''"
    "stored (orders ord2_after_expire) ''ORD-2'' ''status'' = Str ''cancelled''"
    "stored (bookings ord2_after_expire) ''BOOK-2'' ''status'' = Str ''cancelled''"
    unfolding ord2_after_expire_def
    by (simp_all add: deliver_effect(3-6) [OF l1 w(2) ord2_reports(1) _ me])
qed

text \<open>C1 as the specification words it: ORD-2 is cancelled and failed after
  \<open>pending\<close> then \<open>expire\<close>, and a stale \<open>pending\<close>, by webhook or by poll, brings the
  records back to pending and unpaid.\<close>

theorem stale_pending_reverts_counterexample:
  "stored (transactions ord2_after_expire) ''ORD-2'' ''status'' = Str ''cancelled''
   \<and> stored (transactions ord2_after_expire) ''ORD-2'' ''paymentStatus'' = Str ''failed''
   \<and> stored (transactions
        (snd (deliver env0 (Webhook (provider_reporting ''ORD-2'' ''pending'') (Obj []))
           ord2_after_expire))) ''ORD-2'' ''status'' = Str ''pending''
   \<and> stored (transactions
        (snd (deliver env0 (Webhook (provider_reporting ''ORD-2'' ''pending'') (Obj []))
           ord2_after_expire))) ''ORD-2'' ''paymentStatus'' = Str ''unpaid''
   \<and> stored (bookings
        (snd (deliver env0 (Poll (provider_reporting ''ORD-2'' ''pending'') ''ORD-2'')
           ord2_after_expire))) ''BOOK-2'' ''status'' = Str ''pending''
   \<and> stored (orders
        (snd (deliver env0 (Poll (provider_reporting ''ORD-2'' ''pending'') ''ORD-2'')
           ord2_after_expire))) ''ORD-2'' ''paymentStatus'' = Str ''unpaid''"
proof -
  have mp: "mapStatus_notification (Str ''pending'') (Undefined, Undefined, Undefined)
              = (Str ''pending'', Str ''unpaid'', Str ''unpaid'')"
    by (simp add: mapStatus_notification_def)
  have w: "is_poll (Webhook (provider_reporting ''ORD-2'' ''pending'') (Obj []))
             \<longrightarrow> truthy (stored (transactions ord2_after_expire) ''ORD-2'' ''snap_token'')"
    "is_poll (Poll (provider_reporting ''ORD-2'' ''pending'') ''ORD-2'')
             \<longrightarrow> truthy (stored (transactions ord2_after_expire) ''ORD-2'' ''snap_token'')"
    by (simp_all add: ord2_after_expire_facts(2))
  show ?thesis
    by (simp add: ord2_after_expire_facts(3,4)
          deliver_effect(3-6) [OF ord2_after_expire_facts(1) w(1) ord2_reports(1) _ mp]
          deliver_effect(3-6) [OF ord2_after_expire_facts(1) w(2) ord2_reports(2) _ mp])
qed

text \<open>The amended C1 at the order ORD-2: a notification \<open>pending\<close>, a notification
  \<open>expire\<close>, then a poll that reads \<open>pending\<close>.\<close>

theorem reconcile_last_writer_wins_witness:
  "linked (pending_store ''ORD-2'' ''BOOK-2'') ''ORD-2'' ''BOOK-2''
   \<and> is_poll (Poll (provider_reporting ''ORD-2'' ''pending'') ''ORD-2'')
   \<and> truthy (stored (transactions (pending_store ''ORD-2'' ''BOOK-2'')) ''ORD-2'' ''snap_token'')
   \<and> reports (Webhook (provider_reporting ''ORD-2'' ''pending'') (Obj [])) ''ORD-2'' (Str ''pending'')
   \<and> reports (Webhook (provider_reporting ''ORD-2'' ''expire'') (Obj [])) ''ORD-2'' (Str ''expire'')
   \<and> reports (Poll (provider_reporting ''ORD-2'' ''pending'') ''ORD-2'') ''ORD-2'' (Str ''pending'')
   \<and> stored (transactions ord2_after_expire) ''ORD-2'' ''status'' = Str ''cancelled''
   \<and> stored (tagihan ord2_after_expire) ''ORD-2'' ''status'' = Str ''failed''
   \<and> fst (deliver env0 (Poll (provider_reporting ''ORD-2'' ''pending'') ''ORD-2'')
            ord2_after_expire)
   \<and> stored (transactions
        (snd (deliver env0 (Poll (provider_reporting ''ORD-2'' ''pending'') ''ORD-2'')
           ord2_after_expire))) ''ORD-2'' ''status'' = Str ''pending''"
proof -
  have l: "linked (pending_store ''ORD-2'' ''BOOK-2'') ''ORD-2'' ''BOOK-2''"
    by (rule ord2_linked)
  have t: "truthy (stored (transactions (pending_store ''ORD-2'' ''BOOK-2'')) ''ORD-2'' ''snap_token'')"
    by (simp add: fixture_token)
  then have t': "is_poll (Webhook (provider_reporting ''ORD-2'' ''pending'') (Obj []))
       \<or> is_poll (Webhook (provider_reporting ''ORD-2'' ''expire'') (Obj []))
       \<or> is_poll (Poll (provider_reporting ''ORD-2'' ''pending'') ''ORD-2'')
       \<longrightarrow> truthy (stored (transactions (pending_store ''ORD-2'' ''BOOK-2'')) ''ORD-2'' ''snap_token'')"
    by simp
  have r: "reports (Webhook (provider_reporting ''ORD-2'' ''pending'') (Obj [])) ''ORD-2'' (Str ''pending'')"
    "reports (Webhook (provider_reporting ''ORD-2'' ''expire'') (Obj [])) ''ORD-2'' (Str ''expire'')"
    "reports (Poll (provider_reporting ''ORD-2'' ''pending'') ''ORD-2'') ''ORD-2'' (Str ''pending'')"
    by (simp_all add: ord2_reports)
  from reconcile_last_writer_wins [OF l t' r, of env0 env0 env0]
  show ?thesis using l t r by (simp add: Let_def ord2_after_expire_def)
qed

section \<open>What a committed reconciliation writes\<close>

text \<open>
  C2 (as amended). After a reconciliation with a recognized provider status, entered by
  the webhook or by the poll, has been committed, the route has answered with success
  and the transaction and the booking carry the mapped triple status, paymentStatus,
  tagihanStatus; the order carries the mapped status and paymentStatus, and its
  tagihanStatus is not written; the tagihan carries the mapped billing status in its
  field status, and its paymentStatus and tagihanStatus are not written.
\<close>

theorem reconcile_records_after_commit:
  assumes l: "linked s oid bid"
    and tok: "is_poll ev \<longrightarrow> truthy (stored (transactions s) oid ''snap_token'')"
    and r: "reports ev oid st"
    and st: "st \<in> set [Str ''capture'', Str ''settlement'', Str ''pending'',
                      Str ''cancel'', Str ''deny'', Str ''expire'']"
    and m: "mapStatus_notification st
              (stored (transactions s) oid ''status'', stored (transactions s) oid ''paymentStatus'',
               stored (transactions s) oid ''tagihanStatus'') = (a, b, c)"
  shows "fst (deliver e ev s) \<and>
        (let s' = snd (deliver e ev s) in
           stored (transactions s') oid ''status'' = a
         \<and> stored (transactions s') oid ''paymentStatus'' = b
         \<and> stored (transactions s') oid ''tagihanStatus'' = c
         \<and> stored (bookings s') bid ''status'' = a
         \<and> stored (bookings s') bid ''paymentStatus'' = b
         \<and> stored (bookings s') bid ''tagihanStatus'' = c
         \<and> stored (orders s') oid ''status'' = a
         \<and> stored (orders s') oid ''paymentStatus'' = b
         \<and> stored (orders s') oid ''tagihanStatus'' = stored (orders s) oid ''tagihanStatus''
         \<and> stored (tagihan s') oid ''status'' = c
         \<and> stored (tagihan s') oid ''paymentStatus'' = stored (tagihan s) oid ''paymentStatus''
         \<and> stored (tagihan s') oid ''tagihanStatus'' = stored (tagihan s) oid ''tagihanStatus'')"
  using deliver_effect(1) [OF l tok r st m, of e]
  by (simp add: Let_def deliver_effect(3-6) [OF l tok r st m])

text \<open>The amended C2 at the order ORD-1, polled when the provider reports
  \<open>settlement\<close>.\<close>

theorem reconcile_records_after_commit_witness:
  "linked (pending_store ''ORD-1'' ''BOOK-1'') ''ORD-1'' ''BOOK-1''
   \<and> is_poll (Poll (provider_reporting ''ORD-1'' ''settlement'') ''ORD-1'')
   \<and> truthy (stored (transactions (pending_store ''ORD-1'' ''BOOK-1'')) ''ORD-1'' ''snap_token'')
   \<and> reports (Poll (provider_reporting ''ORD-1'' ''settlement'') ''ORD-1'') ''ORD-1'' (Str ''settlement'')
   \<and> Str ''settlement'' \<in> set [Str ''capture'', Str ''settlement'', Str ''pending'',
                      Str ''cancel'', Str ''deny'', Str ''expire'']
   \<and> fst (deliver env0 (Poll (provider_reporting ''ORD-1'' ''settlement'') ''ORD-1'')
            (pending_store ''ORD-1'' ''BOOK-1''))
   \<and> stored (bookings (snd (deliver env0 (Poll (provider_reporting ''ORD-1'' ''settlement'') ''ORD-1'')
            (pending_store ''ORD-1'' ''BOOK-1'')))) ''BOOK-1'' ''paymentStatus'' = Str ''Berhasil''
   \<and> stored (tagihan (snd (deliver env0 (Poll (provider_reporting ''ORD-1'' ''settlement'') ''ORD-1'')
            (pending_store ''ORD-1'' ''BOOK-1'')))) ''ORD-1'' ''status'' = Str ''Berhasil''"
proof -
  have l: "linked (pending_store ''ORD-1'' ''BOOK-1'') ''ORD-1'' ''BOOK-1''"
    by (rule ord1_linked)
  have t: "is_poll (Poll (provider_reporting ''ORD-1'' ''settlement'') ''ORD-1'')
        \<longrightarrow> truthy (stored (transactions (pending_store ''ORD-1'' ''BOOK-1'')) ''ORD-1'' ''snap_token'')"
    by (simp add: fixture_token)
  have r: "reports (Poll (provider_reporting ''ORD-1'' ''settlement'') ''ORD-1'') ''ORD-1'' (Str ''settlement'')"
    by (simp add: ord1_reports)
  have st: "Str ''settlement'' \<in> set [Str ''capture'', Str ''settlement'', Str ''pending'',
                      Str ''cancel'', Str ''deny'', Str ''expire'']"
    by simp
  have m: "mapStatus_notification (Str ''settlement'')
              (stored (transactions (pending_store ''ORD-1'' ''BOOK-1'')) ''ORD-1'' ''status'',
               stored (transactions (pending_store ''ORD-1'' ''BOOK-1'')) ''ORD-1'' ''paymentStatus'',
               stored (transactions (pending_store ''ORD-1'' ''BOOK-1'')) ''ORD-1'' ''tagihanStatus'')
             = (Str ''confirmed'', Str ''Berhasil'', Str ''Berhasil'')"
    by (simp add: mapStatus_notification_def)
  from reconcile_records_after_commit [OF l t r st m, of env0]
  show ?thesis using l r by (simp add: Let_def fixture_token)
qed

text \<open>C2 as the specification words it: after the notification \<open>settlement\<close> for
  ORD-1 the transaction has the status confirmed and the tagihan the status Berhasil,
  and neither the order nor the tagihan has the three fields.\<close>

theorem records_differ_counterexample:
  "fst (deliver env0 (Webhook (provider_reporting ''ORD-1'' ''settlement'') (Obj []))
          (pending_store ''ORD-1'' ''BOOK-1''))
   \<and> stored (transactions ord1_after_settlement) ''ORD-1'' ''status'' = Str ''confirmed''
   \<and> stored (transactions ord1_after_settlement) ''ORD-1'' ''paymentStatus'' = Str ''Berhasil''
   \<and> stored (transactions ord1_after_settlement) ''ORD-1'' ''tagihanStatus'' = Str ''Berhasil''
   \<and> stored (tagihan ord1_after_settlement) ''ORD-1'' ''status'' = Str ''Berhasil''
   \<and> stored (tagihan ord1_after_settlement) ''ORD-1'' ''paymentStatus'' = Undefined
   \<and> stored (tagihan ord1_after_settlement) ''ORD-1'' ''tagihanStatus'' = Undefined
   \<and> stored (orders ord1_after_settlement) ''ORD-1'' ''tagihanStatus'' = Undefined"
proof -
  have l: "linked (pending_store ''ORD-1'' ''BOOK-1'') ''ORD-1'' ''BOOK-1''"
    by (rule ord1_linked)
  have t: "is_poll (Webhook (provider_reporting ''ORD-1'' ''settlement'') (Obj []))
        \<longrightarrow> truthy (stored (transactions (pending_store ''ORD-1'' ''BOOK-1'')) ''ORD-1'' ''snap_token'')"
    by simp
  have m: "mapStatus_notification (Str ''settlement'') (Undefined, Undefined, Undefined)
             = (Str ''confirmed'', Str ''Berhasil'', Str ''Berhasil'')"
    by (simp add: mapStatus_notification_def)
  have f: "stored (tagihan (pending_store ''ORD-1'' ''BOOK-1'')) ''ORD-1'' ''paymentStatus'' = Undefined"
    "stored (tagihan (pending_store ''ORD-1'' ''BOOK-1'')) ''ORD-1'' ''tagihanStatus'' = Undefined"
    "stored (orders (pending_store ''ORD-1'' ''BOOK-1'')) ''ORD-1'' ''tagihanStatus'' = Undefined"
    by (simp_all add: pending_store_def stored_def field_def)
  show ?thesis
    using deliver_effect(1) [OF l t ord1_reports(1) _ m, of env0]
    by (simp add: ord1_after_settlement_def f
          deliver_effect(3-6) [OF l t ord1_reports(1) _ m])
qed

section \<open>The status mapping\<close>

text \<open>
  C3 (as amended). On both ingestion paths the mapping is the same function of the
  provider status and the stored triple: \<open>capture\<close> and \<open>settlement\<close> give
  (confirmed, Berhasil, Berhasil), \<open>pending\<close> gives (pending, unpaid, unpaid),
  \<open>cancel\<close>, \<open>deny\<close> and \<open>expire\<close> give (cancelled, failed, failed), and any other
  provider status leaves the three components at their stored values. The payment and
  billing status of a paid order is the string \<open>Berhasil\<close>.
\<close>

theorem mapStatus_table:
  "mapStatus_notification (Str ''capture'') prior
     = (Str ''confirmed'', Str ''Berhasil'', Str ''Berhasil'')
   \<and> mapStatus_notification (Str ''settlement'') prior
     = (Str ''confirmed'', Str ''Berhasil'', Str ''Berhasil'')
   \<and> mapStatus_notification (Str ''pending'') prior
     = (Str ''pending'', Str ''unpaid'', Str ''unpaid'')
   \<and> mapStatus_notification (Str ''cancel'') prior
     = (Str ''cancelled'', Str ''failed'', Str ''failed'')
   \<and> mapStatus_notification (Str ''deny'') prior
     = (Str ''cancelled'', Str ''failed'', Str ''failed'')
   \<and> mapStatus_notification (Str ''expire'') prior
     = (Str ''cancelled'', Str ''failed'', Str ''failed'')
   \<and> (st \<notin> set [Str ''capture'', Str ''settlement'', Str ''pending'',
                  Str ''cancel'', Str ''deny'', Str ''expire'']
        \<longrightarrow> mapStatus_notification st prior = prior)
   \<and> mapStatus_checkStatus st prior = mapStatus_notification st prior"
  by (simp add: mapStatus_notification_def mapStatus_checkStatus_def)

text \<open>The mapping at the provider status \<open>refund\<close>, which is none of the six.\<close>

theorem mapStatus_table_witness:
  "Str ''refund'' \<notin> set [Str ''capture'', Str ''settlement'', Str ''pending'',
                         Str ''cancel'', Str ''deny'', Str ''expire'']
   \<and> mapStatus_notification (Str ''refund'') (Str ''confirmed'', Str ''Berhasil'', Str ''Berhasil'')
       = (Str ''confirmed'', Str ''Berhasil'', Str ''Berhasil'')
   \<and> mapStatus_checkStatus (Str ''refund'') (Str ''confirmed'', Str ''Berhasil'', Str ''Berhasil'')
       = (Str ''confirmed'', Str ''Berhasil'', Str ''Berhasil'')"
  using mapStatus_table [of "(Str ''confirmed'', Str ''Berhasil'', Str ''Berhasil'')" "Str ''refund''"]
  by simp

text \<open>C3 as the specification words it: \<open>settlement\<close> and \<open>capture\<close> do not map to
  a payment status \<open>success\<close>.\<close>

theorem mapStatus_success_counterexample:
  "mapStatus_notification (Str ''settlement'') (Str ''pending'', Str ''unpaid'', Str ''unpaid'')
     \<noteq> (Str ''confirmed'', Str ''success'', Str ''success'')
   \<and> mapStatus_checkStatus (Str ''capture'') (Str ''pending'', Str ''unpaid'', Str ''unpaid'')
     \<noteq> (Str ''confirmed'', Str ''success'', Str ''success'')"
  by (simp add: mapStatus_notification_def mapStatus_checkStatus_def)


section \<open>Creating a transaction that the provider already holds\<close>

text \<open>
  C4 says that a second create-transaction request for an order id that the provider
  holds issues no second create call, and returns the token and the redirect URL that
  the first request returned. The route issues no create call, but it takes the token
  and the URL from the fields \<^verbatim>\<open>snap_token\<close> and \<^verbatim>\<open>redirect_url\<close> of the object that the
  status lookup returns, and the lookup returns the status of the transaction, not its
  token. The first request for ORD-1 returns the token \<open>token-1\<close>. The second request,
  when the lookup returns the order id, the transaction status and the fraud status,
  asks the provider once and is answered with 500 \<open>Failed to process transaction\<close>,
  as the write of the undefined token throws; when the store handle ignores undefined
  properties it succeeds, returns neither token nor URL, leaves the stored token and
  stores a payment_url that ends in \<open>undefined\<close>.
\<close>

theorem create_transaction_reuse_fails:
  "returned (fst first_create) ''snap_token'' = Some (Str ''token-1'')
   \<and> returned (fst first_create) ''redirect_url''
       = Some (Str ''https://app.midtrans.com/snap/v2/vtweb/token-1'')
   \<and> transaction_status (provider_holding held_status_only) ''ORD-1'' = Inr held_status_only
   \<and> (create_transaction_route env0 (provider_holding held_status_only) ''user-1''
         test_order (fst (snd first_create)))
       = (Err 500 ''Failed to process transaction'', fst (snd first_create), [StatusCall ''ORD-1''])
   \<and> succeeded (fst (create_transaction_route env_ignoring (provider_holding held_status_only) ''user-1''
         test_order (fst (snd first_create))))
   \<and> snd (snd (create_transaction_route env_ignoring (provider_holding held_status_only) ''user-1''
         test_order (fst (snd first_create)))) = [StatusCall ''ORD-1'']
   \<and> returned (fst (create_transaction_route env_ignoring (provider_holding held_status_only) ''user-1''
         test_order (fst (snd first_create)))) ''snap_token'' = Some Undefined
   \<and> returned (fst (create_transaction_route env_ignoring (provider_holding held_status_only) ''user-1''
         test_order (fst (snd first_create)))) ''redirect_url'' = Some Undefined
   \<and> stored (transactions (fst (snd (create_transaction_route env_ignoring (provider_holding held_status_only) ''user-1''
         test_order (fst (snd first_create)))))) ''ORD-1'' ''snap_token'' = Str ''token-1''
   \<and> stored (transactions (fst (snd (create_transaction_route env_ignoring (provider_holding held_status_only) ''user-1''
         test_order (fst (snd first_create)))))) ''ORD-1'' ''payment_url''
       = Str ''https://app.midtrans.com/snap/v2/vtweb/undefined''"
proof -
  let ?p = "provider_holding held_status_only"
  have h: "transaction_status ?p (toString (oprop test_order ''orderId'')) = Inr held_status_only"
    by (simp add: provider_holding_def)
  have u: "oprop held_status_only ''snap_token'' = Undefined"
    "oprop held_status_only ''redirect_url'' = Undefined"
    by (simp_all add: held_status_only_def oprop_def)
  have strict: "\<not> ignoreUndefinedProperties env0" by (simp add: env0_def)
  have m: "oprop held_status_only ''snap_token'' = Undefined
         \<or> oprop held_status_only ''redirect_url'' = Undefined"
    by (simp add: u)
  have 1: "create_transaction_route env0 ?p ''user-1'' test_order (fst (snd first_create))
       = (Err 500 ''Failed to process transaction'', fst (snd first_create), [StatusCall ''ORD-1''])"
    using create_transaction_reuse_throws
            [OF test_order_fields first_create_facts(5-7) h strict m]
    by (simp add: test_order_ident)
  have df: "\<not> ignoreUndefinedProperties env_ignoring \<longrightarrow>
      oprop held_status_only ''snap_token'' \<noteq> Undefined
      \<and> oprop held_status_only ''redirect_url'' \<noteq> Undefined"
    by (simp add: env_ignoring_def)
  from create_transaction_reuse [OF test_order_fields first_create_facts(5-8) h df]
  obtain d s' where
    R: "create_transaction_route env_ignoring ?p ''user-1'' test_order (fst (snd first_create))
          = (Ok 201 d, s', [StatusCall (toString (oprop test_order ''orderId''))])"
    and f: "field (data_of_transaction d) ''snap_token'' = oprop held_status_only ''snap_token''"
       "field (data_of_transaction d) ''redirect_url'' = oprop held_status_only ''redirect_url''"
    by blast
  have ok: "succeeded (fst (create_transaction_route env_ignoring ?p ''user-1'' test_order
              (fst (snd first_create))))"
    by (simp add: R)
  have srt: "oprop [(''token'', oprop held_status_only ''snap_token''),
                    (''redirect_url'', oprop held_status_only ''redirect_url'')] ''token'' = Undefined"
    unfolding u by (simp add: oprop_def)
  note S = create_transaction_stores_fields [OF ok test_order_fields(5) getSnapResponse_holding]
  have 2: "stored (transactions (fst (snd (create_transaction_route env_ignoring ?p ''user-1''
              test_order (fst (snd first_create)))))) ''ORD-1'' ''snap_token'' = Str ''token-1''"
    "stored (transactions (fst (snd (create_transaction_route env_ignoring ?p ''user-1''
              test_order (fst (snd first_create)))))) ''ORD-1'' ''payment_url''
       = Str ''https://app.midtrans.com/snap/v2/vtweb/undefined''"
    using S by (simp_all add: srt first_create_facts(4))
  have 3: "transaction_status ?p ''ORD-1'' = Inr held_status_only"
    by (simp add: provider_holding_def)
  show ?thesis
    using first_create_facts(2,3) 3 1 2
    by (simp add: R f u test_order_ident)
qed

text \<open>The second request of C4 passes the check of its required fields and names the
  document ORD-1, so its answer is that of the reuse and not that of a request
  refused.\<close>

theorem create_transaction_reuse_fails_witness:
  "truthy (oprop test_order ''bookingId'') \<and> truthy (oprop test_order ''orderId'')
   \<and> truthy (oprop test_order ''amount'') \<and> truthy (oprop test_order ''customer_details'')
   \<and> docRef (oprop test_order ''orderId'') = Some ''ORD-1''
   \<and> succeeded (fst first_create)
   \<and> error_of (fst (create_transaction_route env0 (provider_holding held_status_only) ''user-1''
         test_order (fst (snd first_create)))) = Some (500, ''Failed to process transaction'')
   \<and> snd (snd (create_transaction_route env0 (provider_holding held_status_only) ''user-1''
         test_order (fst (snd first_create)))) = [StatusCall ''ORD-1'']
   \<and> returned (fst (create_transaction_route env0 (provider_holding held_status_only) ''user-1''
         test_order (fst (snd first_create)))) ''snap_token'' = None"
  using create_transaction_reuse_fails test_order_fields first_create_facts(1)
  by simp

text \<open>When the lookup of the second request reports the token and the redirect URL that
  the first request has returned, the second request succeeds, its only call to the
  provider is the lookup, and it returns that token and that URL.\<close>

lemma create_transaction_reuses_reported_token:
  assumes first: "succeeded (fst (create_transaction_route e1 p1 uid body s))"
    and oid: "docRef (oprop body ''orderId'') = Some oid"
    and held: "transaction_status p2 (toString (oprop body ''orderId'')) = Inr ex"
    and same: "returned (fst (create_transaction_route e1 p1 uid body s)) ''snap_token''
                 = Some (oprop ex ''snap_token'')"
              "returned (fst (create_transaction_route e1 p1 uid body s)) ''redirect_url''
                 = Some (oprop ex ''redirect_url'')"
    and cfg: "ignoreUndefinedProperties e2 = ignoreUndefinedProperties e1"
  shows "succeeded (fst (create_transaction_route e2 p2 uid body
                           (fst (snd (create_transaction_route e1 p1 uid body s)))))
       \<and> snd (snd (create_transaction_route e2 p2 uid body
                           (fst (snd (create_transaction_route e1 p1 uid body s)))))
           = [StatusCall (toString (oprop body ''orderId''))]
       \<and> returned (fst (create_transaction_route e2 p2 uid body
                           (fst (snd (create_transaction_route e1 p1 uid body s))))) ''snap_token''
           = returned (fst (create_transaction_route e1 p1 uid body s)) ''snap_token''
       \<and> returned (fst (create_transaction_route e2 p2 uid body
                           (fst (snd (create_transaction_route e1 p1 uid body s))))) ''redirect_url''
           = returned (fst (create_transaction_route e1 p1 uid body s)) ''redirect_url''"
proof -
  obtain r1 s1 c1 where R1: "create_transaction_route e1 p1 uid body s = (r1, s1, c1)"
    by (cases "create_transaction_route e1 p1 uid body s") auto
  with first obtain c d1 where r1: "r1 = Ok c d1"
    by (cases r1) auto
  from create_transaction_Ok [OF R1 [unfolded r1]] oid obtain sr s2 where
    A: "truthy (oprop body ''bookingId'')" "truthy (oprop body ''orderId'')"
       "truthy (oprop body ''amount'')" "truthy (oprop body ''customer_details'')"
       "createOrUpdateTransaction e1 uid oid body sr s2 = Some (data_of_transaction d1, s1)"
       "stored (orders s1) oid ''userId'' = Str uid" "orders s1 oid \<noteq> None"
       "tagihan s1 oid \<noteq> None" "transactions s1 oid \<noteq> None"
    by auto
  note C = createOrUpdateTransaction_Some [OF A(5)]
  have tk: "oprop ex ''snap_token'' = oprop sr ''token''"
    "oprop ex ''redirect_url'' = oprop sr ''redirect_url''"
    using same C by (simp_all add: R1 r1)
  have df: "\<not> ignoreUndefinedProperties e2 \<longrightarrow>
               oprop ex ''snap_token'' \<noteq> Undefined \<and> oprop ex ''redirect_url'' \<noteq> Undefined"
    using C cfg tk by simp
  from create_transaction_reuse [OF A(1-4) oid A(6-9) held df]
  obtain d2 s' where
    R2: "create_transaction_route e2 p2 uid body s1 = (Ok 201 d2, s', [StatusCall (toString (oprop body ''orderId''))])"
    and f: "field (data_of_transaction d2) ''snap_token'' = oprop ex ''snap_token''"
       "field (data_of_transaction d2) ''redirect_url'' = oprop ex ''redirect_url''"
    by blast
  show ?thesis
    using same by (simp add: R1 r1 R2 f)
qed



section \<open>The token fields of a transaction document\<close>






section \<open>No compensating delete in the create-transaction route\<close>

text \<open>
  C6 says that when the provider's create call fails during a first-time setup, the order
  and the tagihan created for the order id in the same request no longer exist afterwards.
  The create-order route does so. The create-transaction route does not: on the empty
  store, the request for ORD-1 is answered with 500 \<open>Failed to create payment
  transaction\<close> when the provider fails to create the transaction, and the order and
  the tagihan that the request has created are still in the store.
\<close>

theorem create_transaction_keeps_records_on_failure:
  "orders empty_store ''ORD-1'' = None
   \<and> tagihan empty_store ''ORD-1'' = None
   \<and> fst (create_transaction_route env0 provider_failing ''user-1'' test_order empty_store)
       = Err 500 ''Failed to create payment transaction''
   \<and> orders (fst (snd (create_transaction_route env0 provider_failing ''user-1'' test_order
         empty_store))) ''ORD-1'' \<noteq> None
   \<and> tagihan (fst (snd (create_transaction_route env0 provider_failing ''user-1'' test_order
         empty_store))) ''ORD-1'' \<noteq> None"
proof -
  have own: "orders empty_store ''ORD-1'' \<noteq> None \<longrightarrow>
              stored (orders empty_store) ''ORD-1'' ''userId'' = Str ''user-1''"
    by (simp add: empty_store_def)
  have e: "orders empty_store ''ORD-1'' = None" "tagihan empty_store ''ORD-1'' = None"
    by (simp_all add: empty_store_def)
  from create_transaction_provider_fails [OF test_order_fields own getSnapResponse_failing, of env0]
  obtain s' where "create_transaction_route env0 provider_failing ''user-1'' test_order empty_store
      = (Err 500 ''Failed to create payment transaction'', s',
         [StatusCall (toString (oprop test_order ''orderId'')),
          CreateCall (snapPayload env0 (oprop test_order ''orderId'')
         (oprop test_order ''amount'') (oprop test_order ''customer_details'')
         (oprop test_order ''payment_type''))])"
    "orders s' ''ORD-1'' \<noteq> None" "tagihan s' ''ORD-1'' \<noteq> None"
    by blast
  then show ?thesis using e by simp
qed

text \<open>The request of C6 passes the check of its required fields, so the answer above is
  that of the provider's failure and not that of a request refused.\<close>

theorem create_transaction_keeps_records_on_failure_witness:
  "truthy (oprop test_order ''bookingId'') \<and> truthy (oprop test_order ''orderId'')
   \<and> truthy (oprop test_order ''amount'') \<and> truthy (oprop test_order ''customer_details'')
   \<and> docRef (oprop test_order ''orderId'') = Some ''ORD-1''
   \<and> error_of (fst (create_transaction_route env0 provider_failing ''user-1'' test_order
         empty_store)) = Some (500, ''Failed to create payment transaction'')
   \<and> orders (fst (snd (create_transaction_route env0 provider_failing ''user-1'' test_order
         empty_store))) ''ORD-1'' \<noteq> None
   \<and> tagihan (fst (snd (create_transaction_route env0 provider_failing ''user-1'' test_order
         empty_store))) ''ORD-1'' \<noteq> None"
  using create_transaction_keeps_records_on_failure test_order_fields
  by simp

text \<open>The compensating delete of the create-order route: when the creation at the
  provider fails, or its response lacks the token or the redirect URL, the order and the
  tagihan of the order id are deleted and the response is an error.\<close>

lemma create_order_compensates:
  assumes tr: "truthy (oprop body ''bookingId'')" "truthy (oprop body ''orderId'')"
      "truthy (oprop body ''amount'')" "truthy (oprop body ''customerDetails'')"
      "truthy (oprop body ''paymentType'')"
    and oid: "docRef (oprop body ''orderId'') = Some oid"
    and own: "orders s oid \<noteq> None \<longrightarrow> stored (orders s) oid ''userId'' = Str uid"
    and new: "transactions s oid = None"
    and fail: "case createTransaction p
                      (midtransPayload e (oprop body ''bookingId'') (oprop body ''orderId'')
                         (oprop body ''amount'') (oprop body ''customerDetails'')
                         (oprop body ''paymentType'')) of
                 Inl err \<Rightarrow> True
               | Inr r \<Rightarrow> \<not> truthy (oprop r ''token'') \<or> \<not> truthy (oprop r ''redirect_url'')"
  shows "\<not> succeeded (fst (create_order_route e p uid body s))
       \<and> orders (fst (snd (create_order_route e p uid body s))) oid = None
       \<and> tagihan (fst (snd (create_order_route e p uid body s))) oid = None
       \<and> transactions (fst (snd (create_order_route e p uid body s))) = transactions s"
proof -
  from create_order_unfold [OF tr oid own new, of e p] obtain od tg s2 where
    t: "transactions s2 = transactions s"
    and r: "create_order_route e p uid body s =
          (let payload = midtransPayload e (oprop body ''bookingId'') (oprop body ''orderId'')
                 (oprop body ''amount'') (oprop body ''customerDetails'') (oprop body ''paymentType'');
               calls = [CreateCall payload] in
           case createTransaction p payload of
             Inl err \<Rightarrow>
               (case cleanUp oid (api_status_message err) s2 of (r, s') \<Rightarrow> (r, s', calls))
           | Inr midtransResponse \<Rightarrow>
               (if \<not> truthy (oprop midtransResponse ''token'')
                     \<or> \<not> truthy (oprop midtransResponse ''redirect_url'')
                then (case cleanUp oid Undefined s2 of (r, s') \<Rightarrow> (r, s', calls))
                else
                  (let transaction =
                         [(''bookingId'', oprop body ''bookingId''), (''orderId'', oprop body ''orderId''),
                          (''amount'', parseInt e (oprop body ''amount'')), (''userId'', Str uid),
                          (''status'', Str ''pending''), (''payment_type'', oprop body ''paymentType''),
                          (''snap_token'', oprop midtransResponse ''token''),
                          (''redirect_url'', oprop midtransResponse ''redirect_url''),
                          (''created_at'', ServerTimestamp), (''updated_at'', ServerTimestamp)] in
                   case fs_set e Transactions oid transaction s2 of
                     None \<Rightarrow> (case cleanUp oid Undefined s2 of (r, s') \<Rightarrow> (r, s', calls))
                   | Some s3 \<Rightarrow>
                       (Ok 200 \<lparr>data_of_order = od, data_of_tagihan = tg,
                                data_of_transaction = map_of transaction\<rparr>, s3, calls))))"
    by blast
  have "\<exists>msg. create_order_route e p uid body s =
          (fst (cleanUp oid msg s2), snd (cleanUp oid msg s2),
           [CreateCall (midtransPayload e (oprop body ''bookingId'') (oprop body ''orderId'')
                 (oprop body ''amount'') (oprop body ''customerDetails'') (oprop body ''paymentType''))])"
    using fail unfolding r Let_def
    by (auto simp: case_prod_beta split: sum.splits)
  then show ?thesis
    using t by (auto simp: cleanUp_transactions)
qed


section \<open>Reconciliation when a record is absent\<close>

text \<open>
  C7 (as amended). When the order id, or the bookingId of the order, names no document,
  or the transaction, the order or the booking of the order id is absent, neither route
  changes the store. An absent order is reported as 404 \<open>Order not found\<close> by both
  routes. An absent transaction is reported as 404 \<open>Transaction not found\<close> by the poll
  and as the general 500 \<open>Failed to process notification\<close> by the webhook. An absent
  booking is reported by the webhook as the same general 500, and is not reported by the
  poll, which answers with success. An order id or a bookingId that names no document is
  reported as the general 500 of the route, \<open>Failed to process notification\<close> by the
  webhook and \<open>Failed to check status\<close> by the poll.
\<close>

theorem reconcile_absent_record:
  assumes n: "transaction_notification p body = Inr n"
    and absent: "case docRef (oprop n ''order_id'') of
                   None \<Rightarrow> True
                 | Some oid \<Rightarrow>
                     transactions s oid = None \<or> orders s oid = None
                     \<or> (case docRef (stored (orders s) oid ''bookingId'') of
                           None \<Rightarrow> True
                         | Some bid \<Rightarrow> bookings s bid = None)"
    and absent': "case docRef (Str orderId) of
                   None \<Rightarrow> True
                 | Some oid \<Rightarrow>
                     transactions s oid = None \<or> orders s oid = None
                     \<or> (case docRef (stored (orders s) oid ''bookingId'') of
                           None \<Rightarrow> True
                         | Some bid \<Rightarrow> bookings s bid = None)"
  shows "snd (notification_route e p body s) = (s, [NotificationCall body])
       \<and> error_of (fst (notification_route e p body s)) =
           (case docRef (oprop n ''order_id'') of
              None \<Rightarrow> Some (500, ''Failed to process notification'')
            | Some oid \<Rightarrow>
                if transactions s oid \<noteq> None \<and> orders s oid = None
                then Some (404, ''Order not found'')
                else Some (500, ''Failed to process notification''))
       \<and> fst (snd (checkStatus_route e q orderId s)) = s
       \<and> error_of (fst (checkStatus_route e q orderId s)) =
           (case docRef (Str orderId) of
              None \<Rightarrow> Some (500, ''Failed to check status'')
            | Some oid \<Rightarrow>
                if transactions s oid = None then Some (404, ''Transaction not found'')
                else if orders s oid = None then Some (404, ''Order not found'')
                else (case docRef (stored (orders s) oid ''bookingId'') of
                        None \<Rightarrow> Some (500, ''Failed to check status'')
                      | Some bid \<Rightarrow> None))"
proof -
  have webhook: "snd (notification_route e p body s) = (s, [NotificationCall body])
       \<and> error_of (fst (notification_route e p body s)) =
           (case docRef (oprop n ''order_id'') of
              None \<Rightarrow> Some (500, ''Failed to process notification'')
            | Some oid \<Rightarrow>
                if transactions s oid \<noteq> None \<and> orders s oid = None
                then Some (404, ''Order not found'')
                else Some (500, ''Failed to process notification''))"
  proof (cases "docRef (oprop n ''order_id'')")
    case None
    show ?thesis using notification_absent(1) [OF n None, of e s] None by simp
  next
    case (Some oid)
    note oid = Some
    show ?thesis
    proof (cases "transactions s oid")
      case None
      show ?thesis using notification_absent(2) [OF n oid None, of e] oid None by simp
    next
      case (Some t)
      note t = Some
      show ?thesis
      proof (cases "orders s oid")
        case None
        show ?thesis using notification_absent(3) [OF n oid t None, of e] oid t None by simp
      next
        case (Some od)
        note od = Some
        show ?thesis
        proof (cases "docRef (field od ''bookingId'')")
          case None
          show ?thesis
            using notification_absent(4) [OF n oid t od None, of e] oid t od by simp
        next
          case (Some bid)
          with absent oid t od have "bookings s bid = None"
            by (simp add: stored_def)
          then show ?thesis
            using notification_absent(5) [OF n oid t od Some, of e] oid t od by simp
        qed
      qed
    qed
  qed
  have poll: "fst (snd (checkStatus_route e q orderId s)) = s
       \<and> error_of (fst (checkStatus_route e q orderId s)) =
           (case docRef (Str orderId) of
              None \<Rightarrow> Some (500, ''Failed to check status'')
            | Some oid \<Rightarrow>
                if transactions s oid = None then Some (404, ''Transaction not found'')
                else if orders s oid = None then Some (404, ''Order not found'')
                else (case docRef (stored (orders s) oid ''bookingId'') of
                        None \<Rightarrow> Some (500, ''Failed to check status'')
                      | Some bid \<Rightarrow> None))"
  proof (cases "docRef (Str orderId)")
    case None
    show ?thesis using checkStatus_absent(1) [OF None, of e q s] None by simp
  next
    case (Some oid)
    note oid = Some
    show ?thesis
    proof (cases "transactions s oid")
      case None
      show ?thesis using checkStatus_absent(2) [OF oid None, of e q] oid None by simp
    next
      case (Some t)
      note t = Some
      show ?thesis
      proof (cases "orders s oid")
        case None
        show ?thesis using checkStatus_absent(3) [OF oid t None, of e q] oid t None by simp
      next
        case (Some od)
        note od = Some
        show ?thesis
        proof (cases "docRef (field od ''bookingId'')")
          case None
          show ?thesis
            using checkStatus_absent(4) [OF oid t od None, of e q] oid t od None
            by (simp add: stored_def)
        next
          case (Some bid)
          with absent' oid t od have b: "bookings s bid = None"
            by (simp add: stored_def)
          note ok = checkStatus_absent(5) [OF oid t od Some b, of e q]
          then have "error_of (fst (checkStatus_route e q orderId s)) = None"
            by (cases "fst (checkStatus_route e q orderId s)") simp_all
          then show ?thesis
            using ok oid t od Some by (simp add: stored_def)
        qed
      qed
    qed
  qed
  show ?thesis using webhook poll by simp
qed

text \<open>The amended C7 at the order ORD-4 without its booking, and at the order id
  \<open>a/b\<close>, which names no document.\<close>

theorem reconcile_absent_record_witness:
  "transaction_notification (provider_reporting ''ORD-4'' ''settlement'') (Obj []) =
     Inr [(''order_id'', Str ''ORD-4''), (''transaction_status'', Str ''settlement''),
          (''fraud_status'', Str ''accept'')]
   \<and> docRef (Str ''ORD-4'') = Some ''ORD-4''
   \<and> docRef (stored (orders no_booking_store) ''ORD-4'' ''bookingId'') = Some ''BOOK-4''
   \<and> bookings no_booking_store ''BOOK-4'' = None
   \<and> docRef (Str ''a/b'') = None
   \<and> snd (notification_route env0 (provider_reporting ''ORD-4'' ''settlement'') (Obj [])
       no_booking_store) = (no_booking_store, [NotificationCall (Obj [])])
   \<and> error_of (fst (notification_route env0 (provider_reporting ''ORD-4'' ''settlement'') (Obj [])
       no_booking_store)) = Some (500, ''Failed to process notification'')
   \<and> fst (snd (checkStatus_route env0 (provider_reporting ''ORD-4'' ''settlement'') ''ORD-4''
       no_booking_store)) = no_booking_store
   \<and> error_of (fst (checkStatus_route env0 (provider_reporting ''ORD-4'' ''settlement'') ''ORD-4''
       no_booking_store)) = None
   \<and> fst (snd (checkStatus_route env0 (provider_reporting ''ORD-4'' ''settlement'') ''a/b''
       no_booking_store)) = no_booking_store
   \<and> error_of (fst (checkStatus_route env0 (provider_reporting ''ORD-4'' ''settlement'') ''a/b''
       no_booking_store)) = Some (500, ''Failed to check status'')"
proof -
  have ab: "docRef (Str ''a/b'') = None"
    by (simp add: docRef_def segments_def)
  have a: "case docRef (oprop [(''order_id'', Str ''ORD-4''), (''transaction_status'', Str ''settlement''),
          (''fraud_status'', Str ''accept'')] ''order_id'') of
             None \<Rightarrow> True
           | Some oid \<Rightarrow>
               transactions no_booking_store oid = None \<or> orders no_booking_store oid = None
               \<or> (case docRef (stored (orders no_booking_store) oid ''bookingId'') of
                     None \<Rightarrow> True
                   | Some bid \<Rightarrow> bookings no_booking_store bid = None)"
    by (simp add: ord4_facts fixture_ids)
  have a1: "case docRef (Str ''ORD-4'') of
             None \<Rightarrow> True
           | Some oid \<Rightarrow>
               transactions no_booking_store oid = None \<or> orders no_booking_store oid = None
               \<or> (case docRef (stored (orders no_booking_store) oid ''bookingId'') of
                     None \<Rightarrow> True
                   | Some bid \<Rightarrow> bookings no_booking_store bid = None)"
    by (simp add: ord4_facts fixture_ids)
  have a2: "case docRef (Str ''a/b'') of
             None \<Rightarrow> True
           | Some oid \<Rightarrow>
               transactions no_booking_store oid = None \<or> orders no_booking_store oid = None
               \<or> (case docRef (stored (orders no_booking_store) oid ''bookingId'') of
                     None \<Rightarrow> True
                   | Some bid \<Rightarrow> bookings no_booking_store bid = None)"
    by (simp add: ab)
  from reconcile_absent_record [OF ord4_facts(6) a a1, of env0 "provider_reporting ''ORD-4'' ''settlement''"]
    reconcile_absent_record [OF ord4_facts(6) a a2, of env0 "provider_reporting ''ORD-4'' ''settlement''"]
  show ?thesis by (simp add: ord4_facts fixture_ids ab)
qed

text \<open>C7 as the specification words it: the webhook answers an absent transaction
  and an absent booking with the same error, and the poll answers an absent booking with
  no error.\<close>

theorem absent_booking_not_distinct_counterexample:
  "error_of (fst (notification_route env0 (provider_reporting ''ORD-4'' ''settlement'') (Obj [])
       no_transaction_store)) = Some (500, ''Failed to process notification'')
   \<and> error_of (fst (notification_route env0 (provider_reporting ''ORD-4'' ''settlement'') (Obj [])
       no_booking_store)) = Some (500, ''Failed to process notification'')
   \<and> error_of (fst (checkStatus_route env0 (provider_reporting ''ORD-4'' ''settlement'') ''ORD-4''
       no_booking_store)) = None"
proof -
  have o: "docRef (oprop [(''order_id'', Str ''ORD-4''), (''transaction_status'', Str ''settlement''),
          (''fraud_status'', Str ''accept'')] ''order_id'') = Some ''ORD-4''"
    by (simp add: ord4_facts fixture_ids)
  have b: "docRef (field (map_of
          [(''bookingId'', Str ''BOOK-4''), (''orderId'', Str ''ORD-4''), (''amount'', Num 50000),
           (''userId'', Str ''user-1''), (''status'', Str ''pending'')]) ''bookingId'') = Some ''BOOK-4''"
    by (simp add: field_def fixture_ids)
  have 1: "error_of (fst (notification_route env0 (provider_reporting ''ORD-4'' ''settlement'') (Obj [])
       no_transaction_store)) = Some (500, ''Failed to process notification'')"
    by (simp add: notification_absent(2) [OF ord4_facts(6) o ord4_facts(5)])
  have 2: "error_of (fst (notification_route env0 (provider_reporting ''ORD-4'' ''settlement'') (Obj [])
       no_booking_store)) = Some (500, ''Failed to process notification'')"
    using notification_absent(5) [OF ord4_facts(6) o ord4_facts(1,2) b, of env0] ord4_facts(4)
    by simp
  have "succeeded (fst (checkStatus_route env0 (provider_reporting ''ORD-4'' ''settlement'') ''ORD-4''
       no_booking_store))"
    using checkStatus_absent(5) [OF fixture_ids(4) ord4_facts(1,2) b ord4_facts(4)] by simp
  then have 3: "error_of (fst (checkStatus_route env0 (provider_reporting ''ORD-4'' ''settlement'') ''ORD-4''
       no_booking_store)) = None"
    by (cases "fst (checkStatus_route env0 (provider_reporting ''ORD-4'' ''settlement'') ''ORD-4''
       no_booking_store)") simp_all
  show ?thesis using 1 2 3 by simp
qed


section \<open>The response of the status check\<close>

text \<open>
  C8 (as amended). When the status check answers with success, the order, the tagihan
  and the booking of its response are the documents read from the store that the route
  leaves, that is after the commit; the transaction of its response is not read from the
  store: it is the object of the order id, the three local variables status,
  paymentStatus and tagihanStatus, and the flag isLocalStatus, as the reconciliation
  block left them.
\<close>

theorem checkStatus_response_view:
  assumes ok: "succeeded (fst (checkStatus_route e p orderId s))"
  shows "\<exists>oid t od bid tr isLocal.
           docRef (Str orderId) = Some oid
         \<and> transactions s oid = Some t \<and> orders s oid = Some od
         \<and> docRef (field od ''bookingId'') = Some bid
         \<and> checkStatus_reconcile e p orderId oid bid t s
             = (tr, isLocal, snd (checkStatus_route e p orderId s))
         \<and> fst (checkStatus_route e p orderId s) =
             Ok 200
               \<lparr>data_transaction =
                  [(''orderId'', Str orderId), (''status'', fst tr),
                   (''paymentStatus'', fst (snd tr)), (''tagihanStatus'', snd (snd tr)),
                   (''isLocalStatus'', Bool isLocal), (''transaction_status'', fst tr)],
                data_order = orders (fst (snd (checkStatus_route e p orderId s))) oid,
                data_tagihan = tagihan (fst (snd (checkStatus_route e p orderId s))) oid,
                data_booking = bookings (fst (snd (checkStatus_route e p orderId s))) bid\<rparr>"
proof -
  from ok obtain oid where oid: "docRef (Str orderId) = Some oid"
    by (cases "docRef (Str orderId)") (auto simp: checkStatus_route_def Let_def)
  from ok oid obtain t where t: "transactions s oid = Some t"
    by (cases "transactions s oid") (auto simp: checkStatus_route_def Let_def)
  from ok oid t obtain od where od: "orders s oid = Some od"
    by (cases "orders s oid") (auto simp: checkStatus_route_def Let_def)
  from ok oid t od obtain bid where bid: "docRef (field od ''bookingId'') = Some bid"
    by (cases "docRef (field od ''bookingId'')") (auto simp: checkStatus_route_def Let_def)
  obtain a b c isLocal s' calls where
    rc: "checkStatus_reconcile e p orderId oid bid t s = ((a, b, c), isLocal, s', calls)"
    by (metis prod_cases4 prod_cases3)
  have "checkStatus_route e p orderId s =
          (Ok 200
               \<lparr>data_transaction =
                  [(''orderId'', Str orderId), (''status'', a),
                   (''paymentStatus'', b), (''tagihanStatus'', c),
                   (''isLocalStatus'', Bool isLocal), (''transaction_status'', a)],
                data_order = orders s' oid,
                data_tagihan = tagihan s' oid,
                data_booking = bookings s' bid\<rparr>, s', calls)"
    using oid t od bid rc by (simp add: checkStatus_route_def)
  then show ?thesis using oid t od bid rc by simp
qed

text \<open>The poll of ORD-1 while the provider reports \<open>settlement\<close>.\<close>

lemma ord1_poll_eq:
  "\<exists>n t od tg bk. ord1_poll =
     (Ok 200 \<lparr>data_transaction =
                    [(''orderId'', Str ''ORD-1''), (''status'', Str ''confirmed''),
                     (''paymentStatus'', Str ''Berhasil''), (''tagihanStatus'', Str ''Berhasil''),
                     (''isLocalStatus'', Bool False), (''transaction_status'', Str ''confirmed'')],
                  data_order = orders (reconciled env0 ''ORD-1'' ''BOOK-1'' (Str ''confirmed'') (Str ''Berhasil'') (Str ''Berhasil'') n t od tg bk (pending_store ''ORD-1'' ''BOOK-1'')) ''ORD-1'',
                  data_tagihan = tagihan (reconciled env0 ''ORD-1'' ''BOOK-1'' (Str ''confirmed'') (Str ''Berhasil'') (Str ''Berhasil'') n t od tg bk (pending_store ''ORD-1'' ''BOOK-1'')) ''ORD-1'',
                  data_booking = bookings (reconciled env0 ''ORD-1'' ''BOOK-1'' (Str ''confirmed'') (Str ''Berhasil'') (Str ''Berhasil'') n t od tg bk (pending_store ''ORD-1'' ''BOOK-1'')) ''BOOK-1''\<rparr>,
            reconciled env0 ''ORD-1'' ''BOOK-1'' (Str ''confirmed'') (Str ''Berhasil'') (Str ''Berhasil'') n t od tg bk (pending_store ''ORD-1'' ''BOOK-1''), [StatusCall ''ORD-1''])
     \<and> transactions (pending_store ''ORD-1'' ''BOOK-1'') ''ORD-1'' = Some t"
proof -
  let ?s = "pending_store ''ORD-1'' ''BOOK-1''"
  from linked_docs [OF ord1_linked]
  obtain t od tg bk where
    docs: "transactions ?s ''ORD-1'' = Some t" "orders ?s ''ORD-1'' = Some od" "tagihan ?s ''ORD-1'' = Some tg"
      "bookings ?s ''BOOK-1'' = Some bk" "docRef (field od ''bookingId'') = Some ''BOOK-1''"
    by blast
  have tk: "truthy (field t ''snap_token'')"
    using fixture_token [of "''ORD-1''" "''BOOK-1''"] docs(1) by (simp add: stored_def)
  let ?n = "[(''order_id'', Str ''ORD-1''), (''transaction_status'', Str ''settlement''),
                    (''fraud_status'', Str ''accept'')]"
  have n: "transaction_status (provider_reporting ''ORD-1'' ''settlement'') ''ORD-1'' = Inr ?n"
    by (simp add: provider_reporting_def)
  have m: "mapStatus_checkStatus (oprop ?n ''transaction_status'')
              (field t ''status'', field t ''paymentStatus'', field t ''tagihanStatus'')
            = (Str ''confirmed'', Str ''Berhasil'', Str ''Berhasil'')"
    by (simp add: mapStatus_checkStatus_def oprop_def)
  from checkStatus_commits [OF docs fixture_ids(1) tk n m, of env0] docs(1)
  show ?thesis unfolding ord1_poll_def by blast
qed

text \<open>C8 as the specification words it: after the poll of ORD-1 has committed, the
  transaction of the response is the triple and the two flags only; the token, the
  amount and the time of the update that the stored transaction holds are not in it.\<close>

theorem poll_transaction_not_fetched_counterexample:
  "map_option data_transaction (response_data (fst ord1_poll)) =
     Some [(''orderId'', Str ''ORD-1''), (''status'', Str ''confirmed''),
           (''paymentStatus'', Str ''Berhasil''), (''tagihanStatus'', Str ''Berhasil''),
           (''isLocalStatus'', Bool False), (''transaction_status'', Str ''confirmed'')]
   \<and> stored (transactions (fst (snd ord1_poll))) ''ORD-1'' ''snap_token'' = Str ''token-1''
   \<and> stored (transactions (fst (snd ord1_poll))) ''ORD-1'' ''amount'' = Num 50000
   \<and> stored (transactions (fst (snd ord1_poll))) ''ORD-1'' ''updated_at'' = Timestamp 1000"
proof -
  from ord1_poll_eq obtain n t od tg bk where
    eq: "ord1_poll =
     (Ok 200 \<lparr>data_transaction =
                    [(''orderId'', Str ''ORD-1''), (''status'', Str ''confirmed''),
                     (''paymentStatus'', Str ''Berhasil''), (''tagihanStatus'', Str ''Berhasil''),
                     (''isLocalStatus'', Bool False), (''transaction_status'', Str ''confirmed'')],
                  data_order = orders (reconciled env0 ''ORD-1'' ''BOOK-1'' (Str ''confirmed'') (Str ''Berhasil'') (Str ''Berhasil'') n t od tg bk (pending_store ''ORD-1'' ''BOOK-1'')) ''ORD-1'',
                  data_tagihan = tagihan (reconciled env0 ''ORD-1'' ''BOOK-1'' (Str ''confirmed'') (Str ''Berhasil'') (Str ''Berhasil'') n t od tg bk (pending_store ''ORD-1'' ''BOOK-1'')) ''ORD-1'',
                  data_booking = bookings (reconciled env0 ''ORD-1'' ''BOOK-1'' (Str ''confirmed'') (Str ''Berhasil'') (Str ''Berhasil'') n t od tg bk (pending_store ''ORD-1'' ''BOOK-1'')) ''BOOK-1''\<rparr>,
            reconciled env0 ''ORD-1'' ''BOOK-1'' (Str ''confirmed'') (Str ''Berhasil'') (Str ''Berhasil'') n t od tg bk (pending_store ''ORD-1'' ''BOOK-1''), [StatusCall ''ORD-1''])"
    and t: "transactions (pending_store ''ORD-1'' ''BOOK-1'') ''ORD-1'' = Some t"
    by blast
  have f: "field t ''snap_token'' = Str ''token-1''" "field t ''amount'' = Num 50000"
    using t by (auto simp: pending_store_def field_def)
  show ?thesis
    by (simp add: eq stored_reconciled f) (simp add: env0_def)
qed

text \<open>The amended C8 at the poll of ORD-1.\<close>

theorem checkStatus_response_view_witness:
  "succeeded (fst ord1_poll)
   \<and> map_option data_transaction (response_data (fst ord1_poll)) =
     Some [(''orderId'', Str ''ORD-1''), (''status'', Str ''confirmed''),
           (''paymentStatus'', Str ''Berhasil''), (''tagihanStatus'', Str ''Berhasil''),
           (''isLocalStatus'', Bool False), (''transaction_status'', Str ''confirmed'')]
   \<and> map_option data_order (response_data (fst ord1_poll)) = Some (orders (fst (snd ord1_poll)) ''ORD-1'')
   \<and> map_option data_tagihan (response_data (fst ord1_poll)) = Some (tagihan (fst (snd ord1_poll)) ''ORD-1'')
   \<and> map_option data_booking (response_data (fst ord1_poll)) = Some (bookings (fst (snd ord1_poll)) ''BOOK-1'')"
proof -
  have ok: "succeeded (fst (checkStatus_route env0 (provider_reporting ''ORD-1'' ''settlement'') ''ORD-1''
       (pending_store ''ORD-1'' ''BOOK-1'')))"
    using ord1_poll_eq by (auto simp: ord1_poll_def)
  have od: "stored (orders (pending_store ''ORD-1'' ''BOOK-1'')) ''ORD-1'' ''bookingId'' = Str ''BOOK-1''"
    by (simp add: pending_store_def stored_def field_def)
  from checkStatus_response_view [OF ok] ord1_poll_eq od
  show ?thesis
    by (auto simp: ord1_poll_def stored_def fixture_ids)
qed

text \<open>When the commit of the poll fails, here because the booking is absent, the
  transaction of the response still shows the mapped triple, marked as not local, while
  the stored transaction is unchanged.\<close>

lemma poll_answers_uncommitted_triple:
  "map_option data_transaction (response_data (fst
      (checkStatus_route env0 (provider_reporting ''ORD-4'' ''settlement'') ''ORD-4'' no_booking_store)))
     = Some [(''orderId'', Str ''ORD-4''), (''status'', Str ''confirmed''),
             (''paymentStatus'', Str ''Berhasil''), (''tagihanStatus'', Str ''Berhasil''),
             (''isLocalStatus'', Bool False), (''transaction_status'', Str ''confirmed'')]
   \<and> stored (transactions (fst (snd
      (checkStatus_route env0 (provider_reporting ''ORD-4'' ''settlement'') ''ORD-4'' no_booking_store))))
        ''ORD-4'' ''status'' = Str ''pending''"
proof -
  define t where "t = map_of
          [(''orderId'', Str ''ORD-4''), (''bookingId'', Str ''BOOK-4''), (''amount'', Num 50000),
           (''userId'', Str ''user-1''), (''status'', Str ''pending''),
           (''snap_token'', Str ''token-1''),
           (''redirect_url'', Str ''https://app.midtrans.com/snap/v2/vtweb/token-1'')]"
  define od where "od = map_of
          [(''bookingId'', Str ''BOOK-4''), (''orderId'', Str ''ORD-4''), (''amount'', Num 50000),
           (''userId'', Str ''user-1''), (''status'', Str ''pending'')]"
  define n where "n = [(''order_id'', Str ''ORD-4''), (''transaction_status'', Str ''settlement''),
                    (''fraud_status'', Str ''accept'')]"
  let ?p = "provider_reporting ''ORD-4'' ''settlement''"
  have docs: "transactions no_booking_store ''ORD-4'' = Some t"
    "orders no_booking_store ''ORD-4'' = Some od"
    unfolding t_def od_def by (rule ord4_facts)+
  have f: "field t ''status'' = Str ''pending''" "truthy (field t ''snap_token'')"
    "field od ''bookingId'' = Str ''BOOK-4''"
    by (simp_all add: field_def t_def od_def)
  have p: "transaction_status ?p ''ORD-4'' = Inr n"
    by (simp add: provider_reporting_def n_def)
  have m: "mapStatus_checkStatus (oprop n ''transaction_status'')
           (field t ''status'', field t ''paymentStatus'', field t ''tagihanStatus'')
            = (Str ''confirmed'', Str ''Berhasil'', Str ''Berhasil'')"
    by (simp add: mapStatus_checkStatus_def oprop_def n_def)
  have b: "tagihan no_booking_store ''ORD-4'' = None \<or> bookings no_booking_store ''BOOK-4'' = None"
    by (simp add: ord4_facts(4))
  note rc = checkStatus_reconcile_uncommitted [OF f(2) p m b, of env0]
  show ?thesis
    by (simp add: checkStatus_route_def fixture_ids docs f(3) rc)
       (simp add: stored_def docs f(1))
qed

section \<open>Polling an order that has no provider token\<close>

text \<open>
  C9 (as amended). A status check of an order whose transaction document carries no
  snap token (the field is absent, null or empty) makes no call to the provider and
  leaves the store as it is. When the order document exists and its bookingId names a
  document, the response is a success whose data are the stored status, paymentStatus
  and tagihanStatus of the transaction, marked as local, and the stored order, tagihan
  and booking. When the order document is absent the response is 404 \<open>Order not
  found\<close>, and when the bookingId of the order names no document it is 500 \<open>Failed to
  check status\<close>.
\<close>

theorem poll_without_token:
  assumes oid: "docRef (Str orderId) = Some oid"
    and t: "transactions s oid = Some t"
    and nt: "\<not> truthy (field t ''snap_token'')"
  shows "snd (checkStatus_route e p orderId s) = (s, [])
       \<and> fst (checkStatus_route e p orderId s) =
           (case orders s oid of
              None \<Rightarrow> Err 404 ''Order not found''
            | Some od \<Rightarrow>
                (case docRef (field od ''bookingId'') of
                   None \<Rightarrow> Err 500 ''Failed to check status''
                 | Some bid \<Rightarrow>
                     Ok 200 \<lparr>data_transaction =
                          [(''orderId'', Str orderId), (''status'', field t ''status''),
                           (''paymentStatus'', field t ''paymentStatus''),
                           (''tagihanStatus'', field t ''tagihanStatus''),
                           (''isLocalStatus'', Bool True),
                           (''transaction_status'', field t ''status'')],
                       data_order = Some od,
                       data_tagihan = tagihan s oid,
                       data_booking = bookings s bid\<rparr>))"
  using assms
  by (simp add: checkStatus_route_def checkStatus_reconcile_def split: option.splits)

text \<open>The amended C9 at the order ORD-3, whose transaction has no token, while the
  provider would report \<open>settlement\<close>.\<close>

theorem poll_without_token_witness:
  "docRef (Str ''ORD-3'') = Some ''ORD-3''
   \<and> transactions no_token_store ''ORD-3'' = Some (map_of
          [(''orderId'', Str ''ORD-3''), (''bookingId'', Str ''BOOK-3''), (''amount'', Num 50000),
           (''userId'', Str ''user-1''), (''status'', Str ''pending'')])
   \<and> truthy (stored (transactions no_token_store) ''ORD-3'' ''snap_token'') = False
   \<and> snd (checkStatus_route env0 (provider_reporting ''ORD-3'' ''settlement'') ''ORD-3'' no_token_store)
        = (no_token_store, [])
   \<and> map_option data_transaction (response_data (fst
        (checkStatus_route env0 (provider_reporting ''ORD-3'' ''settlement'') ''ORD-3'' no_token_store)))
        = Some [(''orderId'', Str ''ORD-3''), (''status'', Str ''pending''),
                (''paymentStatus'', Undefined), (''tagihanStatus'', Undefined),
                (''isLocalStatus'', Bool True), (''transaction_status'', Str ''pending'')]
   \<and> map_option data_booking (response_data (fst
        (checkStatus_route env0 (provider_reporting ''ORD-3'' ''settlement'') ''ORD-3'' no_token_store)))
        = Some (bookings no_token_store ''BOOK-3'')"
proof -
  let ?t = "map_of [(''orderId'', Str ''ORD-3''), (''bookingId'', Str ''BOOK-3''), (''amount'', Num 50000),
           (''userId'', Str ''user-1''), (''status'', Str ''pending'')]"
  let ?od = "map_of [(''bookingId'', Str ''BOOK-3''), (''orderId'', Str ''ORD-3''), (''amount'', Num 50000),
           (''userId'', Str ''user-1''), (''status'', Str ''pending'')]"
  have t: "transactions no_token_store ''ORD-3'' = Some ?t"
    by (simp add: no_token_store_def)
  have nt: "\<not> truthy (field ?t ''snap_token'')"
    by (simp add: field_def)
  have od: "orders no_token_store ''ORD-3'' = Some ?od"
    by (simp add: no_token_store_def pending_store_def)
  have b: "docRef (field ?od ''bookingId'') = Some ''BOOK-3''"
    by (simp add: field_def fixture_ids)
  from poll_without_token [OF fixture_ids(3) t nt, of env0 "provider_reporting ''ORD-3'' ''settlement''"]
  show ?thesis using t od b by (simp add: stored_def field_def fixture_ids)
qed

text \<open>C9 as the specification words it: the transaction of ORD-3 carries no token and
  the poll does not return the stored state when the order document is absent; it
  answers that the order is not found.\<close>

theorem poll_without_token_not_found_counterexample:
  "transactions no_order_store ''ORD-3'' \<noteq> None
   \<and> truthy (stored (transactions no_order_store) ''ORD-3'' ''snap_token'') = False
   \<and> checkStatus_route env0 (provider_reporting ''ORD-3'' ''settlement'') ''ORD-3'' no_order_store
        = (Err 404 ''Order not found'', no_order_store, [])"
  by (simp add: checkStatus_route_def fixture_ids no_order_store_def no_token_store_def
        stored_def field_def)

section \<open>The status update of a booking\<close>




end
